theory Spec2Isabelle
  imports Main "HOL-Library.Sublist" "HOL-Library.AList"
begin

section \<open>JavaScript values\<close>

text \<open>
  A parsed JSON document. Objects keep their keys in order, as an association list;
  a property that is absent reads as \<open>None\<close> (JavaScript's \<open>undefined\<close>).
  A JSON number is a double: \<open>JNum n\<close> is the one whose value is the integer
  \<open>n\<close>, and \<open>JFrac s\<close> is one whose value is not an integer, named by the text
  \<open>s\<close> that JavaScript prints for it.
\<close>

datatype json =
    JNull
  | JBool bool
  | JNum int
  | JFrac string
  | JStr string
  | JArr "json list"
  | JObj "(string \<times> json) list"

fun truthy :: "json \<Rightarrow> bool" where
  "truthy JNull = False"
| "truthy (JBool b) = b"
| "truthy (JNum n) = (n \<noteq> 0)"
| "truthy (JFrac s) = True"
| "truthy (JStr s) = (s \<noteq> [])"
| "truthy (JArr xs) = True"
| "truthy (JObj kvs) = True"

definition js_truthy :: "json option \<Rightarrow> bool" where
  "js_truthy v = (case v of None \<Rightarrow> False | Some j \<Rightarrow> truthy j)"

text \<open>\<open>value[field]\<close> on a value that is not null: only objects carry the named
  properties this program reads.\<close>

fun get_prop :: "json \<Rightarrow> string \<Rightarrow> json option" where
  "get_prop (JObj kvs) k = map_of kvs k"
| "get_prop j k = None"

text \<open>An error object: \<open>name\<close>, \<open>code\<close>, \<open>response\<close> (status and data) and
  \<open>message\<close>. A thrown value is an error object or \<open>undefined\<close>.\<close>

datatype js_error =
  JsError (err_name: string) (err_code: "string option")
          (err_response: "(int \<times> json) option") (err_message: string)

definition new_Error :: "string \<Rightarrow> js_error" where
  "new_Error msg = JsError ''Error'' None None msg"

definition new_TypeError :: "string \<Rightarrow> js_error" where
  "new_TypeError msg = JsError ''TypeError'' None None msg"

datatype thrown = ThrownUndefined | Thrown js_error

subsection \<open>Strings\<close>

definition str_includes :: "string \<Rightarrow> string \<Rightarrow> bool" where
  "str_includes s sub = sublist sub s"

definition lower_char :: "char \<Rightarrow> char" where
  "lower_char c =
     (let n = (of_char c :: nat) in if 65 \<le> n \<and> n \<le> 90 then char_of (n + 32) else c)"

definition toLowerCase :: "string \<Rightarrow> string" where
  "toLowerCase s = map lower_char s"

definition digit_char :: "nat \<Rightarrow> char" where
  "digit_char d = ''0123456789'' ! d"

function show_digits :: "int \<Rightarrow> string" where
  "show_digits n =
     (if n < 10 then [digit_char (nat n)]
      else show_digits (n div 10) @ [digit_char (nat (n mod 10))])"
  by pat_completeness auto
termination
  by (relation "measure nat") auto

declare show_digits.simps [simp del]

definition show_int :: "int \<Rightarrow> string" where
  "show_int i = (if i < 0 then CHR ''-'' # show_digits (- i) else show_digits i)"

definition show_nat :: "nat \<Rightarrow> string" where
  "show_nat n = show_digits (int n)"

fun join_with :: "string \<Rightarrow> string list \<Rightarrow> string" where
  "join_with sep [] = []"
| "join_with sep [x] = x"
| "join_with sep (x # y # ys) = x @ sep @ join_with sep (y # ys)"

section \<open>Configuration, runtime and world\<close>

text \<open>The fields of \<open>config\<close> that the credential cache and the refresh engine read.\<close>

record config =
  awsSsoProfile :: string
  awsSsoCacheDir :: string
  awsRegion :: string
  oidcEndpoint :: "string option"
  refreshThreshold :: int
  maxRetryAttempts :: int
  retryBackoffSeconds :: int

definition EXPIRY_WARNING_THRESHOLD_MINUTES :: int where
  "EXPIRY_WARNING_THRESHOLD_MINUTES = 10"

definition MAX_CONSECUTIVE_FAILURES :: nat where
  "MAX_CONSECUTIVE_FAILURES = 5"

definition MIN_REQUEST_INTERVAL_MS :: int where
  "MIN_REQUEST_INTERVAL_MS = 5000"

text \<open>\<open>validateConfig\<close>: the checks on the intervals (the checks on the names
  and the log level do not concern the refresh engine).\<close>

definition validateConfig_intervals :: "config \<Rightarrow> bool" where
  "validateConfig_intervals cfg = (0 < refreshThreshold cfg)"

definition getLoginCommand :: "config \<Rightarrow> string" where
  "getLoginCommand cfg = ''aws sso login --profile '' @ awsSsoProfile cfg"

definition getReloginErrorMessage :: "config \<Rightarrow> string \<Rightarrow> string" where
  "getReloginErrorMessage cfg message = message @ [CHR 0x0A] @ ''Please run: '' @ getLoginCommand cfg"

definition getOidcEndpoint :: "config \<Rightarrow> string" where
  "getOidcEndpoint cfg =
     (case oidcEndpoint cfg of
        Some e \<Rightarrow> if e \<noteq> [] then e else ''https://oidc.'' @ awsRegion cfg @ ''.amazonaws.com/token''
      | None \<Rightarrow> ''https://oidc.'' @ awsRegion cfg @ ''.amazonaws.com/token'')"

text \<open>The TypeErrors that the engine itself throws in this program; their messages
  are the engine's.\<close>

datatype engine_fault =
    DestructureNull
  | ReadOfNull string
  | ReadOfUndefined string

text \<open>
  What the JavaScript runtime and the libraries provide: \<open>new Date(s).getTime()\<close>
  (\<open>None\<close> is NaN); \<open>Date.prototype.toISOString\<close> of a valid time value; the
  SHA-1 hex digest; the time value of \<open>new Date(now + v * 1000)\<close> for an operand
  \<open>v\<close> that is a string, an array, an object or a number that is not an integer
  (\<open>None\<close> is NaN); the text of an integer beyond the safe range; and the messages of
  the engine's own TypeErrors.
\<close>

record runtime =
  date_parse :: "string \<Rightarrow> int option"
  to_iso :: "int \<Rightarrow> string"
  sha1 :: "string \<Rightarrow> string"
  time_value :: "int \<Rightarrow> json \<Rightarrow> int option"
  number_text :: "int \<Rightarrow> string"
  fault_message :: "engine_fault \<Rightarrow> string"

datatype file_content = JsonText json | NotJson

datatype axios_outcome = Resolved json | Rejected js_error

datatype log_method =
  Debug | Info | Warn | Error | Startup | Success | Failure | Warning | Refresh | Token

datatype sleep_site = RateLimit | Backoff

datatype effect =
    Slept sleep_site int
  | AxiosPost string "(string \<times> json option) list"
  | WriteFileAtomic string json
  | Chmod string
  | NotifyExpiringSoon int
  | NotifySuccess "json option" "json option"
  | NotifyError string
  | NotifyReloginRequired

text \<open>
  The world a cycle runs in. The environment: the clock read by \<open>Date.now()\<close>
  (it moves only while the program sleeps: a request is answered at once), the
  outcome of \<open>getSsoStartUrl()\<close> (the session configuration source, which this code
  never writes), the cache directory (\<open>None\<close> when it does not exist; each file holds
  text that parses as JSON, or text that does not), the outcome of each future
  \<open>axios.post\<close> call, and the I/O failure, if any, that an atomic write meets.
  The module state: \<open>lastRequestTime\<close>, \<open>abortController\<close>,
  \<open>consecutiveFailures\<close>, \<open>isShuttingDown\<close>, \<open>monitorInterval\<close>.
  What is observed: the logger's calls and the other effects, in order.
\<close>

record world =
  clock :: int
  sso_start_url :: "js_error + string"
  cache_files :: "(string \<times> file_content) list option"
  responses :: "nat \<Rightarrow> axios_outcome"
  write_error :: "js_error option"
  posts :: nat
  lastRequestTime :: int
  abortController :: bool
  consecutiveFailures :: nat
  isShuttingDown :: bool
  monitorInterval :: bool
  logs :: "(log_method \<times> string) list"
  effects :: "effect list"

definition logger :: "log_method \<Rightarrow> string \<Rightarrow> world \<Rightarrow> world" where
  "logger m s w = w\<lparr>logs := logs w @ [(m, s)]\<rparr>"

definition emit :: "effect \<Rightarrow> world \<Rightarrow> world" where
  "emit e w = w\<lparr>effects := effects w @ [e]\<rparr>"

text \<open>\<open>sleep(ms)\<close>: the clock moves on by the delay (a delay below zero fires at once).\<close>

definition sleep :: "sleep_site \<Rightarrow> int \<Rightarrow> world \<Rightarrow> world" where
  "sleep site ms w = emit (Slept site ms) (w\<lparr>clock := clock w + max 0 ms\<rparr>)"

section \<open>cache-manager\<close>

definition validateAndParseDate :: "runtime \<Rightarrow> json option \<Rightarrow> js_error + int" where
  "validateAndParseDate rt dateString =
     (case dateString of
        Some (JStr s) \<Rightarrow>
          if s = [] then Inl (new_Error ''Date string is required and must be a string'')
          else (case date_parse rt s of
                  None \<Rightarrow> Inl (new_Error (''Invalid date format: '' @ [CHR 0x22] @ s @ [CHR 0x22] @
                             ''. Expected ISO 8601 format (e.g., '' @ [CHR 0x22] @
                             ''2026-01-24T14:30:00Z'' @ [CHR 0x22] @ '').''))
                | Some t \<Rightarrow> Inr t)
      | _ \<Rightarrow> Inl (new_Error ''Date string is required and must be a string''))"

definition cache_path :: "config \<Rightarrow> string \<Rightarrow> string" where
  "cache_path cfg filename = awsSsoCacheDir cfg @ ''/'' @ filename"

text \<open>\<open>JSON.parse(await fsPromises.readFile(path, 'utf8'))\<close>.\<close>

definition readFile_parse :: "config \<Rightarrow> string \<Rightarrow> world \<Rightarrow> js_error + json" where
  "readFile_parse cfg filename w =
     (case cache_files w of
        None \<Rightarrow> Inl (JsError ''Error'' (Some ''ENOENT'') None
                  (''ENOENT: no such file or directory, open '' @ cache_path cfg filename))
      | Some files \<Rightarrow>
          (case map_of files filename of
             None \<Rightarrow> Inl (JsError ''Error'' (Some ''ENOENT'') None
                       (''ENOENT: no such file or directory, open '' @ cache_path cfg filename))
           | Some NotJson \<Rightarrow> Inl (JsError ''SyntaxError'' None None ''Unexpected token in JSON'')
           | Some (JsonText j) \<Rightarrow> Inr j))"

text \<open>The scan of the cache directory for a file whose \<open>startUrl\<close> matches: a file
  that cannot be parsed, or that holds \<open>null\<close>, is skipped.\<close>

fun find_matching :: "config \<Rightarrow> string \<Rightarrow> string list \<Rightarrow> world \<Rightarrow> string option \<times> world" where
  "find_matching cfg startUrl [] w = (None, w)"
| "find_matching cfg startUrl (filename # rest) w =
     (case readFile_parse cfg filename w of
        Inl err \<Rightarrow> find_matching cfg startUrl rest (logger Debug ''Skipping invalid cache file'' w)
      | Inr data \<Rightarrow>
          if data = JNull
          then find_matching cfg startUrl rest (logger Debug ''Skipping invalid cache file'' w)
          else if get_prop data ''startUrl'' = Some (JStr startUrl)
          then (Some filename, logger Debug ''Found cache file with matching startUrl'' w)
          else find_matching cfg startUrl rest w)"

text \<open>\<open>getCacheFilePath\<close> returns the name of the file inside the cache directory;
  the path is \<open>cache_path cfg\<close> of it.\<close>

definition getCacheFilePath :: "config \<Rightarrow> runtime \<Rightarrow> world \<Rightarrow> (js_error + string) \<times> world" where
  "getCacheFilePath cfg rt w =
     (case sso_start_url w of
        Inl e \<Rightarrow> (Inl e, w)
      | Inr startUrl \<Rightarrow>
          let computedFilename = sha1 rt startUrl @ ''.json'';
              w1 = logger Debug ''Computed cache file path'' w
          in (case cache_files w1 of
                None \<Rightarrow>
                  (Inl (new_Error (getReloginErrorMessage cfg
                     (''Cache directory not found: '' @ awsSsoCacheDir cfg @ [CHR 0x0A] @
                      ''Please ensure AWS CLI is installed and run: aws sso login --profile '' @
                      awsSsoProfile cfg))),
                   logger Debug ''Computed cache path not found, searching directory for matching startUrl'' w1)
              | Some files \<Rightarrow>
                  (case map_of files computedFilename of
                     Some c \<Rightarrow> (Inr computedFilename, w1)
                   | None \<Rightarrow>
                       let w2 = logger Debug ''Computed cache path not found, searching directory for matching startUrl'' w1;
                           jsonFiles = filter (\<lambda>f. suffix ''.json'' f) (map fst files)
                       in (case find_matching cfg startUrl jsonFiles w2 of
                             (Some filename, w3) \<Rightarrow> (Inr filename, w3)
                           | (None, w3) \<Rightarrow>
                               (Inl (new_Error (getReloginErrorMessage cfg
                                  (''Cache file not found: '' @ cache_path cfg computedFilename @ [CHR 0x0A] @
                                   ''No cache file in '' @ awsSsoCacheDir cfg @
                                   '' matches startUrl: '' @ startUrl))), w3)))))"

definition required_fields :: "string list" where
  "required_fields = [''accessToken'', ''refreshToken'', ''clientId'', ''clientSecret'', ''expiresAt'']"

definition readTokenCache_try :: "config \<Rightarrow> runtime \<Rightarrow> world \<Rightarrow> (js_error + json) \<times> world" where
  "readTokenCache_try cfg rt w =
     (case getCacheFilePath cfg rt w of
        (Inl e, w1) \<Rightarrow> (Inl e, w1)
      | (Inr cachePath, w1) \<Rightarrow>
          (case readFile_parse cfg cachePath w1 of
             Inl e \<Rightarrow> (Inl e, w1)
           | Inr cacheData \<Rightarrow>
               let missing = filter (\<lambda>field. \<not> js_truthy (get_prop cacheData field)) required_fields
               in if cacheData = JNull
                  then (Inl (new_TypeError (fault_message rt (ReadOfNull ''accessToken''))), w1)
                  else if missing \<noteq> []
                  then (Inl (new_Error (getReloginErrorMessage cfg
                          (''Cache file missing required fields: '' @ join_with '', '' missing))), w1)
                  else (case validateAndParseDate rt (get_prop cacheData ''expiresAt'') of
                          Inl dateError \<Rightarrow>
                            (Inl (new_Error (getReloginErrorMessage cfg
                               (''Cache file has invalid expiry date: '' @ err_message dateError))), w1)
                        | Inr t \<Rightarrow> (Inr cacheData, logger Token ''Token cache read successfully'' w1))))"

definition readTokenCache :: "config \<Rightarrow> runtime \<Rightarrow> world \<Rightarrow> (js_error + json) \<times> world" where
  "readTokenCache cfg rt w =
     (case readTokenCache_try cfg rt w of
        (Inr cacheData, w1) \<Rightarrow> (Inr cacheData, w1)
      | (Inl error, w1) \<Rightarrow>
          if err_code error = Some ''ENOENT''
          then (case getCacheFilePath cfg rt w1 of
                  (Inl e2, w2) \<Rightarrow> (Inl e2, w2)
                | (Inr cachePath, w2) \<Rightarrow>
                    (Inl (new_Error (getReloginErrorMessage cfg
                       (''Cache file not found: '' @ cache_path cfg cachePath))), w2))
          else (Inl error, w1))"

text \<open>
  The tokens handed to \<open>writeTokenCache\<close> (and returned by \<open>refreshToken\<close>):
  a property that is absent or \<open>undefined\<close> is \<open>None\<close>.
\<close>

record new_tokens =
  nt_accessToken :: "json option"
  nt_refreshToken :: "json option"
  nt_expiresAt :: "json option"
  nt_expiresIn :: "json option"

definition indexed :: "'a list \<Rightarrow> (string \<times> 'a) list" where
  "indexed xs = map (\<lambda>(i, x). (show_nat i, x)) (enumerate 0 xs)"

text \<open>The own enumerable properties that \<open>{...value}\<close> copies.\<close>

fun spread :: "json \<Rightarrow> (string \<times> json) list" where
  "spread (JObj kvs) = kvs"
| "spread (JArr xs) = indexed xs"
| "spread (JStr s) = indexed (map (\<lambda>c. JStr [c]) s)"
| "spread j = []"

text \<open>\<open>JSON.parse(JSON.stringify(obj))\<close> of an object literal: a property holding
  \<open>undefined\<close> is left out.\<close>

definition stringify_parse :: "(string \<times> json option) list \<Rightarrow> json" where
  "stringify_parse obj = JObj (List.map_filter (\<lambda>(k, v). map_option (Pair k) v) obj)"

definition updatedCache :: "json \<Rightarrow> new_tokens \<Rightarrow> (string \<times> json option) list" where
  "updatedCache currentCache newTokens =
     (let u0 = map (\<lambda>(k, v). (k, Some v)) (spread currentCache);
          u1 = AList.update ''accessToken'' (nt_accessToken newTokens) u0;
          u2 = AList.update ''expiresAt'' (nt_expiresAt newTokens) u1
      in if js_truthy (nt_refreshToken newTokens)
         then AList.update ''refreshToken'' (nt_refreshToken newTokens) u2
         else u2)"

text \<open>\<open>writeFileAtomic(path, text, {mode: 0o600})\<close> followed by \<open>chmod\<close>: the
  file holds the new text, or the write fails and the file is as it was.\<close>

definition writeFileAtomic :: "string \<Rightarrow> json \<Rightarrow> world \<Rightarrow> (js_error + unit) \<times> world" where
  "writeFileAtomic filename j w =
     (case write_error w of
        Some e \<Rightarrow> (Inl e, w)
      | None \<Rightarrow>
          (Inr (), emit (WriteFileAtomic filename j)
             (w\<lparr>cache_files := map_option (AList.update filename (JsonText j)) (cache_files w)\<rparr>)))"

definition writeTokenCache_try :: "config \<Rightarrow> runtime \<Rightarrow> new_tokens \<Rightarrow> world \<Rightarrow> (js_error + bool) \<times> world" where
  "writeTokenCache_try cfg rt newTokens w =
     (case getCacheFilePath cfg rt w of
        (Inl e, w1) \<Rightarrow> (Inl e, w1)
      | (Inr cachePath, w1) \<Rightarrow>
          (case readFile_parse cfg cachePath w1 of
             Inl e \<Rightarrow> (Inl e, w1)
           | Inr currentCache \<Rightarrow>
               (case writeFileAtomic cachePath (stringify_parse (updatedCache currentCache newTokens)) w1 of
                  (Inl e, w2) \<Rightarrow> (Inl e, w2)
                | (Inr u, w2) \<Rightarrow>
                    (Inr True, logger Success ''Token cache updated successfully''
                                 (emit (Chmod cachePath) w2)))))"

definition writeTokenCache :: "config \<Rightarrow> runtime \<Rightarrow> new_tokens \<Rightarrow> world \<Rightarrow> (js_error + bool) \<times> world" where
  "writeTokenCache cfg rt newTokens w =
     (case writeTokenCache_try cfg rt newTokens w of
        (Inr b, w1) \<Rightarrow> (Inr b, w1)
      | (Inl error, w1) \<Rightarrow> (Inl error, logger Failure ''Failed to write token cache'' w1))"

definition getTimeUntilExpiry :: "runtime \<Rightarrow> json option \<Rightarrow> world \<Rightarrow> js_error + int" where
  "getTimeUntilExpiry rt expiresAt w =
     (case validateAndParseDate rt expiresAt of
        Inl e \<Rightarrow> Inl e
      | Inr expiryTime \<Rightarrow> Inr (expiryTime - clock w))"

text \<open>\<open>Math.round(ms / 60000)\<close>: to the nearest minute, a half going up.\<close>

definition round_minutes :: "int \<Rightarrow> int" where
  "round_minutes ms = (ms + 30000) div 60000"

definition shouldRefresh :: "config \<Rightarrow> runtime \<Rightarrow> json option \<Rightarrow> world \<Rightarrow> (js_error + bool) \<times> world" where
  "shouldRefresh cfg rt expiresAt w =
     (case getTimeUntilExpiry rt expiresAt w of
        Inl e \<Rightarrow> (Inl e, w)
      | Inr timeUntilExpiry \<Rightarrow>
          let shouldRefreshNow = (timeUntilExpiry \<le> refreshThreshold cfg)
          in if shouldRefreshNow
             then (Inr shouldRefreshNow,
                   logger Refresh (''Token expires in '' @ show_int (round_minutes timeUntilExpiry) @
                                   '' minutes - refresh needed'') w)
             else (Inr shouldRefreshNow, w))"

definition formatTimeRemaining :: "runtime \<Rightarrow> json option \<Rightarrow> world \<Rightarrow> js_error + string" where
  "formatTimeRemaining rt expiresAt w =
     (case getTimeUntilExpiry rt expiresAt w of
        Inl e \<Rightarrow> Inl e
      | Inr timeUntilExpiry \<Rightarrow>
          let minutes = timeUntilExpiry div 60000;
              hours = minutes div 60
          in if hours > 0
             then Inr (show_int hours @ ''h '' @ show_int (minutes mod 60) @ ''m'')
             else Inr (show_int minutes @ ''m''))"

record token_status =
  ts_expiresAt :: "json option"
  ts_timeUntilExpiry :: "int option"
  ts_expired :: bool
  ts_needsRefresh :: bool
  ts_formattedTimeRemaining :: "string option"
  ts_error :: "string option"

definition getTokenStatus_try :: "config \<Rightarrow> runtime \<Rightarrow> world \<Rightarrow> (js_error + token_status) \<times> world" where
  "getTokenStatus_try cfg rt w =
     (case readTokenCache cfg rt w of
        (Inl e, w1) \<Rightarrow> (Inl e, w1)
      | (Inr cache, w1) \<Rightarrow>
          (case getTimeUntilExpiry rt (get_prop cache ''expiresAt'') w1 of
             Inl e \<Rightarrow> (Inl e, w1)
           | Inr timeUntilExpiry \<Rightarrow>
               (case shouldRefresh cfg rt (get_prop cache ''expiresAt'') w1 of
                  (Inl e, w2) \<Rightarrow> (Inl e, w2)
                | (Inr needsRefresh, w2) \<Rightarrow>
                    (case formatTimeRemaining rt (get_prop cache ''expiresAt'') w2 of
                       Inl e \<Rightarrow> (Inl e, w2)
                     | Inr formatted \<Rightarrow>
                         (Inr \<lparr>ts_expiresAt = get_prop cache ''expiresAt'',
                               ts_timeUntilExpiry = Some timeUntilExpiry,
                               ts_expired = (timeUntilExpiry \<le> 0),
                               ts_needsRefresh = needsRefresh,
                               ts_formattedTimeRemaining = Some formatted,
                               ts_error = None\<rparr>, w2)))))"

definition getTokenStatus :: "config \<Rightarrow> runtime \<Rightarrow> world \<Rightarrow> (js_error + token_status) \<times> world" where
  "getTokenStatus cfg rt w =
     (case getTokenStatus_try cfg rt w of
        (Inr status, w1) \<Rightarrow> (Inr status, w1)
      | (Inl error, w1) \<Rightarrow>
          (Inr \<lparr>ts_expiresAt = None, ts_timeUntilExpiry = None,
                ts_expired = True, ts_needsRefresh = True,
                ts_formattedTimeRemaining = None,
                ts_error = Some (err_message error)\<rparr>, w1))"

section \<open>token-refresher\<close>

subsection \<open>\<open>JSON.stringify\<close> and \<open>sanitizeApiResponse\<close>\<close>

definition hex_digit :: "nat \<Rightarrow> char" where
  "hex_digit d = ''0123456789abcdef'' ! d"

definition escape_char :: "char \<Rightarrow> string" where
  "escape_char c =
     (if c = CHR 0x22 then [CHR 0x5C, CHR 0x22]
      else if c = CHR 0x5C then [CHR 0x5C, CHR 0x5C]
      else if c = CHR 0x08 then [CHR 0x5C, CHR ''b'']
      else if c = CHR 0x0C then [CHR 0x5C, CHR ''f'']
      else if c = CHR 0x0A then [CHR 0x5C, CHR ''n'']
      else if c = CHR 0x0D then [CHR 0x5C, CHR ''r'']
      else if c = CHR 0x09 then [CHR 0x5C, CHR ''t'']
      else if (of_char c :: nat) < 32
      then [CHR 0x5C, CHR ''u'', CHR ''0'', CHR ''0'',
            hex_digit ((of_char c :: nat) div 16), hex_digit ((of_char c :: nat) mod 16)]
      else [c])"

definition quote :: "string \<Rightarrow> string" where
  "quote s = [CHR 0x22] @ concat (map escape_char s) @ [CHR 0x22]"

text \<open>An integer up to \<open>Number.MAX_SAFE_INTEGER\<close> in magnitude is printed with
  its own digits; the text of a larger one is the runtime's.\<close>

definition MAX_SAFE_INTEGER :: int where
  "MAX_SAFE_INTEGER = 9007199254740991"

fun stringify :: "runtime \<Rightarrow> json \<Rightarrow> string" where
  "stringify rt JNull = ''null''"
| "stringify rt (JBool b) = (if b then ''true'' else ''false'')"
| "stringify rt (JNum n) = (if abs n \<le> MAX_SAFE_INTEGER then show_int n else number_text rt n)"
| "stringify rt (JFrac s) = s"
| "stringify rt (JStr s) = quote s"
| "stringify rt (JArr xs) = ''['' @ join_with '','' (map (stringify rt) xs) @ '']''"
| "stringify rt (JObj kvs) =
     ''{'' @ join_with '','' (map (\<lambda>kv. quote (fst kv) @ '':'' @ stringify rt (snd kv)) kvs) @ ''}''"

definition sensitiveFields :: "string list" where
  "sensitiveFields =
     [''accessToken'', ''access_token'', ''refreshToken'', ''refresh_token'', ''token'',
      ''clientSecret'', ''client_secret'', ''secret'', ''password'', ''apiKey'', ''api_key'',
      ''authorization'']"

definition REDACTED :: json where
  "REDACTED = JStr ''[REDACTED]''"

definition redact :: "(string \<times> json) list \<Rightarrow> (string \<times> json) list" where
  "redact obj =
     fold (\<lambda>field sanitized.
             if map_of sanitized field \<noteq> None then AList.update field REDACTED sanitized
             else sanitized)
          sensitiveFields obj"

definition sanitizeApiResponse :: "json \<Rightarrow> json" where
  "sanitizeApiResponse data =
     (if \<not> truthy data then data
      else (case data of
              JObj kvs \<Rightarrow> JObj (redact kvs)
            | JArr xs \<Rightarrow> JObj (redact (indexed xs))
            | _ \<Rightarrow> data))"

subsection \<open>\<open>refreshToken\<close>\<close>

record credentials =
  cr_clientId :: "json option"
  cr_clientSecret :: "json option"
  cr_refreshToken :: "json option"

text \<open>A time value is valid up to 8.64e15 milliseconds either side of the epoch.
  \<open>expiry_time rt now v\<close> is the time value of \<open>new Date(now + v * 1000)\<close>,
  \<open>None\<close> when that date is invalid, in which case \<open>toISOString\<close> throws a
  RangeError.\<close>

definition time_clip :: "int \<Rightarrow> int option" where
  "time_clip t = (if abs t \<le> 8640000000000000 then Some t else None)"

definition expiry_time :: "runtime \<Rightarrow> int \<Rightarrow> json \<Rightarrow> int option" where
  "expiry_time rt now v =
     (case v of
        JNum n \<Rightarrow> time_clip (now + n * 1000)
      | JBool b \<Rightarrow> time_clip (now + (if b then 1000 else 0))
      | JNull \<Rightarrow> time_clip now
      | _ \<Rightarrow> Option.bind (time_value rt now v) time_clip)"

text \<open>The \<open>try\<close> block from the resolved response on.\<close>

definition refreshToken_try :: "runtime \<Rightarrow> credentials \<Rightarrow> json \<Rightarrow> world \<Rightarrow> (js_error + new_tokens) \<times> world" where
  "refreshToken_try rt creds data w =
     (if data = JNull then (Inl (new_TypeError (fault_message rt DestructureNull)), w)
      else
        let accessToken = get_prop data ''accessToken'';
            newRefreshToken = get_prop data ''refreshToken'';
            expiresIn = get_prop data ''expiresIn'';
            w1 = w\<lparr>abortController := False\<rparr>
        in if \<not> js_truthy accessToken \<or> \<not> js_truthy expiresIn
           then (Inl (new_Error ''Invalid response from OIDC endpoint: missing accessToken or expiresIn''), w1)
           else (case Option.bind expiresIn (expiry_time rt (clock w1)) of
                   None \<Rightarrow> (Inl (JsError ''RangeError'' None None ''Invalid time value''), w1)
                 | Some t \<Rightarrow>
                     (Inr \<lparr>nt_accessToken = accessToken,
                           nt_refreshToken = (if js_truthy newRefreshToken then newRefreshToken
                                              else cr_refreshToken creds),
                           nt_expiresAt = Some (JStr (to_iso rt t)),
                           nt_expiresIn = expiresIn\<rparr>,
                      logger Success ''Token refresh successful'' w1)))"

text \<open>The \<open>catch\<close> block: the error it throws in place of the one it caught.\<close>

definition refreshToken_catch :: "config \<Rightarrow> runtime \<Rightarrow> js_error \<Rightarrow> js_error" where
  "refreshToken_catch cfg rt error =
     (if err_name error = ''CanceledError'' \<or> err_code error = Some ''ERR_CANCELED''
      then new_Error ''Token refresh canceled due to shutdown''
      else (case err_response error of
              Some (status, data) \<Rightarrow>
                if status = 400 \<and> data = JNull
                then new_TypeError (fault_message rt (ReadOfNull ''error''))
                else if status = 400 \<and> get_prop data ''error'' = Some (JStr ''invalid_grant'')
                then new_Error (getReloginErrorMessage cfg ''Refresh token is invalid or expired'')
                else if status = 401
                then new_Error (getReloginErrorMessage cfg ''Client credentials are invalid'')
                else new_Error (''OIDC API error ('' @ show_int status @ ''): '' @
                                stringify rt (sanitizeApiResponse data))
            | None \<Rightarrow>
                if err_code error = Some ''ECONNREFUSED'' \<or> err_code error = Some ''ENOTFOUND''
                then new_Error (''Network error: Cannot reach OIDC endpoint at '' @
                                getOidcEndpoint cfg @ ''. Check your internet connection.'')
                else if err_code error = Some ''ETIMEDOUT'' \<or> err_code error = Some ''ECONNABORTED''
                then new_Error (''Request timeout: OIDC endpoint at '' @ getOidcEndpoint cfg @
                                '' did not respond in time.'')
                else new_Error (''Token refresh failed: '' @ err_message error)))"

definition refreshToken :: "config \<Rightarrow> runtime \<Rightarrow> credentials \<Rightarrow> world \<Rightarrow> (js_error + new_tokens) \<times> world" where
  "refreshToken cfg rt creds w =
     (let timeSinceLastRequest = clock w - lastRequestTime w;
          w1 = (if timeSinceLastRequest < MIN_REQUEST_INTERVAL_MS
                then sleep RateLimit (MIN_REQUEST_INTERVAL_MS - timeSinceLastRequest)
                       (logger Debug (''Rate limiting: waiting '' @
                          show_int (MIN_REQUEST_INTERVAL_MS - timeSinceLastRequest) @
                          ''ms before OIDC request to prevent hammering endpoint'') w)
                else w);
          w2 = w1\<lparr>lastRequestTime := clock w1\<rparr>;
          w3 = logger Refresh ''Attempting token refresh'' w2;
          w4 = w3\<lparr>abortController := True\<rparr>;
          w5 = emit (AxiosPost (getOidcEndpoint cfg)
                       [(''clientId'', cr_clientId creds), (''clientSecret'', cr_clientSecret creds),
                        (''grantType'', Some (JStr ''refresh_token'')),
                        (''refreshToken'', cr_refreshToken creds)])
                    (w4\<lparr>posts := Suc (posts w4)\<rparr>)
      in (case responses w (posts w) of
            Resolved data \<Rightarrow>
              (case refreshToken_try rt creds data w5 of
                 (Inr tokens, w6) \<Rightarrow> (Inr tokens, w6)
               | (Inl error, w6) \<Rightarrow> (Inl (refreshToken_catch cfg rt error), w6\<lparr>abortController := False\<rparr>))
          | Rejected error \<Rightarrow> (Inl (refreshToken_catch cfg rt error), w5\<lparr>abortController := False\<rparr>)))"

subsection \<open>\<open>refreshTokenWithRetry\<close>\<close>

definition nonRetryableErrors :: "string list" where
  "nonRetryableErrors =
     [''invalid_grant'', ''invalid or expired'', ''credentials are invalid'', ''canceled due to shutdown'']"

definition isNonRetryable :: "string \<Rightarrow> bool" where
  "isNonRetryable message =
     list_ex (\<lambda>msg. str_includes (toLowerCase message) (toLowerCase msg)) nonRetryableErrors"

text \<open>The \<open>for\<close> loop from \<open>attempt\<close> on, \<open>lastError\<close> being the last error caught.\<close>

function retry_loop :: "config \<Rightarrow> runtime \<Rightarrow> credentials \<Rightarrow> int \<Rightarrow> int \<Rightarrow> thrown \<Rightarrow> world \<Rightarrow> (thrown + new_tokens) \<times> world" where
  "retry_loop cfg rt creds maxAttempts attempt lastError w =
     (if attempt \<le> maxAttempts
      then (case refreshToken cfg rt creds w of
              (Inr result, w1) \<Rightarrow>
                (Inr result,
                 if attempt > 1
                 then logger Success (''Token refresh succeeded on attempt '' @ show_int attempt @
                                      ''/'' @ show_int maxAttempts) w1
                 else w1)
            | (Inl error, w1) \<Rightarrow>
                if isNonRetryable (err_message error)
                then (Inl (Thrown error),
                      if \<not> str_includes (err_message error) ''canceled due to shutdown''
                      then logger Failure ''Token refresh failed with non-retryable error'' w1
                      else w1)
                else if attempt < maxAttempts
                then retry_loop cfg rt creds maxAttempts (attempt + 1) (Thrown error)
                       (sleep Backoff (retryBackoffSeconds cfg * attempt * 1000)
                          (logger Warning (''Token refresh attempt '' @ show_int attempt @ ''/'' @
                             show_int maxAttempts @ '' failed - retrying in '' @
                             show_int (retryBackoffSeconds cfg * attempt) @ ''s'') w1))
                else retry_loop cfg rt creds maxAttempts (attempt + 1) (Thrown error)
                       (logger Failure (''Token refresh failed after '' @ show_int maxAttempts @
                                        '' attempts'') w1))
      else (Inl lastError, w))"
  by pat_completeness auto
termination
  by (relation "measure (\<lambda>(cfg, rt, creds, maxAttempts, attempt, lastError, w). nat (maxAttempts + 1 - attempt))") auto

declare retry_loop.simps [simp del]

definition refreshTokenWithRetry :: "config \<Rightarrow> runtime \<Rightarrow> credentials \<Rightarrow> int \<Rightarrow> world \<Rightarrow> (thrown + new_tokens) \<times> world" where
  "refreshTokenWithRetry cfg rt creds maxAttempts w =
     retry_loop cfg rt creds maxAttempts 1 ThrownUndefined w"

section \<open>The scheduler cycle\<close>

definition max_failures_warning :: string where
  "max_failures_warning =
     show_nat MAX_CONSECUTIVE_FAILURES @
     '' consecutive failures detected. Consider checking your configuration and network connection.''"

definition refreshTokenIfNeeded_try :: "config \<Rightarrow> runtime \<Rightarrow> world \<Rightarrow> (thrown + unit) \<times> world" where
  "refreshTokenIfNeeded_try cfg rt w =
     (case readTokenCache cfg rt w of
        (Inl e, w1) \<Rightarrow> (Inl (Thrown e), w1)
      | (Inr cache, w1) \<Rightarrow>
          (case shouldRefresh cfg rt (get_prop cache ''expiresAt'') w1 of
             (Inl e, w2) \<Rightarrow> (Inl (Thrown e), w2)
           | (Inr due, w2) \<Rightarrow>
               if \<not> due
               then (case formatTimeRemaining rt (get_prop cache ''expiresAt'') w2 of
                       Inl e \<Rightarrow> (Inl (Thrown e), w2)
                     | Inr timeRemaining \<Rightarrow>
                         (Inr (), (logger Debug (''Token is valid for '' @ timeRemaining @
                                     '' - no refresh needed'') w2)\<lparr>consecutiveFailures := 0\<rparr>))
               else (case getTimeUntilExpiry rt (get_prop cache ''expiresAt'') w2 of
                       Inl e \<Rightarrow> (Inl (Thrown e), w2)
                     | Inr timeUntilExpiry \<Rightarrow>
                         let minutesRemaining = round_minutes timeUntilExpiry;
                             w3 = logger Refresh (''Token expires in '' @ show_int minutesRemaining @
                                    '' minutes - refreshing now'') w2;
                             w4 = (if minutesRemaining \<le> EXPIRY_WARNING_THRESHOLD_MINUTES
                                   then emit (NotifyExpiringSoon minutesRemaining) w3 else w3);
                             credentials = \<lparr>cr_clientId = get_prop cache ''clientId'',
                                            cr_clientSecret = get_prop cache ''clientSecret'',
                                            cr_refreshToken = get_prop cache ''refreshToken''\<rparr>
                         in (case refreshTokenWithRetry cfg rt credentials (maxRetryAttempts cfg) w4 of
                               (Inl e, w5) \<Rightarrow> (Inl e, w5)
                             | (Inr newTokens, w5) \<Rightarrow>
                                 (case writeTokenCache cfg rt newTokens w5 of
                                    (Inl e, w6) \<Rightarrow> (Inl (Thrown e), w6)
                                  | (Inr b, w6) \<Rightarrow>
                                      (Inr (), logger Success ''Token refresh cycle completed successfully''
                                         ((emit (NotifySuccess (nt_expiresAt newTokens) (nt_expiresIn newTokens)) w6)
                                            \<lparr>consecutiveFailures := 0\<rparr>)))))))"

text \<open>The \<open>catch\<close> block. Reading \<open>error.message\<close> of \<open>undefined\<close> throws a
  TypeError, after the counter has been incremented.\<close>

definition refreshTokenIfNeeded_catch :: "config \<Rightarrow> runtime \<Rightarrow> thrown \<Rightarrow> world \<Rightarrow> (thrown + unit) \<times> world" where
  "refreshTokenIfNeeded_catch cfg rt error w =
     (let w1 = w\<lparr>consecutiveFailures := Suc (consecutiveFailures w)\<rparr>
      in (case error of
            ThrownUndefined \<Rightarrow>
              (Inl (Thrown (new_TypeError (fault_message rt (ReadOfUndefined ''message'')))), w1)
          | Thrown e \<Rightarrow>
              let w2 = logger Failure (''Token refresh failed ('' @ show_nat (consecutiveFailures w1) @
                         ''/'' @ show_nat MAX_CONSECUTIVE_FAILURES @ '')'') w1;
                  w3 = (if str_includes (err_message e) ''invalid or expired'' \<or>
                           str_includes (err_message e) ''invalid_grant''
                        then logger Error (getReloginErrorMessage cfg ''Refresh token is no longer valid'')
                               (emit NotifyReloginRequired w2)
                        else emit (NotifyError (err_message e)) w2);
                  w4 = (if consecutiveFailures w3 = MAX_CONSECUTIVE_FAILURES
                        then logger Warning max_failures_warning w3 else w3)
              in (Inr (), w4)))"

definition refreshTokenIfNeeded :: "config \<Rightarrow> runtime \<Rightarrow> world \<Rightarrow> (thrown + unit) \<times> world" where
  "refreshTokenIfNeeded cfg rt w =
     (if isShuttingDown w then (Inr (), w)
      else (case refreshTokenIfNeeded_try cfg rt w of
              (Inr u, w1) \<Rightarrow> (Inr u, w1)
            | (Inl error, w1) \<Rightarrow> refreshTokenIfNeeded_catch cfg rt error w1))"

section \<open>Auxiliary notions\<close>

text \<open>What \<open>readTokenCache\<close> asks of the parsed record.\<close>

definition valid_cache :: "runtime \<Rightarrow> json \<Rightarrow> bool" where
  "valid_cache rt cacheData =
     (cacheData \<noteq> JNull \<and>
      filter (\<lambda>field. \<not> js_truthy (get_prop cacheData field)) required_fields = [] \<and>
      (case validateAndParseDate rt (get_prop cacheData ''expiresAt'') of
         Inl e \<Rightarrow> False | Inr t \<Rightarrow> True))"

text \<open>The rendering of \<open>formatTimeRemaining\<close> for a remaining time in milliseconds.\<close>

definition format_ms :: "int \<Rightarrow> string" where
  "format_ms ms =
     (if ms div 60000 div 60 > 0
      then show_int (ms div 60000 div 60) @ ''h '' @ show_int (ms div 60000 mod 60) @ ''m''
      else show_int (ms div 60000) @ ''m'')"

text \<open>The result of the \<open>try\<close> block of \<open>refreshToken\<close> on a resolved response
  read at time \<open>now\<close>, and the result of one whole attempt on the outcome of its
  request.\<close>

definition try_result :: "runtime \<Rightarrow> credentials \<Rightarrow> json \<Rightarrow> int \<Rightarrow> js_error + new_tokens" where
  "try_result rt creds data now =
     (if data = JNull then Inl (new_TypeError (fault_message rt DestructureNull))
      else if \<not> js_truthy (get_prop data ''accessToken'') \<or> \<not> js_truthy (get_prop data ''expiresIn'')
      then Inl (new_Error ''Invalid response from OIDC endpoint: missing accessToken or expiresIn'')
      else (case Option.bind (get_prop data ''expiresIn'') (expiry_time rt now) of
              None \<Rightarrow> Inl (JsError ''RangeError'' None None ''Invalid time value'')
            | Some t \<Rightarrow>
                Inr \<lparr>nt_accessToken = get_prop data ''accessToken'',
                     nt_refreshToken = (if js_truthy (get_prop data ''refreshToken'')
                                        then get_prop data ''refreshToken''
                                        else cr_refreshToken creds),
                     nt_expiresAt = Some (JStr (to_iso rt t)),
                     nt_expiresIn = get_prop data ''expiresIn''\<rparr>))"

definition exchange :: "config \<Rightarrow> runtime \<Rightarrow> credentials \<Rightarrow> int \<Rightarrow> axios_outcome \<Rightarrow> js_error + new_tokens" where
  "exchange cfg rt creds now outcome =
     (case outcome of
        Rejected error \<Rightarrow> Inl (refreshToken_catch cfg rt error)
      | Resolved data \<Rightarrow>
          (case try_result rt creds data now of
             Inl error \<Rightarrow> Inl (refreshToken_catch cfg rt error)
           | Inr tokens \<Rightarrow> Inr tokens))"

text \<open>The world in which \<open>refreshToken\<close> issues its request: after the rate-limit
  wait, if any, with \<open>lastRequestTime\<close> and \<open>abortController\<close> set and the request
  counted.\<close>

definition request_world :: "config \<Rightarrow> credentials \<Rightarrow> world \<Rightarrow> world" where
  "request_world cfg creds w =
     (let timeSinceLastRequest = clock w - lastRequestTime w;
          w1 = (if timeSinceLastRequest < MIN_REQUEST_INTERVAL_MS
                then sleep RateLimit (MIN_REQUEST_INTERVAL_MS - timeSinceLastRequest)
                       (logger Debug (''Rate limiting: waiting '' @
                          show_int (MIN_REQUEST_INTERVAL_MS - timeSinceLastRequest) @
                          ''ms before OIDC request to prevent hammering endpoint'') w)
                else w);
          w2 = w1\<lparr>lastRequestTime := clock w1\<rparr>;
          w3 = logger Refresh ''Attempting token refresh'' w2;
          w4 = w3\<lparr>abortController := True\<rparr>
      in emit (AxiosPost (getOidcEndpoint cfg)
                 [(''clientId'', cr_clientId creds), (''clientSecret'', cr_clientSecret creds),
                  (''grantType'', Some (JStr ''refresh_token'')),
                  (''refreshToken'', cr_refreshToken creds)])
              (w4\<lparr>posts := Suc (posts w4)\<rparr>))"

text \<open>The error an attempt made at time \<open>now\<close> fails with, if it fails, and the
  two kinds of failure that \<open>refreshTokenWithRetry\<close> tells apart.\<close>

definition attempt_error :: "config \<Rightarrow> runtime \<Rightarrow> credentials \<Rightarrow> int \<Rightarrow> axios_outcome \<Rightarrow> js_error option" where
  "attempt_error cfg rt creds now outcome =
     (case exchange cfg rt creds now outcome of Inl e \<Rightarrow> Some e | Inr tokens \<Rightarrow> None)"

definition retryable_failure :: "config \<Rightarrow> runtime \<Rightarrow> credentials \<Rightarrow> int \<Rightarrow> axios_outcome \<Rightarrow> bool" where
  "retryable_failure cfg rt creds now outcome =
     (case attempt_error cfg rt creds now outcome of
        Some e \<Rightarrow> \<not> isNonRetryable (err_message e) | None \<Rightarrow> False)"

definition fatal_failure :: "config \<Rightarrow> runtime \<Rightarrow> credentials \<Rightarrow> int \<Rightarrow> axios_outcome \<Rightarrow> bool" where
  "fatal_failure cfg rt creds now outcome =
     (case attempt_error cfg rt creds now outcome of
        Some e \<Rightarrow> isNonRetryable (err_message e) | None \<Rightarrow> False)"

definition succeeds :: "config \<Rightarrow> runtime \<Rightarrow> credentials \<Rightarrow> int \<Rightarrow> axios_outcome \<Rightarrow> bool" where
  "succeeds cfg rt creds now outcome = (attempt_error cfg rt creds now outcome = None)"

text \<open>The time at which \<open>refreshToken\<close>, called in world \<open>w\<close>, issues its request:
  now, or when the rate limit lets it. \<open>attempt_clock cfg a t j\<close> is the time of the
  request made \<open>j\<close> attempts after attempt number \<open>a\<close>, made at \<open>t\<close>, when all
  attempts in between fail retryably: each is followed by the backoff wait, or by the
  rate-limit wait when that is longer. \<open>attempt_time cfg w j\<close> is the time of request
  number \<open>j + 1\<close> of \<open>refreshTokenWithRetry\<close> called in world \<open>w\<close>.\<close>

definition request_clock :: "world \<Rightarrow> int" where
  "request_clock w = max (clock w) (lastRequestTime w + MIN_REQUEST_INTERVAL_MS)"

fun attempt_clock :: "config \<Rightarrow> int \<Rightarrow> int \<Rightarrow> nat \<Rightarrow> int" where
  "attempt_clock cfg a t 0 = t"
| "attempt_clock cfg a t (Suc j) =
     attempt_clock cfg (a + 1)
       (t + max MIN_REQUEST_INTERVAL_MS (retryBackoffSeconds cfg * a * 1000)) j"

definition attempt_time :: "config \<Rightarrow> world \<Rightarrow> nat \<Rightarrow> int" where
  "attempt_time cfg w j = attempt_clock cfg 1 (request_clock w) j"

text \<open>The backoff waits so far, in milliseconds, in order.\<close>

fun backoff_of :: "effect \<Rightarrow> int list" where
  "backoff_of (Slept Backoff ms) = [ms]"
| "backoff_of e = []"

definition backoffs :: "world \<Rightarrow> int list" where
  "backoffs w = concat (map backoff_of (effects w))"

text \<open>How often the consecutive-failures warning has been logged.\<close>

definition max_warnings :: "world \<Rightarrow> nat" where
  "max_warnings w = length (filter (\<lambda>entry. entry = (Warning, max_failures_warning)) (logs w))"

text \<open>Two worlds that differ in the logger's record only, the consecutive-failures
  warning not being among the new entries.\<close>

definition logs_only :: "world \<Rightarrow> world \<Rightarrow> bool" where
  "logs_only w w' = ((\<exists>l. w' = w\<lparr>logs := l\<rparr>) \<and> max_warnings w' = max_warnings w)"

text \<open>What the refresh engine leaves alone: the cache directory, the session
  configuration, the pending responses, and the scheduler's state.\<close>

definition engine_frame :: "world \<Rightarrow> world \<Rightarrow> bool" where
  "engine_frame w w' =
     (sso_start_url w' = sso_start_url w \<and> cache_files w' = cache_files w \<and>
      responses w' = responses w \<and> write_error w' = write_error w \<and>
      consecutiveFailures w' = consecutiveFailures w \<and> isShuttingDown w' = isShuttingDown w \<and>
      monitorInterval w' = monitorInterval w \<and> max_warnings w' = max_warnings w)"

text \<open>A resolved response, not \<open>null\<close>, that \<open>refreshToken\<close> rejects as invalid.\<close>

definition invalid_response :: "json \<Rightarrow> bool" where
  "invalid_response data =
     (data \<noteq> JNull \<and>
      (\<not> js_truthy (get_prop data ''accessToken'') \<or> \<not> js_truthy (get_prop data ''expiresIn'')))"

text \<open>The world in which a cycle that found the token due calls
  \<open>refreshTokenWithRetry\<close>: the refresh is logged and, when expiry is near, announced.\<close>

definition refresh_announced :: "int \<Rightarrow> world \<Rightarrow> world" where
  "refresh_announced minutesRemaining w =
     (let w3 = logger Refresh (''Token expires in '' @ show_int minutesRemaining @
                               '' minutes - refreshing now'') w
      in if minutesRemaining \<le> EXPIRY_WARNING_THRESHOLD_MINUTES
         then emit (NotifyExpiringSoon minutesRemaining) w3 else w3)"

definition cache_credentials :: "json \<Rightarrow> credentials" where
  "cache_credentials cache =
     \<lparr>cr_clientId = get_prop cache ''clientId'',
      cr_clientSecret = get_prop cache ''clientSecret'',
      cr_refreshToken = get_prop cache ''refreshToken''\<rparr>"

text \<open>Whether the directory scan of \<open>getCacheFilePath\<close> accepts a file.\<close>

definition startUrl_matches :: "config \<Rightarrow> string \<Rightarrow> world \<Rightarrow> string \<Rightarrow> bool" where
  "startUrl_matches cfg startUrl w filename =
     (case readFile_parse cfg filename w of
        Inl e \<Rightarrow> False
      | Inr data \<Rightarrow> data \<noteq> JNull \<and> get_prop data ''startUrl'' = Some (JStr startUrl))"

section \<open>A concrete configuration, runtime and world\<close>

definition example_config :: config where
  "example_config = \<lparr>awsSsoProfile = ''dev'', awsSsoCacheDir = ''/home/u/.aws/sso/cache'',
     awsRegion = ''ca-central-1'', oidcEndpoint = None, refreshThreshold = 300000,
     maxRetryAttempts = 3, retryBackoffSeconds = 10\<rparr>"

text \<open>A runtime that knows three timestamps, one operand of \<open>*\<close> that is
  not a number (the string \<open>3600\<close>) and two integers beyond the safe range, and
  nothing else of these; the digest and the ISO rendering are stand-ins of the right
  shape, and the TypeError messages are those of V8.\<close>

definition example_runtime :: runtime where
  "example_runtime = \<lparr>
     date_parse = (\<lambda>s. if s = ''2026-01-27T08:00:00Z'' then Some 1769500800000
                        else if s = ''2026-01-27T10:30:00Z'' then Some 1769509800000
                        else if s = ''t=1769504160000'' then Some 1769504160000
                        else None),
     to_iso = (\<lambda>t. ''t='' @ show_int t),
     sha1 = (\<lambda>s. ''0a1b2c''),
     time_value = (\<lambda>now v. if v = JStr ''3600'' then Some (now + 3600000) else None),
     number_text = (\<lambda>n. if n = 9007199254740992 then ''9007199254740992''
                         else if n = 1000000000000000000000 then ''1e+21''
                         else ''?''),
     fault_message = (\<lambda>f. case f of
        DestructureNull \<Rightarrow>
          ''Cannot destructure property '' @ [CHR 0x27] @ ''accessToken'' @ [CHR 0x27] @ '' of '' @
          [CHR 0x27] @ ''response.data'' @ [CHR 0x27] @ '' as it is null.''
      | ReadOfNull p \<Rightarrow>
          ''Cannot read properties of null (reading '' @ [CHR 0x27] @ p @ [CHR 0x27] @ '')''
      | ReadOfUndefined p \<Rightarrow>
          ''Cannot read properties of undefined (reading '' @ [CHR 0x27] @ p @ [CHR 0x27] @ '')'')\<rparr>"

definition example_cache :: json where
  "example_cache = JObj [
     (''startUrl'', JStr ''https://test-sso.awsapps.com/start/#''),
     (''region'', JStr ''ca-central-1''),
     (''accessToken'', JStr ''old-token''),
     (''expiresAt'', JStr ''2026-01-27T08:00:00Z''),
     (''clientId'', JStr ''test-client''),
     (''clientSecret'', JStr ''test-secret''),
     (''refreshToken'', JStr ''old-refresh'')]"

definition timeout_error :: js_error where
  "timeout_error = JsError ''Error'' (Some ''ETIMEDOUT'') None ''Request timeout''"

text \<open>Four minutes before the cached token expires; every request times out.\<close>

definition example_world :: world where
  "example_world = \<lparr>clock = 1769500560000,
     sso_start_url = Inr ''https://test-sso.awsapps.com/start/#'',
     cache_files = Some [(''0a1b2c.json'', JsonText example_cache)],
     responses = (\<lambda>k. Rejected timeout_error),
     write_error = None, posts = 0, lastRequestTime = 0, abortController = False,
     consecutiveFailures = 0, isShuttingDown = False, monitorInterval = True,
     logs = [], effects = []\<rparr>"

definition example_credentials :: credentials where
  "example_credentials = \<lparr>cr_clientId = Some (JStr ''test-client''),
     cr_clientSecret = Some (JStr ''test-secret''), cr_refreshToken = Some (JStr ''old-refresh'')\<rparr>"

definition ok_response :: axios_outcome where
  "ok_response = Resolved (JObj [(''accessToken'', JStr ''new-access-token''), (''expiresIn'', JNum 3600)])"

text \<open>A successful response whose \<open>expiresIn\<close> leads beyond the last valid
  date.\<close>

definition far_expiry_response :: axios_outcome where
  "far_expiry_response =
     Resolved (JObj [(''accessToken'', JStr ''new-access-token''), (''expiresIn'', JNum 10000000000000)])"

text \<open>A successful response without \<open>accessToken\<close>.\<close>

definition missing_access_token :: axios_outcome where
  "missing_access_token =
     Resolved (JObj [(''refreshToken'', JStr ''new-refresh-token''), (''expiresIn'', JNum 3600)])"

definition invalid_grant_error :: js_error where
  "invalid_grant_error = JsError ''AxiosError'' (Some ''ERR_BAD_REQUEST'')
     (Some (400, JObj [(''error'', JStr ''invalid_grant''), (''error_description'', JStr ''Token expired'')]))
     ''Request failed with status code 400''"

definition unauthorized_error :: js_error where
  "unauthorized_error = JsError ''AxiosError'' (Some ''ERR_BAD_REQUEST'')
     (Some (401, JObj [(''error'', JStr ''unauthorized''), (''accessToken'', JStr ''tok-123'')]))
     ''Request failed with status code 401''"

text \<open>Tokens as \<open>refreshToken\<close> returns them when the endpoint sends no new refresh
  token; the same with an empty refresh token; and tokens whose \<open>expiresAt\<close> is not a
  date.\<close>

definition example_tokens :: new_tokens where
  "example_tokens = \<lparr>nt_accessToken = Some (JStr ''new-access-token''), nt_refreshToken = None,
     nt_expiresAt = Some (JStr ''2026-01-27T10:30:00Z''), nt_expiresIn = Some (JNum 3600)\<rparr>"

definition empty_refresh_tokens :: new_tokens where
  "empty_refresh_tokens = example_tokens\<lparr>nt_refreshToken := Some (JStr '''')\<rparr>"

definition undated_tokens :: new_tokens where
  "undated_tokens = example_tokens\<lparr>nt_expiresAt := Some (JStr ''soon'')\<rparr>"

text \<open>A server error whose payload carries credentials, as in the test suite; and one
  whose payload carries an \<open>idToken\<close> and a nested \<open>accessToken\<close>.\<close>

definition server_error :: js_error where
  "server_error = JsError ''AxiosError'' (Some ''ERR_BAD_RESPONSE'')
     (Some (500, JObj [(''error'', JStr ''server_error''),
                       (''accessToken'', JStr ''should-be-redacted''),
                       (''clientSecret'', JStr ''should-be-redacted''),
                       (''password'', JStr ''should-be-redacted'')]))
     ''Request failed with status code 500''"

definition unlisted_credentials_error :: js_error where
  "unlisted_credentials_error = JsError ''AxiosError'' (Some ''ERR_BAD_RESPONSE'')
     (Some (500, JObj [(''error'', JStr ''server_error''), (''idToken'', JStr ''tok-123''),
                       (''session'', JObj [(''accessToken'', JStr ''tok-456'')])]))
     ''Request failed with status code 500''"

section \<open>Properties\<close>

lemma logger_fields [simp]:
  "clock (logger m s w) = clock w"
  "sso_start_url (logger m s w) = sso_start_url w"
  "cache_files (logger m s w) = cache_files w"
  "responses (logger m s w) = responses w"
  "write_error (logger m s w) = write_error w"
  "posts (logger m s w) = posts w"
  "lastRequestTime (logger m s w) = lastRequestTime w"
  "abortController (logger m s w) = abortController w"
  "consecutiveFailures (logger m s w) = consecutiveFailures w"
  "isShuttingDown (logger m s w) = isShuttingDown w"
  "monitorInterval (logger m s w) = monitorInterval w"
  "effects (logger m s w) = effects w"
  "logs (logger m s w) = logs w @ [(m, s)]"
  by (simp_all add: logger_def)

lemma emit_fields [simp]:
  "clock (emit e w) = clock w"
  "sso_start_url (emit e w) = sso_start_url w"
  "cache_files (emit e w) = cache_files w"
  "responses (emit e w) = responses w"
  "write_error (emit e w) = write_error w"
  "posts (emit e w) = posts w"
  "lastRequestTime (emit e w) = lastRequestTime w"
  "abortController (emit e w) = abortController w"
  "consecutiveFailures (emit e w) = consecutiveFailures w"
  "isShuttingDown (emit e w) = isShuttingDown w"
  "monitorInterval (emit e w) = monitorInterval w"
  "logs (emit e w) = logs w"
  "effects (emit e w) = effects w @ [e]"
  by (simp_all add: emit_def)

lemma sleep_fields [simp]:
  "clock (sleep site ms w) = clock w + max 0 ms"
  "sso_start_url (sleep site ms w) = sso_start_url w"
  "cache_files (sleep site ms w) = cache_files w"
  "responses (sleep site ms w) = responses w"
  "write_error (sleep site ms w) = write_error w"
  "posts (sleep site ms w) = posts w"
  "lastRequestTime (sleep site ms w) = lastRequestTime w"
  "abortController (sleep site ms w) = abortController w"
  "consecutiveFailures (sleep site ms w) = consecutiveFailures w"
  "isShuttingDown (sleep site ms w) = isShuttingDown w"
  "monitorInterval (sleep site ms w) = monitorInterval w"
  "logs (sleep site ms w) = logs w"
  "effects (sleep site ms w) = effects w @ [Slept site ms]"
  by (simp_all add: sleep_def)

lemma show_nat_5: "show_nat 5 = ''5''"
  by (simp add: show_nat_def show_digits.simps digit_char_def)

lemma max_warnings_fields [simp]:
  "max_warnings (emit e w) = max_warnings w"
  "max_warnings (sleep site ms w) = max_warnings w"
  "max_warnings (w\<lparr>clock := c\<rparr>) = max_warnings w"
  "max_warnings (w\<lparr>posts := p\<rparr>) = max_warnings w"
  "max_warnings (w\<lparr>lastRequestTime := t\<rparr>) = max_warnings w"
  "max_warnings (w\<lparr>abortController := b\<rparr>) = max_warnings w"
  "max_warnings (w\<lparr>consecutiveFailures := n\<rparr>) = max_warnings w"
  "max_warnings (w\<lparr>cache_files := fs\<rparr>) = max_warnings w"
  "max_warnings (w\<lparr>responses := rs\<rparr>) = max_warnings w"
  "max_warnings (w\<lparr>sso_start_url := u\<rparr>) = max_warnings w"
  "max_warnings (w\<lparr>write_error := we\<rparr>) = max_warnings w"
  "max_warnings (w\<lparr>isShuttingDown := sd\<rparr>) = max_warnings w"
  "max_warnings (w\<lparr>monitorInterval := mi\<rparr>) = max_warnings w"
  "max_warnings (w\<lparr>effects := es\<rparr>) = max_warnings w"
  by (simp_all add: max_warnings_def)

lemma max_warnings_logger:
  "max_warnings (logger m s w) =
     (if m = Warning \<and> s = max_failures_warning then Suc (max_warnings w) else max_warnings w)"
  by (simp add: max_warnings_def)

lemma max_warnings_logger_other [simp]: "m \<noteq> Warning \<Longrightarrow> max_warnings (logger m s w) = max_warnings w"
  by (simp add: max_warnings_logger)

lemma max_warnings_retry_warning [simp]:
  "max_warnings (logger Warning (CHR ''T'' # s) w) = max_warnings w"
  by (simp add: max_warnings_logger max_failures_warning_def MAX_CONSECUTIVE_FAILURES_def show_nat_5)

lemma logs_only_refl [simp]: "logs_only w w"
  unfolding logs_only_def by (intro conjI exI [of _ "logs w"]) simp_all

lemma logs_only_logger [simp]:
  "m \<noteq> Warning \<Longrightarrow> logs_only w w' \<Longrightarrow> logs_only w (logger m s w')"
  by (auto simp: logs_only_def logger_def max_warnings_def)

lemma logs_only_trans: "logs_only w w' \<Longrightarrow> logs_only w' w'' \<Longrightarrow> logs_only w w''"
  by (auto simp: logs_only_def)

lemma logs_only_fields:
  assumes "logs_only w w'"
  shows "clock w' = clock w" "sso_start_url w' = sso_start_url w"
    "cache_files w' = cache_files w" "responses w' = responses w"
    "write_error w' = write_error w" "posts w' = posts w"
    "lastRequestTime w' = lastRequestTime w" "abortController w' = abortController w"
    "consecutiveFailures w' = consecutiveFailures w" "isShuttingDown w' = isShuttingDown w"
    "monitorInterval w' = monitorInterval w" "effects w' = effects w"
    "max_warnings w' = max_warnings w"
  using assms by (auto simp: logs_only_def)

lemma readFile_parse_cong:
  "cache_files w = cache_files w' \<Longrightarrow> readFile_parse cfg f w = readFile_parse cfg f w'"
  by (simp add: readFile_parse_def)

lemma find_matching_logs_only: "logs_only w (snd (find_matching cfg s names w))"
proof (induction names arbitrary: w)
  case Nil
  show ?case by simp
next
  case (Cons f names)
  have step: "logs_only w (snd (find_matching cfg s names (logger Debug t w)))" for t
    using Cons.IH [of "logger Debug t w"] logs_only_trans [of w "logger Debug t w"] by simp
  show ?case
    using step Cons.IH [of w] by (simp split: sum.split)
qed

lemma find_matching_cong:
  "cache_files w = cache_files w' \<Longrightarrow>
   fst (find_matching cfg s names w) = fst (find_matching cfg s names w')"
proof (induction names arbitrary: w w')
  case Nil
  show ?case by simp
next
  case (Cons f names)
  have rd: "readFile_parse cfg f w = readFile_parse cfg f w'"
    using Cons.prems by (rule readFile_parse_cong)
  have a: "fst (find_matching cfg s names (logger m t w)) = fst (find_matching cfg s names (logger m t w'))" for m t
    using Cons.prems by (intro Cons.IH) simp
  have b: "fst (find_matching cfg s names w) = fst (find_matching cfg s names w')"
    using Cons.prems by (rule Cons.IH)
  show ?case
    using a b by (simp add: rd split: sum.split)
qed

lemma getCacheFilePath_logs_only: "logs_only w (snd (getCacheFilePath cfg rt w))"
proof -
  have "logs_only w (snd (find_matching cfg s names (logger Debug t (logger Debug t' w))))" for s names t t'
    using find_matching_logs_only [of "logger Debug t (logger Debug t' w)" cfg s names]
      logs_only_trans [of w "logger Debug t (logger Debug t' w)"] by simp
  then show ?thesis
    by (simp add: getCacheFilePath_def Let_def case_prod_unfold split: sum.split option.split)
qed

lemma getCacheFilePath_cong:
  assumes "sso_start_url w = sso_start_url w'" "cache_files w = cache_files w'"
  shows "fst (getCacheFilePath cfg rt w) = fst (getCacheFilePath cfg rt w')"
proof -
  have "fst (find_matching cfg s names (logger m t (logger m' t' w)))
      = fst (find_matching cfg s names (logger m t (logger m' t' w')))" for s names m t m' t'
    using assms by (intro find_matching_cong) simp
  then show ?thesis
    using assms
    by (simp add: getCacheFilePath_def Let_def case_prod_unfold split: sum.split option.split)
qed


lemma readFile_parse_getCacheFilePath [simp]:
  "readFile_parse cfg f (snd (getCacheFilePath cfg rt w)) = readFile_parse cfg f w"
  using getCacheFilePath_logs_only [of w cfg rt]
  by (intro readFile_parse_cong) (simp add: logs_only_fields)

lemma readTokenCache_try_logs_only: "logs_only w (snd (readTokenCache_try cfg rt w))"
  using getCacheFilePath_logs_only [of w cfg rt]
  by (simp add: readTokenCache_try_def Let_def case_prod_unfold split: sum.split)

lemma readTokenCache_logs_only: "logs_only w (snd (readTokenCache cfg rt w))"
proof -
  have a: "logs_only w (snd (readTokenCache_try cfg rt w))"
    by (rule readTokenCache_try_logs_only)
  have b: "logs_only w (snd (getCacheFilePath cfg rt (snd (readTokenCache_try cfg rt w))))"
    using a getCacheFilePath_logs_only logs_only_trans by blast
  show ?thesis
    using a b by (simp add: readTokenCache_def case_prod_unfold split: sum.split)
qed

lemma readTokenCache_try_Inr:
  assumes "fst (readTokenCache cfg rt w) = Inr cache"
  shows "fst (readTokenCache_try cfg rt w) = Inr cache"
  using assms by (simp add: readTokenCache_def case_prod_unfold split: sum.splits if_splits)

lemma readTokenCache_try_fst:
  "fst (readTokenCache_try cfg rt w) =
     (case fst (getCacheFilePath cfg rt w) of
        Inl e \<Rightarrow> Inl e
      | Inr f \<Rightarrow>
          (case readFile_parse cfg f w of
             Inl e \<Rightarrow> Inl e
           | Inr cacheData \<Rightarrow>
               if cacheData = JNull then Inl (new_TypeError (fault_message rt (ReadOfNull ''accessToken'')))
               else if filter (\<lambda>field. \<not> js_truthy (get_prop cacheData field)) required_fields \<noteq> []
               then Inl (new_Error (getReloginErrorMessage cfg
                          (''Cache file missing required fields: '' @ join_with '', ''
                             (filter (\<lambda>field. \<not> js_truthy (get_prop cacheData field)) required_fields))))
               else (case validateAndParseDate rt (get_prop cacheData ''expiresAt'') of
                       Inl dateError \<Rightarrow>
                         Inl (new_Error (getReloginErrorMessage cfg
                               (''Cache file has invalid expiry date: '' @ err_message dateError)))
                     | Inr t \<Rightarrow> Inr cacheData)))"
  by (simp add: readTokenCache_try_def Let_def case_prod_unfold split: sum.split)


lemma readTokenCache_InrD:
  assumes "fst (readTokenCache cfg rt w) = Inr cache"
  shows "\<exists>f. fst (getCacheFilePath cfg rt w) = Inr f \<and> readFile_parse cfg f w = Inr cache \<and>
             valid_cache rt cache"
proof -
  have "fst (readTokenCache_try cfg rt w) = Inr cache"
    using assms by (rule readTokenCache_try_Inr)
  then show ?thesis
    unfolding readTokenCache_try_fst valid_cache_def
    by (simp split: sum.splits if_splits)
qed

lemma readTokenCache_InrI:
  assumes "fst (getCacheFilePath cfg rt w) = Inr f" "readFile_parse cfg f w = Inr cache"
    "valid_cache rt cache"
  shows "fst (readTokenCache cfg rt w) = Inr cache"
proof -
  have "fst (readTokenCache_try cfg rt w) = Inr cache"
    using assms unfolding readTokenCache_try_fst valid_cache_def
    by (simp split: sum.splits)
  then show ?thesis
    by (simp add: readTokenCache_def case_prod_unfold split: sum.splits)
qed

lemma valid_cache_date:
  "valid_cache rt cache \<Longrightarrow> \<exists>t. validateAndParseDate rt (get_prop cache ''expiresAt'') = Inr t"
  by (simp add: valid_cache_def split: sum.splits)

text \<open>
  Claim C7. For an \<open>expiresAt\<close> that \<open>validateAndParseDate\<close> accepts,
  \<open>shouldRefresh\<close> returns true exactly when \<open>getTimeUntilExpiry\<close> is at most
  \<open>refreshThreshold\<close>; an expiry exactly \<open>refreshThreshold\<close> ahead yields true; and,
  under a configuration that \<open>validateConfig\<close> accepts, an expiry already past yields
  true, with a negative \<open>getTimeUntilExpiry\<close>.
\<close>

theorem shouldRefresh_threshold_inclusive:
  assumes "validateAndParseDate rt expiresAt = Inr t"
  shows "getTimeUntilExpiry rt expiresAt w = Inr (t - clock w) \<and>
         fst (shouldRefresh cfg rt expiresAt w) = Inr (t - clock w \<le> refreshThreshold cfg) \<and>
         (t - clock w = refreshThreshold cfg \<longrightarrow> fst (shouldRefresh cfg rt expiresAt w) = Inr True) \<and>
         (validateConfig_intervals cfg \<and> t < clock w \<longrightarrow>
            fst (shouldRefresh cfg rt expiresAt w) = Inr True \<and> t - clock w < 0)"
  using assms
  by (simp add: getTimeUntilExpiry_def shouldRefresh_def Let_def validateConfig_intervals_def)

lemma shouldRefresh_logs_only: "logs_only w (snd (shouldRefresh cfg rt e w))"
  by (simp add: shouldRefresh_def Let_def split: sum.split)

text \<open>
  Claim C9. \<open>getTokenStatus\<close> never throws. When \<open>readTokenCache\<close> fails, whatever
  the reason, the status is \<open>expired = true\<close>, \<open>needsRefresh = true\<close> and the
  error's message; when it succeeds, the status holds \<open>expiresAt\<close>,
  \<open>timeUntilExpiry\<close>, \<open>expired\<close>, \<open>needsRefresh\<close> and the formatted remaining
  time.
\<close>

theorem getTokenStatus_never_throws:
  "(\<exists>status. fst (getTokenStatus cfg rt w) = Inr status) \<and>
   (\<forall>e. fst (readTokenCache cfg rt w) = Inl e \<longrightarrow>
      fst (getTokenStatus cfg rt w) =
        Inr \<lparr>ts_expiresAt = None, ts_timeUntilExpiry = None, ts_expired = True,
             ts_needsRefresh = True, ts_formattedTimeRemaining = None,
             ts_error = Some (err_message e)\<rparr>) \<and>
   (\<forall>cache. fst (readTokenCache cfg rt w) = Inr cache \<longrightarrow>
      (\<exists>t. validateAndParseDate rt (get_prop cache ''expiresAt'') = Inr t \<and>
         fst (getTokenStatus cfg rt w) =
           Inr \<lparr>ts_expiresAt = get_prop cache ''expiresAt'',
                ts_timeUntilExpiry = Some (t - clock w),
                ts_expired = (t - clock w \<le> 0),
                ts_needsRefresh = (t - clock w \<le> refreshThreshold cfg),
                ts_formattedTimeRemaining = Some (format_ms (t - clock w)),
                ts_error = None\<rparr>))"
proof (intro conjI allI impI)
  show "\<exists>status. fst (getTokenStatus cfg rt w) = Inr status"
    by (simp add: getTokenStatus_def case_prod_unfold split: sum.split)
next
  fix e assume "fst (readTokenCache cfg rt w) = Inl e"
  then show "fst (getTokenStatus cfg rt w) =
        Inr \<lparr>ts_expiresAt = None, ts_timeUntilExpiry = None, ts_expired = True,
             ts_needsRefresh = True, ts_formattedTimeRemaining = None,
             ts_error = Some (err_message e)\<rparr>"
    by (simp add: getTokenStatus_def getTokenStatus_try_def case_prod_unfold split: sum.split)
next
  fix cache assume rd: "fst (readTokenCache cfg rt w) = Inr cache"
  let ?w1 = "snd (readTokenCache cfg rt w)"
  let ?e = "get_prop cache ''expiresAt''"
  obtain t where t: "validateAndParseDate rt ?e = Inr t"
    using readTokenCache_InrD [OF rd] valid_cache_date by blast
  have c1: "clock ?w1 = clock w"
    using readTokenCache_logs_only [of w cfg rt] by (simp add: logs_only_fields)
  have c2: "clock (snd (shouldRefresh cfg rt ?e ?w1)) = clock w"
    using shouldRefresh_logs_only [of ?w1 cfg rt ?e] c1 by (simp add: logs_only_fields)
  have g: "getTimeUntilExpiry rt ?e ?w1 = Inr (t - clock w)"
    using t c1 by (simp add: getTimeUntilExpiry_def)
  have s: "fst (shouldRefresh cfg rt ?e ?w1) = Inr (t - clock w \<le> refreshThreshold cfg)"
    using g by (simp add: shouldRefresh_def Let_def)
  have f: "formatTimeRemaining rt ?e (snd (shouldRefresh cfg rt ?e ?w1)) = Inr (format_ms (t - clock w))"
    using t c2 by (simp add: formatTimeRemaining_def getTimeUntilExpiry_def format_ms_def Let_def)
  have "fst (getTokenStatus cfg rt w) =
           Inr \<lparr>ts_expiresAt = ?e,
                ts_timeUntilExpiry = Some (t - clock w),
                ts_expired = (t - clock w \<le> 0),
                ts_needsRefresh = (t - clock w \<le> refreshThreshold cfg),
                ts_formattedTimeRemaining = Some (format_ms (t - clock w)),
                ts_error = None\<rparr>"
    using rd g s f
    by (simp add: getTokenStatus_def getTokenStatus_try_def case_prod_unfold)
  with t show "\<exists>t. validateAndParseDate rt ?e = Inr t \<and>
         fst (getTokenStatus cfg rt w) =
           Inr \<lparr>ts_expiresAt = ?e,
                ts_timeUntilExpiry = Some (t - clock w),
                ts_expired = (t - clock w \<le> 0),
                ts_needsRefresh = (t - clock w \<le> refreshThreshold cfg),
                ts_formattedTimeRemaining = Some (format_ms (t - clock w)),
                ts_error = None\<rparr>"
    by blast
qed

lemmas example_defs = example_config_def example_runtime_def example_cache_def example_world_def
  timeout_error_def

lemmas eval_simps = show_int_def show_nat_def show_digits.simps digit_char_def new_Error_def new_TypeError_def
  js_truthy_def required_fields_def

text \<open>Claim C7 at a token that expired one second ago.\<close>

theorem shouldRefresh_threshold_inclusive_witness:
  "validateAndParseDate example_runtime (Some (JStr ''2026-01-27T08:00:00Z'')) = Inr 1769500800000 \<and>
   validateConfig_intervals example_config \<and>
   1769500800000 < clock (example_world\<lparr>clock := 1769500801000\<rparr>) \<and>
   getTimeUntilExpiry example_runtime (Some (JStr ''2026-01-27T08:00:00Z''))
     (example_world\<lparr>clock := 1769500801000\<rparr>) = Inr (- 1000) \<and>
   fst (shouldRefresh example_config example_runtime (Some (JStr ''2026-01-27T08:00:00Z''))
     (example_world\<lparr>clock := 1769500801000\<rparr>)) = Inr True"
proof -
  have v: "validateAndParseDate example_runtime (Some (JStr ''2026-01-27T08:00:00Z'')) = Inr 1769500800000"
    by (simp add: validateAndParseDate_def example_runtime_def)
  have c: "validateConfig_intervals example_config"
    by (simp add: validateConfig_intervals_def example_config_def)
  show ?thesis
    using shouldRefresh_threshold_inclusive [OF v, of "example_world\<lparr>clock := 1769500801000\<rparr>" example_config] v c
    by (simp add: example_config_def)
qed

lemma example_read:
  "fst (readTokenCache example_config example_runtime example_world) = Inr example_cache"
proof -
  have p: "fst (getCacheFilePath example_config example_runtime example_world) = Inr ''0a1b2c.json''"
    by (simp add: getCacheFilePath_def example_world_def example_runtime_def Let_def)
  have r: "readFile_parse example_config ''0a1b2c.json'' example_world = Inr example_cache"
    by (simp add: readFile_parse_def example_world_def)
  have v: "valid_cache example_runtime example_cache"
    by (simp add: valid_cache_def example_cache_def required_fields_def js_truthy_def
        validateAndParseDate_def example_runtime_def)
  show ?thesis using p r v by (rule readTokenCache_InrI)
qed

text \<open>Claim C9 at a readable cache, and at a cache directory that does not exist.\<close>

theorem getTokenStatus_never_throws_witness:
  "fst (readTokenCache example_config example_runtime example_world) = Inr example_cache \<and>
   fst (getTokenStatus example_config example_runtime example_world) =
     Inr \<lparr>ts_expiresAt = Some (JStr ''2026-01-27T08:00:00Z''),
          ts_timeUntilExpiry = Some 240000, ts_expired = False, ts_needsRefresh = True,
          ts_formattedTimeRemaining = Some ''4m'', ts_error = None\<rparr> \<and>
   fst (readTokenCache example_config example_runtime (example_world\<lparr>cache_files := None\<rparr>)) =
     Inl (new_Error (getReloginErrorMessage example_config
       (''Cache directory not found: /home/u/.aws/sso/cache'' @ [CHR 0x0A] @
        ''Please ensure AWS CLI is installed and run: aws sso login --profile dev''))) \<and>
   ts_expired (projr (fst (getTokenStatus example_config example_runtime
      (example_world\<lparr>cache_files := None\<rparr>)))) \<and>
   ts_needsRefresh (projr (fst (getTokenStatus example_config example_runtime
      (example_world\<lparr>cache_files := None\<rparr>))))"
proof -
  have d: "validateAndParseDate example_runtime (get_prop example_cache ''expiresAt'') = Inr 1769500800000"
    by (simp add: validateAndParseDate_def example_runtime_def example_cache_def)
  have f: "format_ms 240000 = ''4m''"
    by (simp add: format_ms_def eval_simps)
  have e: "get_prop example_cache ''expiresAt'' = Some (JStr ''2026-01-27T08:00:00Z'')"
    by (simp add: example_cache_def)
  have c: "clock example_world = 1769500560000" "refreshThreshold example_config = 300000"
    by (simp_all add: example_defs)
  have n: "fst (readTokenCache example_config example_runtime (example_world\<lparr>cache_files := None\<rparr>)) =
     Inl (new_Error (getReloginErrorMessage example_config
       (''Cache directory not found: /home/u/.aws/sso/cache'' @ [CHR 0x0A] @
        ''Please ensure AWS CLI is installed and run: aws sso login --profile dev'')))"
    by (simp add: readTokenCache_def readTokenCache_try_def getCacheFilePath_def Let_def
        example_world_def example_config_def new_Error_def)
  show ?thesis
    using getTokenStatus_never_throws [of example_config example_runtime example_world]
      getTokenStatus_never_throws [of example_config example_runtime "example_world\<lparr>cache_files := None\<rparr>"]
      example_read n d f
    by (simp add: e c)
qed

lemma backoffs_fields [simp]:
  "backoffs (logger m s w) = backoffs w"
  "backoffs (emit e w) = backoffs w @ backoff_of e"
  "backoffs (sleep Backoff ms w) = backoffs w @ [ms]"
  "backoffs (sleep RateLimit ms w) = backoffs w"
  "backoffs (w\<lparr>clock := c\<rparr>) = backoffs w"
  "backoffs (w\<lparr>posts := p\<rparr>) = backoffs w"
  "backoffs (w\<lparr>lastRequestTime := t\<rparr>) = backoffs w"
  "backoffs (w\<lparr>abortController := b\<rparr>) = backoffs w"
  by (simp_all add: backoffs_def sleep_def emit_def)

lemma engine_frame_refl [simp]: "engine_frame w w"
  by (simp add: engine_frame_def)

lemma engine_frame_trans: "engine_frame w w' \<Longrightarrow> engine_frame w' w'' \<Longrightarrow> engine_frame w w''"
  by (simp add: engine_frame_def)

lemma refreshToken_try_fst:
  "fst (refreshToken_try rt creds data w) = try_result rt creds data (clock w)"
  by (simp add: refreshToken_try_def try_result_def Let_def split: option.split)

lemma refreshToken_try_fields [simp]:
  "clock (snd (refreshToken_try rt creds data w)) = clock w"
  "posts (snd (refreshToken_try rt creds data w)) = posts w"
  "backoffs (snd (refreshToken_try rt creds data w)) = backoffs w"
  "engine_frame w (snd (refreshToken_try rt creds data w))"
  "lastRequestTime (snd (refreshToken_try rt creds data w)) = lastRequestTime w"
  by (simp_all add: refreshToken_try_def Let_def engine_frame_def backoffs_def max_warnings_def
      logger_def split: option.split)

lemma engine_frame_upd [simp]:
  "engine_frame w (emit e w') = engine_frame w w'"
  "engine_frame w (sleep site ms w') = engine_frame w w'"
  "engine_frame w (w'\<lparr>clock := c\<rparr>) = engine_frame w w'"
  "engine_frame w (w'\<lparr>posts := p\<rparr>) = engine_frame w w'"
  "engine_frame w (w'\<lparr>lastRequestTime := t\<rparr>) = engine_frame w w'"
  "engine_frame w (w'\<lparr>abortController := b\<rparr>) = engine_frame w w'"
  "m \<noteq> Warning \<Longrightarrow> engine_frame w (logger m s w') = engine_frame w w'"
  "engine_frame w (logger Warning (CHR ''T'' # s) w') = engine_frame w w'"
  by (simp_all add: engine_frame_def)

lemma request_world_fields [simp]:
  "posts (request_world cfg creds w) = Suc (posts w)"
  "backoffs (request_world cfg creds w) = backoffs w"
  "engine_frame w (request_world cfg creds w)"
  by (simp_all add: request_world_def Let_def)

lemma request_world_clock [simp]:
  "clock (request_world cfg creds w) = request_clock w"
  "lastRequestTime (request_world cfg creds w) = request_clock w"
  by (simp_all add: request_world_def request_clock_def Let_def sleep_def emit_def logger_def
      MIN_REQUEST_INTERVAL_MS_def)

lemma refreshToken_eq:
  "refreshToken cfg rt creds w =
     (case responses w (posts w) of
        Resolved data \<Rightarrow>
          (case refreshToken_try rt creds data (request_world cfg creds w) of
             (Inr tokens, w6) \<Rightarrow> (Inr tokens, w6)
           | (Inl error, w6) \<Rightarrow> (Inl (refreshToken_catch cfg rt error), w6\<lparr>abortController := False\<rparr>))
      | Rejected error \<Rightarrow>
          (Inl (refreshToken_catch cfg rt error), (request_world cfg creds w)\<lparr>abortController := False\<rparr>))"
  unfolding refreshToken_def request_world_def Let_def by (rule refl)

lemma refreshToken_clock [simp]:
  "clock (snd (refreshToken cfg rt creds w)) = request_clock w"
  "lastRequestTime (snd (refreshToken cfg rt creds w)) = request_clock w"
  by (simp_all add: refreshToken_eq case_prod_unfold split: axios_outcome.split sum.split)

lemma refreshToken_fst:
  "fst (refreshToken cfg rt creds w) =
     exchange cfg rt creds (request_clock w) (responses w (posts w))"
  by (simp add: refreshToken_eq exchange_def case_prod_unfold refreshToken_try_fst
      split: axios_outcome.split sum.split)

lemma engine_frame_try:
  "engine_frame w (snd (refreshToken_try rt creds data w')) = engine_frame w w'"
  using refreshToken_try_fields(4) [of w' rt creds data] by (auto simp: engine_frame_def)

lemma refreshToken_fields [simp]:
  "posts (snd (refreshToken cfg rt creds w)) = Suc (posts w)"
  "backoffs (snd (refreshToken cfg rt creds w)) = backoffs w"
  "engine_frame w (snd (refreshToken cfg rt creds w))"
  by (simp_all add: refreshToken_eq case_prod_unfold engine_frame_try
      split: axios_outcome.split sum.split)

lemma attempt_clock_mono: "t \<le> attempt_clock cfg a t j"
proof (induction j arbitrary: a t)
  case 0
  show ?case by simp
next
  case (Suc j)
  have "t \<le> t + max MIN_REQUEST_INTERVAL_MS (retryBackoffSeconds cfg * a * 1000)"
    by (simp add: MIN_REQUEST_INTERVAL_MS_def max_def)
  also have "\<dots> \<le> attempt_clock cfg (a + 1)
      (t + max MIN_REQUEST_INTERVAL_MS (retryBackoffSeconds cfg * a * 1000)) j"
    by (rule Suc.IH)
  finally show ?case by simp
qed

lemma retry_loop_frame:
  "engine_frame w (snd (retry_loop cfg rt creds maxAttempts attempt lastError w))"
proof (induction cfg rt creds maxAttempts attempt lastError w rule: retry_loop.induct)
  case (1 cfg rt creds maxAttempts attempt lastError w)
  let ?w1 = "snd (refreshToken cfg rt creds w)"
  have f1: "engine_frame w ?w1" by simp
  have lift: "engine_frame ?w1 w' \<Longrightarrow> engine_frame w w'" for w'
    using f1 engine_frame_trans by blast
  show ?case
  proof (cases "attempt \<le> maxAttempts")
    case False
    then show ?thesis by (subst retry_loop.simps) simp
  next
    case le: True
    show ?thesis
    proof (cases "fst (refreshToken cfg rt creds w)")
      case (Inr result)
      then show ?thesis
        using le f1 by (subst retry_loop.simps) (simp add: case_prod_unfold)
    next
      case (Inl error)
      show ?thesis
      proof (cases "isNonRetryable (err_message error)")
        case True
        then show ?thesis
          using le f1 Inl by (subst retry_loop.simps) (simp add: case_prod_unfold)
      next
        case nr: False
        show ?thesis
        proof (cases "attempt < maxAttempts")
          case True
          let ?w2 = "sleep Backoff (retryBackoffSeconds cfg * attempt * 1000)
                          (logger Warning (''Token refresh attempt '' @ show_int attempt @ ''/'' @
                             show_int maxAttempts @ '' failed - retrying in '' @
                             show_int (retryBackoffSeconds cfg * attempt) @ ''s'') ?w1)"
          have "engine_frame ?w2 (snd (retry_loop cfg rt creds maxAttempts (attempt + 1) (Thrown error) ?w2))"
            by (rule "1.IH"(1) [OF le prod.collapse Inl nr True])
          moreover have "engine_frame w ?w2" using f1 by simp
          ultimately have "engine_frame w (snd (retry_loop cfg rt creds maxAttempts (attempt + 1) (Thrown error) ?w2))"
            using engine_frame_trans by blast
          then show ?thesis
            using le Inl nr True by (subst retry_loop.simps) (simp add: case_prod_unfold)
        next
          case False
          let ?w2 = "logger Failure (''Token refresh failed after '' @ show_int maxAttempts @
                                        '' attempts'') ?w1"
          have "engine_frame ?w2 (snd (retry_loop cfg rt creds maxAttempts (attempt + 1) (Thrown error) ?w2))"
            by (rule "1.IH"(2) [OF le prod.collapse Inl nr False])
          moreover have "engine_frame w ?w2" using f1 by simp
          ultimately have "engine_frame w (snd (retry_loop cfg rt creds maxAttempts (attempt + 1) (Thrown error) ?w2))"
            using engine_frame_trans by blast
          then show ?thesis
            using le Inl nr False by (subst retry_loop.simps) (simp add: case_prod_unfold)
        qed
      qed
    qed
  qed
qed


lemma attempt_errorI:
  "fst (refreshToken cfg rt creds w) = Inl e \<longleftrightarrow>
   attempt_error cfg rt creds (request_clock w) (responses w (posts w)) = Some e"
  by (simp add: refreshToken_fst attempt_error_def split: sum.split)

lemma retryable_failureD:
  assumes "retryable_failure cfg rt creds (request_clock w) (responses w (posts w))"
  shows "\<exists>e. attempt_error cfg rt creds (request_clock w) (responses w (posts w)) = Some e \<and>
             fst (refreshToken cfg rt creds w) = Inl e \<and> \<not> isNonRetryable (err_message e)"
  using assms
  by (auto simp: retryable_failure_def attempt_errorI split: option.splits)

lemma fatal_failureD:
  assumes "fatal_failure cfg rt creds (request_clock w) (responses w (posts w))"
  shows "\<exists>e. attempt_error cfg rt creds (request_clock w) (responses w (posts w)) = Some e \<and>
             fst (refreshToken cfg rt creds w) = Inl e \<and> isNonRetryable (err_message e)"
  using assms
  by (auto simp: fatal_failure_def attempt_errorI split: option.splits)

lemma succeedsD:
  assumes "succeeds cfg rt creds (request_clock w) (responses w (posts w))"
  shows "\<exists>t. fst (refreshToken cfg rt creds w) = Inr t \<and>
             exchange cfg rt creds (request_clock w) (responses w (posts w)) = Inr t"
  using assms
  by (simp add: succeeds_def attempt_error_def refreshToken_fst split: sum.splits)

lemma retry_loop_retry:
  assumes "retryable_failure cfg rt creds (request_clock w) (responses w (posts w))"
    "attempt < maxAttempts"
  shows "\<exists>e w1. attempt_error cfg rt creds (request_clock w) (responses w (posts w)) = Some e \<and>
           retry_loop cfg rt creds maxAttempts attempt lastError w =
           retry_loop cfg rt creds maxAttempts (attempt + 1) (Thrown e) w1 \<and>
           posts w1 = Suc (posts w) \<and> engine_frame w w1 \<and>
           request_clock w1 =
             request_clock w + max MIN_REQUEST_INTERVAL_MS (retryBackoffSeconds cfg * attempt * 1000) \<and>
           backoffs w1 = backoffs w @ [retryBackoffSeconds cfg * attempt * 1000]"
proof -
  obtain e where e: "attempt_error cfg rt creds (request_clock w) (responses w (posts w)) = Some e"
      "fst (refreshToken cfg rt creds w) = Inl e" "\<not> isNonRetryable (err_message e)"
    using retryable_failureD [OF assms(1)] by blast
  let ?w1 = "sleep Backoff (retryBackoffSeconds cfg * attempt * 1000)
               (logger Warning (''Token refresh attempt '' @ show_int attempt @ ''/'' @
                  show_int maxAttempts @ '' failed - retrying in '' @
                  show_int (retryBackoffSeconds cfg * attempt) @ ''s'')
                  (snd (refreshToken cfg rt creds w)))"
  have "retry_loop cfg rt creds maxAttempts attempt lastError w =
        retry_loop cfg rt creds maxAttempts (attempt + 1) (Thrown e) ?w1"
    using e assms(2) by (subst retry_loop.simps) (simp add: case_prod_unfold)
  moreover have "posts ?w1 = Suc (posts w)" "engine_frame w ?w1"
    "backoffs ?w1 = backoffs w @ [retryBackoffSeconds cfg * attempt * 1000]"
    by simp_all
  moreover have "clock ?w1 = request_clock w + max 0 (retryBackoffSeconds cfg * attempt * 1000)"
    "lastRequestTime ?w1 = request_clock w"
    by (simp_all add: sleep_def)
  then have "request_clock ?w1 =
      request_clock w + max MIN_REQUEST_INTERVAL_MS (retryBackoffSeconds cfg * attempt * 1000)"
    unfolding request_clock_def [of ?w1] by (simp add: MIN_REQUEST_INTERVAL_MS_def max_def)
  ultimately show ?thesis using e(1) by blast
qed

lemma retry_loop_last_retryable:
  assumes "retryable_failure cfg rt creds (request_clock w) (responses w (posts w))"
  shows "\<exists>e w1. attempt_error cfg rt creds (request_clock w) (responses w (posts w)) = Some e \<and>
           retry_loop cfg rt creds maxAttempts maxAttempts lastError w = (Inl (Thrown e), w1) \<and>
           posts w1 = Suc (posts w) \<and> engine_frame w w1 \<and> backoffs w1 = backoffs w"
proof -
  obtain e where e: "attempt_error cfg rt creds (request_clock w) (responses w (posts w)) = Some e"
      "fst (refreshToken cfg rt creds w) = Inl e" "\<not> isNonRetryable (err_message e)"
    using retryable_failureD [OF assms(1)] by blast
  let ?w1 = "logger Failure (''Token refresh failed after '' @ show_int maxAttempts @ '' attempts'')
               (snd (refreshToken cfg rt creds w))"
  have "retry_loop cfg rt creds maxAttempts maxAttempts lastError w =
        retry_loop cfg rt creds maxAttempts (maxAttempts + 1) (Thrown e) ?w1"
    using e by (subst retry_loop.simps) (simp add: case_prod_unfold)
  also have "\<dots> = (Inl (Thrown e), ?w1)"
    by (subst retry_loop.simps) simp
  finally have "retry_loop cfg rt creds maxAttempts maxAttempts lastError w = (Inl (Thrown e), ?w1)" .
  moreover have "posts ?w1 = Suc (posts w)" "engine_frame w ?w1" "backoffs ?w1 = backoffs w"
    by simp_all
  ultimately show ?thesis using e(1) by blast
qed

lemma retry_loop_fatal:
  assumes "fatal_failure cfg rt creds (request_clock w) (responses w (posts w))"
    "attempt \<le> maxAttempts"
  shows "\<exists>e w1. attempt_error cfg rt creds (request_clock w) (responses w (posts w)) = Some e \<and>
           retry_loop cfg rt creds maxAttempts attempt lastError w = (Inl (Thrown e), w1) \<and>
           posts w1 = Suc (posts w) \<and> engine_frame w w1 \<and> backoffs w1 = backoffs w"
proof -
  obtain e where e: "attempt_error cfg rt creds (request_clock w) (responses w (posts w)) = Some e"
      "fst (refreshToken cfg rt creds w) = Inl e" "isNonRetryable (err_message e)"
    using fatal_failureD [OF assms(1)] by blast
  let ?w0 = "snd (refreshToken cfg rt creds w)"
  let ?w1 = "if \<not> str_includes (err_message e) ''canceled due to shutdown''
             then logger Failure ''Token refresh failed with non-retryable error'' ?w0 else ?w0"
  have "retry_loop cfg rt creds maxAttempts attempt lastError w = (Inl (Thrown e), ?w1)"
    using e assms(2) by (subst retry_loop.simps) (simp add: case_prod_unfold)
  moreover have "posts ?w1 = Suc (posts w)" "engine_frame w ?w1" "backoffs ?w1 = backoffs w"
    by simp_all
  ultimately show ?thesis using e(1) by blast
qed

lemma retry_loop_success:
  assumes "succeeds cfg rt creds (request_clock w) (responses w (posts w))"
    "attempt \<le> maxAttempts"
  shows "\<exists>t w1. retry_loop cfg rt creds maxAttempts attempt lastError w = (Inr t, w1) \<and>
           exchange cfg rt creds (request_clock w) (responses w (posts w)) = Inr t \<and>
           posts w1 = Suc (posts w) \<and> engine_frame w w1 \<and> backoffs w1 = backoffs w"
proof -
  let ?w0 = "snd (refreshToken cfg rt creds w)"
  obtain t where t: "fst (refreshToken cfg rt creds w) = Inr t"
    "exchange cfg rt creds (request_clock w) (responses w (posts w)) = Inr t"
    using succeedsD [OF assms(1)] by blast
  let ?w1 = "if attempt > 1
             then logger Success (''Token refresh succeeded on attempt '' @ show_int attempt @
                                      ''/'' @ show_int maxAttempts) ?w0
             else ?w0"
  have "retry_loop cfg rt creds maxAttempts attempt lastError w = (Inr t, ?w1)"
    using t assms(2) by (subst retry_loop.simps) (simp add: case_prod_unfold)
  moreover have "posts ?w1 = Suc (posts w)" "engine_frame w ?w1" "backoffs ?w1 = backoffs w"
    by simp_all
  ultimately show ?thesis using t(2) by blast
qed

text \<open>A run of \<open>k\<close> retryable failures, none of them the last attempt.\<close>

lemma retry_prefix:
  assumes "\<forall>j<k. retryable_failure cfg rt creds (attempt_clock cfg attempt (request_clock w) j)
                   (responses w (posts w + j))"
    and "attempt + int k \<le> maxAttempts"
  shows "\<exists>w' le'. retry_loop cfg rt creds maxAttempts attempt le w =
                   retry_loop cfg rt creds maxAttempts (attempt + int k) le' w' \<and>
           posts w' = posts w + k \<and> engine_frame w w' \<and>
           request_clock w' = attempt_clock cfg attempt (request_clock w) k \<and>
           backoffs w' = backoffs w @
             map (\<lambda>j. retryBackoffSeconds cfg * (attempt + int j) * 1000) [0..<k]"
  using assms
proof (induction k arbitrary: attempt le w)
  case 0
  show ?case
    by (rule exI [of _ w], rule exI [of _ le]) simp
next
  case (Suc k)
  have r0: "retryable_failure cfg rt creds (request_clock w) (responses w (posts w))"
    using Suc.prems(1) [rule_format, of 0] by simp
  have lt: "attempt < maxAttempts" using Suc.prems(2) by simp
  obtain e w1 where s1:
      "retry_loop cfg rt creds maxAttempts attempt le w =
       retry_loop cfg rt creds maxAttempts (attempt + 1) (Thrown e) w1"
      "posts w1 = Suc (posts w)" "engine_frame w w1"
      "request_clock w1 =
         request_clock w + max MIN_REQUEST_INTERVAL_MS (retryBackoffSeconds cfg * attempt * 1000)"
      "backoffs w1 = backoffs w @ [retryBackoffSeconds cfg * attempt * 1000]"
    using retry_loop_retry [OF r0 lt, of le] by blast
  have resp: "responses w1 = responses w" using s1(3) by (simp add: engine_frame_def)
  have ck: "attempt_clock cfg (attempt + 1) (request_clock w1) j =
            attempt_clock cfg attempt (request_clock w) (Suc j)" for j
    by (simp add: s1(4))
  have p1: "\<forall>j<k. retryable_failure cfg rt creds (attempt_clock cfg (attempt + 1) (request_clock w1) j)
                    (responses w1 (posts w1 + j))"
  proof (intro allI impI)
    fix j assume "j < k"
    then have "retryable_failure cfg rt creds (attempt_clock cfg attempt (request_clock w) (Suc j))
                 (responses w (posts w + Suc j))"
      using Suc.prems(1) [rule_format, of "Suc j"] by simp
    then show "retryable_failure cfg rt creds (attempt_clock cfg (attempt + 1) (request_clock w1) j)
                 (responses w1 (posts w1 + j))"
      unfolding ck by (simp add: resp s1(2))
  qed
  have p2: "attempt + 1 + int k \<le> maxAttempts" using Suc.prems(2) by simp
  obtain w' le' where s2:
      "retry_loop cfg rt creds maxAttempts (attempt + 1) (Thrown e) w1 =
       retry_loop cfg rt creds maxAttempts (attempt + 1 + int k) le' w'"
      "posts w' = posts w1 + k" "engine_frame w1 w'"
      "request_clock w' = attempt_clock cfg (attempt + 1) (request_clock w1) k"
      "backoffs w' = backoffs w1 @
         map (\<lambda>j. retryBackoffSeconds cfg * (attempt + 1 + int j) * 1000) [0..<k]"
    using Suc.IH [OF p1 p2, of "Thrown e"] by blast
  have a: "retry_loop cfg rt creds maxAttempts attempt le w =
           retry_loop cfg rt creds maxAttempts (attempt + int (Suc k)) le' w'"
  proof -
    have eq: "attempt + int (Suc k) = attempt + 1 + int k" by simp
    show ?thesis unfolding eq using s1(1) s2(1) by (rule trans)
  qed
  have b: "posts w' = posts w + Suc k" using s1(2) s2(2) by simp
  have c: "engine_frame w w'" using s1(3) s2(3) engine_frame_trans by blast
  have t: "request_clock w' = attempt_clock cfg attempt (request_clock w) (Suc k)"
    using s2(4) unfolding ck .
  have "map (\<lambda>j. retryBackoffSeconds cfg * (attempt + int j) * 1000) [0..<Suc k] =
        (retryBackoffSeconds cfg * attempt * 1000) #
        map (\<lambda>j. retryBackoffSeconds cfg * (attempt + 1 + int j) * 1000) [0..<k]"
    by (simp only: map_upt_Suc) (simp add: algebra_simps)
  then have d: "backoffs w' = backoffs w @
       map (\<lambda>j. retryBackoffSeconds cfg * (attempt + int j) * 1000) [0..<Suc k]"
    using s1(5) s2(5) by simp
  show ?case using a b c t d by blast
qed

lemma retry_success_at:
  assumes "int k < N"
    "\<forall>j<k. retryable_failure cfg rt creds (attempt_time cfg w j) (responses w (posts w + j))"
    "succeeds cfg rt creds (attempt_time cfg w k) (responses w (posts w + k))"
  shows "\<exists>t w'. refreshTokenWithRetry cfg rt creds N w = (Inr t, w') \<and>
           exchange cfg rt creds (attempt_time cfg w k) (responses w (posts w + k)) = Inr t \<and>
           posts w' = posts w + Suc k \<and> engine_frame w w' \<and>
           backoffs w' = backoffs w @
             map (\<lambda>j. retryBackoffSeconds cfg * int (Suc j) * 1000) [0..<k]"
proof -
  have le: "1 + int k \<le> N" using assms(1) by simp
  obtain w1 le1 where p:
      "retry_loop cfg rt creds N 1 ThrownUndefined w = retry_loop cfg rt creds N (1 + int k) le1 w1"
      "posts w1 = posts w + k" "engine_frame w w1"
      "request_clock w1 = attempt_time cfg w k"
      "backoffs w1 = backoffs w @ map (\<lambda>j. retryBackoffSeconds cfg * (1 + int j) * 1000) [0..<k]"
    using retry_prefix [OF assms(2) [unfolded attempt_time_def] le, of ThrownUndefined]
    unfolding attempt_time_def by blast
  have resp: "responses w1 = responses w" using p(3) by (simp add: engine_frame_def)
  have "succeeds cfg rt creds (request_clock w1) (responses w1 (posts w1))"
    using assms(3) by (simp add: resp p(2) p(4))
  then obtain t w2 where s:
      "retry_loop cfg rt creds N (1 + int k) le1 w1 = (Inr t, w2)"
      "exchange cfg rt creds (request_clock w1) (responses w1 (posts w1)) = Inr t"
      "posts w2 = Suc (posts w1)" "engine_frame w1 w2" "backoffs w2 = backoffs w1"
    using retry_loop_success [OF _ le, of cfg rt creds w1 le1] by blast
  have "refreshTokenWithRetry cfg rt creds N w = (Inr t, w2)"
    using p(1) s(1) by (simp add: refreshTokenWithRetry_def)
  moreover have "exchange cfg rt creds (attempt_time cfg w k) (responses w (posts w + k)) = Inr t"
    using s(2) by (simp add: resp p(2) p(4))
  moreover have "posts w2 = posts w + Suc k" using s(3) p(2) by simp
  moreover have "engine_frame w w2" using p(3) s(4) engine_frame_trans by blast
  moreover have "backoffs w2 = backoffs w @
             map (\<lambda>j. retryBackoffSeconds cfg * int (Suc j) * 1000) [0..<k]"
    using s(5) p(5) by simp
  ultimately show ?thesis by blast
qed

lemma retry_fatal_at:
  assumes "int k < N"
    "\<forall>j<k. retryable_failure cfg rt creds (attempt_time cfg w j) (responses w (posts w + j))"
    "fatal_failure cfg rt creds (attempt_time cfg w k) (responses w (posts w + k))"
  shows "\<exists>e w'. refreshTokenWithRetry cfg rt creds N w = (Inl (Thrown e), w') \<and>
           attempt_error cfg rt creds (attempt_time cfg w k) (responses w (posts w + k)) = Some e \<and>
           posts w' = posts w + Suc k \<and> engine_frame w w' \<and>
           backoffs w' = backoffs w @
             map (\<lambda>j. retryBackoffSeconds cfg * int (Suc j) * 1000) [0..<k]"
proof -
  have le: "1 + int k \<le> N" using assms(1) by simp
  obtain w1 le1 where p:
      "retry_loop cfg rt creds N 1 ThrownUndefined w = retry_loop cfg rt creds N (1 + int k) le1 w1"
      "posts w1 = posts w + k" "engine_frame w w1"
      "request_clock w1 = attempt_time cfg w k"
      "backoffs w1 = backoffs w @ map (\<lambda>j. retryBackoffSeconds cfg * (1 + int j) * 1000) [0..<k]"
    using retry_prefix [OF assms(2) [unfolded attempt_time_def] le, of ThrownUndefined]
    unfolding attempt_time_def by blast
  have resp: "responses w1 = responses w" using p(3) by (simp add: engine_frame_def)
  have "fatal_failure cfg rt creds (request_clock w1) (responses w1 (posts w1))"
    using assms(3) by (simp add: resp p(2) p(4))
  then obtain e w2 where s:
      "attempt_error cfg rt creds (request_clock w1) (responses w1 (posts w1)) = Some e"
      "retry_loop cfg rt creds N (1 + int k) le1 w1 = (Inl (Thrown e), w2)"
      "posts w2 = Suc (posts w1)" "engine_frame w1 w2" "backoffs w2 = backoffs w1"
    using retry_loop_fatal [OF _ le, of cfg rt creds w1 le1] by blast
  have "refreshTokenWithRetry cfg rt creds N w = (Inl (Thrown e), w2)"
    using p(1) s(2) by (simp add: refreshTokenWithRetry_def)
  moreover have "attempt_error cfg rt creds (attempt_time cfg w k) (responses w (posts w + k)) = Some e"
    using s(1) by (simp add: resp p(2) p(4))
  moreover have "posts w2 = posts w + Suc k" using s(3) p(2) by simp
  moreover have "engine_frame w w2" using p(3) s(4) engine_frame_trans by blast
  moreover have "backoffs w2 = backoffs w @
             map (\<lambda>j. retryBackoffSeconds cfg * int (Suc j) * 1000) [0..<k]"
    using s(5) p(5) by simp
  ultimately show ?thesis by blast
qed

lemma retry_exhausted:
  assumes "1 \<le> N"
    "\<forall>j. int j < N \<longrightarrow>
         retryable_failure cfg rt creds (attempt_time cfg w j) (responses w (posts w + j))"
  shows "\<exists>e w'. refreshTokenWithRetry cfg rt creds N w = (Inl (Thrown e), w') \<and>
           attempt_error cfg rt creds (attempt_time cfg w (nat N - 1))
             (responses w (posts w + (nat N - 1))) = Some e \<and>
           posts w' = posts w + nat N \<and> engine_frame w w' \<and>
           backoffs w' = backoffs w @
             map (\<lambda>j. retryBackoffSeconds cfg * int (Suc j) * 1000) [0..<nat N - 1]"
proof -
  define k where "k = nat N - 1"
  have kN: "1 + int k = N" using assms(1) by (simp add: k_def)
  have le: "1 + int k \<le> N" using kN by simp
  have pre: "\<forall>j<k. retryable_failure cfg rt creds (attempt_time cfg w j) (responses w (posts w + j))"
    using assms(2) kN by auto
  obtain w1 le1 where p:
      "retry_loop cfg rt creds N 1 ThrownUndefined w = retry_loop cfg rt creds N (1 + int k) le1 w1"
      "posts w1 = posts w + k" "engine_frame w w1"
      "request_clock w1 = attempt_time cfg w k"
      "backoffs w1 = backoffs w @ map (\<lambda>j. retryBackoffSeconds cfg * (1 + int j) * 1000) [0..<k]"
    using retry_prefix [OF pre [unfolded attempt_time_def] le, of ThrownUndefined]
    unfolding attempt_time_def by blast
  have resp: "responses w1 = responses w" using p(3) by (simp add: engine_frame_def)
  have "retryable_failure cfg rt creds (attempt_time cfg w k) (responses w (posts w + k))"
    using assms(2) [rule_format, of k] kN by simp
  then have "retryable_failure cfg rt creds (request_clock w1) (responses w1 (posts w1))"
    by (simp add: resp p(2) p(4))
  then obtain e w2 where s:
      "attempt_error cfg rt creds (request_clock w1) (responses w1 (posts w1)) = Some e"
      "retry_loop cfg rt creds N N le1 w1 = (Inl (Thrown e), w2)"
      "posts w2 = Suc (posts w1)" "engine_frame w1 w2" "backoffs w2 = backoffs w1"
    using retry_loop_last_retryable [of cfg rt creds w1 N le1] by blast
  have "refreshTokenWithRetry cfg rt creds N w = (Inl (Thrown e), w2)"
    using p(1) s(2) kN by (simp add: refreshTokenWithRetry_def)
  moreover have "attempt_error cfg rt creds (attempt_time cfg w (nat N - 1))
                   (responses w (posts w + (nat N - 1))) = Some e"
    using s(1) by (simp add: resp p(2) p(4) k_def)
  moreover have "posts w2 = posts w + nat N" using s(3) p(2) assms(1) by (simp add: k_def)
  moreover have "engine_frame w w2" using p(3) s(4) engine_frame_trans by blast
  moreover have "backoffs w2 = backoffs w @
             map (\<lambda>j. retryBackoffSeconds cfg * int (Suc j) * 1000) [0..<nat N - 1]"
    using s(5) p(5) by (simp add: k_def)
  ultimately show ?thesis by blast
qed

text \<open>
  Claim C3. With \<open>N \<ge> 1\<close> attempts allowed and whatever the outcomes of the
  requests, each outcome being judged at the time its request is made
  (\<open>attempt_time\<close>): when the first \<open>k\<close> attempts fail retryably and attempt
  \<open>k + 1 \<le> N\<close> succeeds, \<open>refreshTokenWithRetry\<close> returns that attempt's result
  after exactly \<open>k + 1\<close> requests (so \<open>N - 1\<close> retryable failures and a success make
  exactly \<open>N\<close> attempts); when attempt \<open>k + 1\<close> fails fatally it rejects with that
  error after exactly \<open>k + 1\<close> requests, whatever remains; when all \<open>N\<close> attempts
  fail retryably it rejects with the last error after exactly \<open>N\<close> requests. In each
  case the backoff waits are \<open>attempt * retryBackoffSeconds\<close> seconds after each
  retryable failure that is not the last attempt, and no other.
\<close>

theorem refreshTokenWithRetry_policy:
  assumes "1 \<le> N"
  shows
    "(\<forall>k. int k < N \<and>
          (\<forall>j<k. retryable_failure cfg rt creds (attempt_time cfg w j) (responses w (posts w + j))) \<and>
          succeeds cfg rt creds (attempt_time cfg w k) (responses w (posts w + k)) \<longrightarrow>
          (\<exists>t w'. refreshTokenWithRetry cfg rt creds N w = (Inr t, w') \<and>
             exchange cfg rt creds (attempt_time cfg w k) (responses w (posts w + k)) = Inr t \<and>
             posts w' = posts w + Suc k \<and>
             backoffs w' = backoffs w @
               map (\<lambda>j. retryBackoffSeconds cfg * int (Suc j) * 1000) [0..<k])) \<and>
     (\<forall>k. int k < N \<and>
          (\<forall>j<k. retryable_failure cfg rt creds (attempt_time cfg w j) (responses w (posts w + j))) \<and>
          fatal_failure cfg rt creds (attempt_time cfg w k) (responses w (posts w + k)) \<longrightarrow>
          (\<exists>e w'. refreshTokenWithRetry cfg rt creds N w = (Inl (Thrown e), w') \<and>
             attempt_error cfg rt creds (attempt_time cfg w k) (responses w (posts w + k)) = Some e \<and>
             posts w' = posts w + Suc k \<and>
             backoffs w' = backoffs w @
               map (\<lambda>j. retryBackoffSeconds cfg * int (Suc j) * 1000) [0..<k])) \<and>
     ((\<forall>j. int j < N \<longrightarrow>
           retryable_failure cfg rt creds (attempt_time cfg w j) (responses w (posts w + j))) \<longrightarrow>
          (\<exists>e w'. refreshTokenWithRetry cfg rt creds N w = (Inl (Thrown e), w') \<and>
             attempt_error cfg rt creds (attempt_time cfg w (nat N - 1))
               (responses w (posts w + (nat N - 1))) = Some e \<and>
             posts w' = posts w + nat N \<and>
             backoffs w' = backoffs w @
               map (\<lambda>j. retryBackoffSeconds cfg * int (Suc j) * 1000) [0..<nat N - 1]))"
proof (intro conjI allI impI)
  fix k
  assume h: "int k < N \<and>
          (\<forall>j<k. retryable_failure cfg rt creds (attempt_time cfg w j) (responses w (posts w + j))) \<and>
          succeeds cfg rt creds (attempt_time cfg w k) (responses w (posts w + k))"
  show "\<exists>t w'. refreshTokenWithRetry cfg rt creds N w = (Inr t, w') \<and>
             exchange cfg rt creds (attempt_time cfg w k) (responses w (posts w + k)) = Inr t \<and>
             posts w' = posts w + Suc k \<and>
             backoffs w' = backoffs w @
               map (\<lambda>j. retryBackoffSeconds cfg * int (Suc j) * 1000) [0..<k]"
    using retry_success_at [of k N cfg rt creds w] h by blast
next
  fix k
  assume h: "int k < N \<and>
          (\<forall>j<k. retryable_failure cfg rt creds (attempt_time cfg w j) (responses w (posts w + j))) \<and>
          fatal_failure cfg rt creds (attempt_time cfg w k) (responses w (posts w + k))"
  show "\<exists>e w'. refreshTokenWithRetry cfg rt creds N w = (Inl (Thrown e), w') \<and>
             attempt_error cfg rt creds (attempt_time cfg w k) (responses w (posts w + k)) = Some e \<and>
             posts w' = posts w + Suc k \<and>
             backoffs w' = backoffs w @
               map (\<lambda>j. retryBackoffSeconds cfg * int (Suc j) * 1000) [0..<k]"
    using retry_fatal_at [of k N cfg rt creds w] h by blast
next
  assume h: "\<forall>j. int j < N \<longrightarrow>
           retryable_failure cfg rt creds (attempt_time cfg w j) (responses w (posts w + j))"
  show "\<exists>e w'. refreshTokenWithRetry cfg rt creds N w = (Inl (Thrown e), w') \<and>
             attempt_error cfg rt creds (attempt_time cfg w (nat N - 1))
               (responses w (posts w + (nat N - 1))) = Some e \<and>
             posts w' = posts w + nat N \<and>
             backoffs w' = backoffs w @
               map (\<lambda>j. retryBackoffSeconds cfg * int (Suc j) * 1000) [0..<nat N - 1]"
    using retry_exhausted [OF assms h] by blast
qed

text \<open>
  Claim C10. With \<open>maxAttempts\<close> below 1 the loop body never runs:
  \<open>refreshTokenWithRetry\<close> issues no request, changes nothing, and rejects with the
  never-assigned \<open>lastError\<close>, that is with \<open>undefined\<close>.
\<close>

theorem refreshTokenWithRetry_no_attempts:
  assumes "maxAttempts < 1"
  shows "refreshTokenWithRetry cfg rt creds maxAttempts w = (Inl ThrownUndefined, w)"
  using assms by (simp add: refreshTokenWithRetry_def retry_loop.simps)

lemmas includes_simps = str_includes_def toLowerCase_def lower_char_def sublist_code prefix_code
  isNonRetryable_def nonRetryableErrors_def

lemma invalid_response_message_retryable:
  "\<not> isNonRetryable ''Token refresh failed: Invalid response from OIDC endpoint: missing accessToken or expiresIn''"
  by (simp add: includes_simps)

lemma range_error_message_retryable:
  "\<not> isNonRetryable ''Token refresh failed: Invalid time value''"
  by (simp add: includes_simps)

lemma timeout_attempt_error:
  "attempt_error example_config example_runtime creds now (Rejected timeout_error) =
     Some (new_Error ''Request timeout: OIDC endpoint at https://oidc.ca-central-1.amazonaws.com/token did not respond in time.'')"
  by (simp add: attempt_error_def exchange_def refreshToken_catch_def timeout_error_def
      getOidcEndpoint_def example_config_def)

lemma timeout_retryable:
  "retryable_failure example_config example_runtime creds now (Rejected timeout_error)"
  by (simp add: retryable_failure_def timeout_attempt_error new_Error_def includes_simps)

lemma invalid_grant_attempt_error:
  "attempt_error example_config example_runtime creds now (Rejected invalid_grant_error) =
     Some (new_Error (''Refresh token is invalid or expired'' @ [CHR 0x0A] @
                      ''Please run: aws sso login --profile dev''))"
  by (simp add: attempt_error_def exchange_def refreshToken_catch_def invalid_grant_error_def
      getReloginErrorMessage_def getLoginCommand_def example_config_def)

lemma invalid_grant_fatal:
  "fatal_failure example_config example_runtime creds now (Rejected invalid_grant_error)"
  by (simp add: fatal_failure_def invalid_grant_attempt_error new_Error_def includes_simps)

lemma ok_response_exchange:
  assumes "abs (now + 3600000) \<le> 8640000000000000"
  shows "exchange example_config example_runtime creds now ok_response =
     Inr \<lparr>nt_accessToken = Some (JStr ''new-access-token''),
          nt_refreshToken = cr_refreshToken creds,
          nt_expiresAt = Some (JStr (to_iso example_runtime (now + 3600000))),
          nt_expiresIn = Some (JNum 3600)\<rparr>"
  using assms
  by (simp add: exchange_def try_result_def ok_response_def js_truthy_def expiry_time_def
      time_clip_def)

lemma ok_response_succeeds:
  assumes "abs (now + 3600000) \<le> 8640000000000000"
  shows "succeeds example_config example_runtime creds now ok_response"
  by (simp add: succeeds_def attempt_error_def ok_response_exchange [OF assms])

lemma far_expiry_attempt_error:
  assumes "0 \<le> now"
  shows "attempt_error cfg rt creds now far_expiry_response =
     Some (new_Error ''Token refresh failed: Invalid time value'')"
  using assms
  by (simp add: attempt_error_def exchange_def try_result_def far_expiry_response_def js_truthy_def
      expiry_time_def time_clip_def refreshToken_catch_def new_Error_def)

lemma far_expiry_retryable:
  assumes "0 \<le> now"
  shows "retryable_failure cfg rt creds now far_expiry_response"
  using range_error_message_retryable
  by (simp add: retryable_failure_def far_expiry_attempt_error [OF assms] new_Error_def)

lemma example_attempt_time:
  assumes "clock w = clock example_world" "lastRequestTime w = lastRequestTime example_world"
  shows "attempt_time example_config w 0 = 1769500560000"
    "attempt_time example_config w 1 = 1769500570000"
    "attempt_time example_config w 2 = 1769500590000"
    "0 \<le> attempt_time example_config w j"
proof -
  have rc: "request_clock w = 1769500560000"
    using assms by (simp add: request_clock_def example_world_def MIN_REQUEST_INTERVAL_MS_def)
  show "attempt_time example_config w 0 = 1769500560000"
    "attempt_time example_config w 1 = 1769500570000"
    "attempt_time example_config w 2 = 1769500590000"
    by (simp_all add: attempt_time_def rc eval_nat_numeral example_config_def
        MIN_REQUEST_INTERVAL_MS_def)
  have "request_clock w \<le> attempt_time example_config w j"
    unfolding attempt_time_def by (rule attempt_clock_mono)
  then show "0 \<le> attempt_time example_config w j" using rc by simp
qed

text \<open>Claim C3 at three attempts: three timeouts; two timeouts and a success; a
  timeout and an invalid grant; three responses whose \<open>expiresIn\<close> is out of the range
  of dates.\<close>

theorem refreshTokenWithRetry_policy_witness:
  "(1::int) \<le> 3 \<and>
   (\<exists>e w'. refreshTokenWithRetry example_config example_runtime example_credentials 3 example_world =
              (Inl (Thrown e), w') \<and>
            err_message e = ''Request timeout: OIDC endpoint at https://oidc.ca-central-1.amazonaws.com/token did not respond in time.'' \<and>
            posts w' = 3 \<and> backoffs w' = [10000, 20000]) \<and>
   (\<exists>t w'. refreshTokenWithRetry example_config example_runtime example_credentials 3
              (example_world\<lparr>responses := (\<lambda>k. if k < 2 then Rejected timeout_error else ok_response)\<rparr>) =
              (Inr t, w') \<and>
            nt_accessToken t = Some (JStr ''new-access-token'') \<and>
            nt_expiresAt t = Some (JStr ''t=1769504190000'') \<and>
            posts w' = 3 \<and> backoffs w' = [10000, 20000]) \<and>
   (\<exists>e w'. refreshTokenWithRetry example_config example_runtime example_credentials 3
              (example_world\<lparr>responses := (\<lambda>k. if k < 1 then Rejected timeout_error
                                                 else Rejected invalid_grant_error)\<rparr>) =
              (Inl (Thrown e), w') \<and>
            err_message e = ''Refresh token is invalid or expired'' @ [CHR 0x0A] @
                            ''Please run: aws sso login --profile dev'' \<and>
            posts w' = 2 \<and> backoffs w' = [10000]) \<and>
   (\<exists>e w'. refreshTokenWithRetry example_config example_runtime example_credentials 3
              (example_world\<lparr>responses := (\<lambda>k. far_expiry_response)\<rparr>) = (Inl (Thrown e), w') \<and>
            err_message e = ''Token refresh failed: Invalid time value'' \<and>
            posts w' = 3 \<and> backoffs w' = [10000, 20000])"
proof -
  let ?c = example_config and ?r = example_runtime and ?cr = example_credentials
  let ?w2 = "example_world\<lparr>responses := (\<lambda>k. if k < 2 then Rejected timeout_error else ok_response)\<rparr>"
  let ?w3 = "example_world\<lparr>responses := (\<lambda>k. if k < 1 then Rejected timeout_error
                                                 else Rejected invalid_grant_error)\<rparr>"
  let ?w4 = "example_world\<lparr>responses := (\<lambda>k. far_expiry_response)\<rparr>"
  have n: "(1::int) \<le> 3" by simp
  have base: "posts example_world = 0" "backoffs example_world = []"
    "retryBackoffSeconds example_config = 10"
    by (simp_all add: example_world_def backoffs_def example_config_def)
  have up: "[0..<2] = [0, Suc 0]" "[0..<1] = [0]" "nat 3 - 1 = 2"
    by (simp_all add: upt_rec)
  have t2: "attempt_time ?c ?w2 2 = 1769500590000"
    by (rule example_attempt_time) simp_all
  have t4: "0 \<le> attempt_time ?c ?w4 j" for j
    by (rule example_attempt_time) simp_all
  \<comment> \<open>three timeouts\<close>
  have h1: "\<forall>j. int j < 3 \<longrightarrow> retryable_failure ?c ?r ?cr (attempt_time ?c example_world j)
              (responses example_world (posts example_world + j))"
    by (simp add: example_world_def timeout_retryable)
  from refreshTokenWithRetry_policy [OF n, of ?c ?r ?cr example_world] h1
  obtain e1 w1 where r1:
    "refreshTokenWithRetry ?c ?r ?cr 3 example_world = (Inl (Thrown e1), w1)"
    "attempt_error ?c ?r ?cr (attempt_time ?c example_world (nat 3 - 1))
       (responses example_world (posts example_world + (nat 3 - 1))) = Some e1"
    "posts w1 = posts example_world + nat 3"
    "backoffs w1 = backoffs example_world @
       map (\<lambda>j. retryBackoffSeconds ?c * int (Suc j) * 1000) [0..<nat 3 - 1]"
    by blast
  have e1: "err_message e1 = ''Request timeout: OIDC endpoint at https://oidc.ca-central-1.amazonaws.com/token did not respond in time.''"
    using r1(2) by (auto simp add: example_world_def timeout_attempt_error new_Error_def)
  have a1: "posts w1 = 3" "backoffs w1 = [10000, 20000]"
    using r1(3,4) by (simp_all add: base up)
  \<comment> \<open>two timeouts, then a success\<close>
  have h2: "int 2 < 3 \<and>
      (\<forall>j<2. retryable_failure ?c ?r ?cr (attempt_time ?c ?w2 j) (responses ?w2 (posts ?w2 + j))) \<and>
      succeeds ?c ?r ?cr (attempt_time ?c ?w2 2) (responses ?w2 (posts ?w2 + 2))"
    unfolding t2 by (simp add: example_world_def timeout_retryable ok_response_succeeds)
  from refreshTokenWithRetry_policy [OF n, of ?c ?r ?cr ?w2] h2
  obtain tk w2 where r2:
    "refreshTokenWithRetry ?c ?r ?cr 3 ?w2 = (Inr tk, w2)"
    "exchange ?c ?r ?cr (attempt_time ?c ?w2 2) (responses ?w2 (posts ?w2 + 2)) = Inr tk"
    "posts w2 = posts ?w2 + Suc 2"
    "backoffs w2 = backoffs ?w2 @ map (\<lambda>j. retryBackoffSeconds ?c * int (Suc j) * 1000) [0..<2]"
    by blast
  have x2: "exchange ?c ?r ?cr 1769500590000 ok_response = Inr tk"
    using r2(2) unfolding t2 by (simp add: example_world_def)
  have "exchange ?c ?r ?cr 1769500590000 ok_response =
     Inr \<lparr>nt_accessToken = Some (JStr ''new-access-token''),
          nt_refreshToken = cr_refreshToken ?cr,
          nt_expiresAt = Some (JStr (to_iso example_runtime (1769500590000 + 3600000))),
          nt_expiresIn = Some (JNum 3600)\<rparr>"
    by (rule ok_response_exchange) simp
  with x2 have tk_eq: "tk = \<lparr>nt_accessToken = Some (JStr ''new-access-token''),
          nt_refreshToken = cr_refreshToken ?cr,
          nt_expiresAt = Some (JStr (to_iso example_runtime (1769500590000 + 3600000))),
          nt_expiresIn = Some (JNum 3600)\<rparr>"
    by simp
  have tk: "nt_accessToken tk = Some (JStr ''new-access-token'')"
    "nt_expiresAt tk = Some (JStr ''t=1769504190000'')"
    unfolding tk_eq by (simp_all add: example_runtime_def eval_simps)
  have a2: "posts w2 = 3" "backoffs w2 = [10000, 20000]"
    using r2(3,4) base by (simp_all add: backoffs_def up)
  \<comment> \<open>a timeout, then an invalid grant\<close>
  have h3: "int 1 < 3 \<and>
      (\<forall>j<1. retryable_failure ?c ?r ?cr (attempt_time ?c ?w3 j) (responses ?w3 (posts ?w3 + j))) \<and>
      fatal_failure ?c ?r ?cr (attempt_time ?c ?w3 1) (responses ?w3 (posts ?w3 + 1))"
    by (simp add: example_world_def timeout_retryable invalid_grant_fatal)
  from refreshTokenWithRetry_policy [OF n, of ?c ?r ?cr ?w3] h3
  obtain e3 w3 where r3:
    "refreshTokenWithRetry ?c ?r ?cr 3 ?w3 = (Inl (Thrown e3), w3)"
    "attempt_error ?c ?r ?cr (attempt_time ?c ?w3 1) (responses ?w3 (posts ?w3 + 1)) = Some e3"
    "posts w3 = posts ?w3 + Suc 1"
    "backoffs w3 = backoffs ?w3 @ map (\<lambda>j. retryBackoffSeconds ?c * int (Suc j) * 1000) [0..<1]"
    by blast
  have e3: "err_message e3 = ''Refresh token is invalid or expired'' @ [CHR 0x0A] @
                            ''Please run: aws sso login --profile dev''"
    using r3(2) by (auto simp add: example_world_def invalid_grant_attempt_error new_Error_def)
  have a3: "posts w3 = 2" "backoffs w3 = [10000]"
    using r3(3,4) base by (simp_all add: backoffs_def up)
  \<comment> \<open>three responses with an expiry out of range\<close>
  have h4: "\<forall>j. int j < 3 \<longrightarrow> retryable_failure ?c ?r ?cr (attempt_time ?c ?w4 j)
              (responses ?w4 (posts ?w4 + j))"
    using far_expiry_retryable [OF t4] by simp
  from refreshTokenWithRetry_policy [OF n, of ?c ?r ?cr ?w4] h4
  obtain e4 w4 where r4:
    "refreshTokenWithRetry ?c ?r ?cr 3 ?w4 = (Inl (Thrown e4), w4)"
    "attempt_error ?c ?r ?cr (attempt_time ?c ?w4 (nat 3 - 1))
       (responses ?w4 (posts ?w4 + (nat 3 - 1))) = Some e4"
    "posts w4 = posts ?w4 + nat 3"
    "backoffs w4 = backoffs ?w4 @
       map (\<lambda>j. retryBackoffSeconds ?c * int (Suc j) * 1000) [0..<nat 3 - 1]"
    by blast
  have e4: "err_message e4 = ''Token refresh failed: Invalid time value''"
    using r4(2) far_expiry_attempt_error [OF t4, of ?c ?r ?cr "nat 3 - 1"]
    by (auto simp add: new_Error_def)
  have a4: "posts w4 = 3" "backoffs w4 = [10000, 20000]"
    using r4(3,4) base by (simp_all add: backoffs_def up)
  show ?thesis
    using n r1(1) e1 a1 r2(1) tk a2 r3(1) e3 a3 r4(1) e4 a4 by blast
qed

text \<open>Claim C10 at \<open>maxAttempts = 0\<close>.\<close>

theorem refreshTokenWithRetry_no_attempts_witness:
  "(0::int) < 1 \<and>
   refreshTokenWithRetry example_config example_runtime example_credentials 0 example_world =
     (Inl ThrownUndefined, example_world)"
  using refreshTokenWithRetry_no_attempts [of 0 example_config example_runtime example_credentials example_world]
  by simp

lemma invalid_response_attempt_error:
  assumes "invalid_response data"
  shows "attempt_error cfg rt creds now (Resolved data) =
     Some (new_Error ''Token refresh failed: Invalid response from OIDC endpoint: missing accessToken or expiresIn'')"
  using assms
  by (simp add: invalid_response_def attempt_error_def exchange_def try_result_def
      refreshToken_catch_def new_Error_def)

lemma invalid_response_retryable:
  assumes "invalid_response data"
  shows "retryable_failure cfg rt creds now (Resolved data)"
  using invalid_response_message_retryable
  by (simp add: retryable_failure_def invalid_response_attempt_error [OF assms] new_Error_def)

text \<open>
  Claim C4, as the code has it. A successful response whose body is not \<open>null\<close> and
  lacks \<open>accessToken\<close> or \<open>expiresIn\<close> makes \<open>refreshToken\<close> reject with the
  validation error, re-wrapped as \<open>Token refresh failed: ...\<close>; this message matches
  none of the non-retryable patterns, so the failure is retryable, not fatal, and when
  each of the \<open>N \<ge> 1\<close> responses is such a response \<open>refreshTokenWithRetry\<close>
  performs exactly \<open>N\<close> attempts, with the backoff waits between them, before it
  rejects with that error.
\<close>

theorem invalid_response_is_retried:
  "(\<forall>data now. invalid_response data \<longrightarrow>
      attempt_error cfg rt creds now (Resolved data) =
        Some (new_Error ''Token refresh failed: Invalid response from OIDC endpoint: missing accessToken or expiresIn'') \<and>
      retryable_failure cfg rt creds now (Resolved data) \<and>
      \<not> fatal_failure cfg rt creds now (Resolved data)) \<and>
   (1 \<le> N \<and> (\<forall>j. int j < N \<longrightarrow>
        (\<exists>data. responses w (posts w + j) = Resolved data \<and> invalid_response data)) \<longrightarrow>
      (\<exists>w'. refreshTokenWithRetry cfg rt creds N w =
           (Inl (Thrown (new_Error ''Token refresh failed: Invalid response from OIDC endpoint: missing accessToken or expiresIn'')), w') \<and>
         posts w' = posts w + nat N \<and>
         backoffs w' = backoffs w @
           map (\<lambda>j. retryBackoffSeconds cfg * int (Suc j) * 1000) [0..<nat N - 1]))"
proof (intro conjI allI impI)
  fix data now assume i: "invalid_response data"
  show "attempt_error cfg rt creds now (Resolved data) =
        Some (new_Error ''Token refresh failed: Invalid response from OIDC endpoint: missing accessToken or expiresIn'')"
    using i by (rule invalid_response_attempt_error)
  show "retryable_failure cfg rt creds now (Resolved data)"
    using i by (rule invalid_response_retryable)
  then show "\<not> fatal_failure cfg rt creds now (Resolved data)"
    by (simp add: retryable_failure_def fatal_failure_def split: option.splits)
next
  assume h: "1 \<le> N \<and> (\<forall>j. int j < N \<longrightarrow>
        (\<exists>data. responses w (posts w + j) = Resolved data \<and> invalid_response data))"
  have "1 \<le> N" using h by simp
  then have last: "int (nat N - 1) < N" by simp
  have all: "\<forall>j. int j < N \<longrightarrow>
      retryable_failure cfg rt creds (attempt_time cfg w j) (responses w (posts w + j))"
  proof (intro allI impI)
    fix j assume "int j < N"
    then obtain data where "responses w (posts w + j) = Resolved data" "invalid_response data"
      using h by blast
    then show "retryable_failure cfg rt creds (attempt_time cfg w j) (responses w (posts w + j))"
      using invalid_response_retryable by simp
  qed
  obtain e w' where r: "refreshTokenWithRetry cfg rt creds N w = (Inl (Thrown e), w')"
    "attempt_error cfg rt creds (attempt_time cfg w (nat N - 1))
       (responses w (posts w + (nat N - 1))) = Some e"
    "posts w' = posts w + nat N"
    "backoffs w' = backoffs w @
       map (\<lambda>j. retryBackoffSeconds cfg * int (Suc j) * 1000) [0..<nat N - 1]"
    using retry_exhausted [OF \<open>1 \<le> N\<close> all] by blast
  obtain data where d: "responses w (posts w + (nat N - 1)) = Resolved data" "invalid_response data"
    using h last by blast
  have "e = new_Error ''Token refresh failed: Invalid response from OIDC endpoint: missing accessToken or expiresIn''"
    using r(2) invalid_response_attempt_error [OF d(2), of cfg rt creds "attempt_time cfg w (nat N - 1)"]
    unfolding d(1) by simp
  then show "\<exists>w'. refreshTokenWithRetry cfg rt creds N w =
           (Inl (Thrown (new_Error ''Token refresh failed: Invalid response from OIDC endpoint: missing accessToken or expiresIn'')), w') \<and>
         posts w' = posts w + nat N \<and>
         backoffs w' = backoffs w @
           map (\<lambda>j. retryBackoffSeconds cfg * int (Suc j) * 1000) [0..<nat N - 1]"
    using r(1,3,4) by blast
qed

lemma missing_access_token_invalid:
  "\<exists>data. missing_access_token = Resolved data \<and> invalid_response data"
  by (simp add: missing_access_token_def invalid_response_def js_truthy_def)

text \<open>Claim C4 at three attempts, every response lacking \<open>accessToken\<close>.\<close>

theorem invalid_response_is_retried_witness:
  "(1::int) \<le> 3 \<and>
   (\<exists>data. missing_access_token = Resolved data \<and> invalid_response data) \<and>
   (\<exists>w'. refreshTokenWithRetry example_config example_runtime example_credentials 3
              (example_world\<lparr>responses := (\<lambda>k. missing_access_token)\<rparr>) =
            (Inl (Thrown (new_Error ''Token refresh failed: Invalid response from OIDC endpoint: missing accessToken or expiresIn'')), w') \<and>
       posts w' = 3 \<and> backoffs w' = [10000, 20000])"
proof -
  let ?w = "example_world\<lparr>responses := (\<lambda>k. missing_access_token)\<rparr>"
  have h: "1 \<le> (3::int) \<and> (\<forall>j. int j < 3 \<longrightarrow>
        (\<exists>data. responses ?w (posts ?w + j) = Resolved data \<and> invalid_response data))"
    using missing_access_token_invalid by simp
  note ex = mp [OF conjunct2 [OF invalid_response_is_retried
        [of example_config example_runtime example_credentials 3 ?w]] h]
  from ex obtain w' where r:
    "refreshTokenWithRetry example_config example_runtime example_credentials 3 ?w =
       (Inl (Thrown (new_Error ''Token refresh failed: Invalid response from OIDC endpoint: missing accessToken or expiresIn'')), w')"
    "posts w' = posts ?w + nat 3"
    "backoffs w' = backoffs ?w @
           map (\<lambda>j. retryBackoffSeconds example_config * int (Suc j) * 1000) [0..<nat 3 - 1]"
    by blast
  have a: "posts w' = 3" "backoffs w' = [10000, 20000]"
    using r(2,3) by (simp_all add: example_world_def backoffs_def example_config_def upt_rec)
  have e: "\<exists>w'. refreshTokenWithRetry example_config example_runtime example_credentials 3 ?w =
            (Inl (Thrown (new_Error ''Token refresh failed: Invalid response from OIDC endpoint: missing accessToken or expiresIn'')), w') \<and>
       posts w' = 3 \<and> backoffs w' = [10000, 20000]"
    using r(1) a by (intro exI [of _ w']) simp
  show ?thesis using e missing_access_token_invalid by simp
qed

text \<open>Claim C4 as stated fails: with three attempts allowed and every response lacking
  \<open>accessToken\<close>, three requests are issued, not one.\<close>

theorem invalid_response_not_fatal_counterexample:
  "posts (snd (refreshTokenWithRetry example_config example_runtime example_credentials 3
                 (example_world\<lparr>responses := (\<lambda>k. missing_access_token)\<rparr>))) = 3 \<and>
   posts example_world = 0 \<and>
   backoffs (snd (refreshTokenWithRetry example_config example_runtime example_credentials 3
                 (example_world\<lparr>responses := (\<lambda>k. missing_access_token)\<rparr>))) = [10000, 20000]"
proof -
  let ?w = "example_world\<lparr>responses := (\<lambda>k. missing_access_token)\<rparr>"
  have "\<forall>j. int j < 3 \<longrightarrow> retryable_failure example_config example_runtime example_credentials
            (attempt_time example_config ?w j) (responses ?w (posts ?w + j))"
  proof (intro allI impI)
    fix j
    obtain data where "missing_access_token = Resolved data" "invalid_response data"
      using missing_access_token_invalid by blast
    then show "retryable_failure example_config example_runtime example_credentials
            (attempt_time example_config ?w j) (responses ?w (posts ?w + j))"
      using invalid_response_retryable [of data] by simp
  qed
  then obtain e w' where r:
    "refreshTokenWithRetry example_config example_runtime example_credentials 3 ?w = (Inl (Thrown e), w')"
    "posts w' = posts ?w + nat 3"
    "backoffs w' = backoffs ?w @
           map (\<lambda>j. retryBackoffSeconds example_config * int (Suc j) * 1000) [0..<nat 3 - 1]"
    using retry_exhausted [of 3 example_config example_runtime example_credentials ?w] by auto
  have a: "posts w' = 3" "backoffs w' = [10000, 20000]" "posts example_world = 0"
    using r(2,3) by (simp_all add: example_world_def backoffs_def example_config_def upt_rec)
  show ?thesis using r(1) a by simp
qed

lemmas getCacheFilePath_fields [simp] = logs_only_fields [OF getCacheFilePath_logs_only]
lemmas readTokenCache_fields [simp] = logs_only_fields [OF readTokenCache_logs_only]
lemmas shouldRefresh_fields [simp] = logs_only_fields [OF shouldRefresh_logs_only]

lemma engine_frame_fields:
  assumes "engine_frame w w'"
  shows "sso_start_url w' = sso_start_url w" "cache_files w' = cache_files w"
    "responses w' = responses w" "write_error w' = write_error w"
    "consecutiveFailures w' = consecutiveFailures w" "isShuttingDown w' = isShuttingDown w"
    "monitorInterval w' = monitorInterval w" "max_warnings w' = max_warnings w"
  using assms by (simp_all add: engine_frame_def)

lemma refreshTokenWithRetry_frame:
  "engine_frame w (snd (refreshTokenWithRetry cfg rt creds maxAttempts w))"
  by (simp add: refreshTokenWithRetry_def retry_loop_frame)

lemmas refreshTokenWithRetry_fields [simp] = engine_frame_fields [OF refreshTokenWithRetry_frame]

lemma writeFileAtomic_fields [simp]:
  "sso_start_url (snd (writeFileAtomic f j w)) = sso_start_url w"
  "responses (snd (writeFileAtomic f j w)) = responses w"
  "write_error (snd (writeFileAtomic f j w)) = write_error w"
  "posts (snd (writeFileAtomic f j w)) = posts w"
  "clock (snd (writeFileAtomic f j w)) = clock w"
  "consecutiveFailures (snd (writeFileAtomic f j w)) = consecutiveFailures w"
  "isShuttingDown (snd (writeFileAtomic f j w)) = isShuttingDown w"
  "monitorInterval (snd (writeFileAtomic f j w)) = monitorInterval w"
  "max_warnings (snd (writeFileAtomic f j w)) = max_warnings w"
  by (simp_all add: writeFileAtomic_def split: option.split)

lemma writeTokenCache_fields [simp]:
  "sso_start_url (snd (writeTokenCache cfg rt nt w)) = sso_start_url w"
  "responses (snd (writeTokenCache cfg rt nt w)) = responses w"
  "write_error (snd (writeTokenCache cfg rt nt w)) = write_error w"
  "posts (snd (writeTokenCache cfg rt nt w)) = posts w"
  "clock (snd (writeTokenCache cfg rt nt w)) = clock w"
  "consecutiveFailures (snd (writeTokenCache cfg rt nt w)) = consecutiveFailures w"
  "isShuttingDown (snd (writeTokenCache cfg rt nt w)) = isShuttingDown w"
  "monitorInterval (snd (writeTokenCache cfg rt nt w)) = monitorInterval w"
  "max_warnings (snd (writeTokenCache cfg rt nt w)) = max_warnings w"
  by (simp_all add: writeTokenCache_def writeTokenCache_try_def case_prod_unfold split: sum.split)

lemma writeFileAtomic_failed:
  "fst (writeFileAtomic f j w) = Inl e \<Longrightarrow> cache_files (snd (writeFileAtomic f j w)) = cache_files w"
  by (simp add: writeFileAtomic_def split: option.splits)

lemma writeTokenCache_failed:
  "fst (writeTokenCache cfg rt nt w) = Inl e \<Longrightarrow>
   cache_files (snd (writeTokenCache cfg rt nt w)) = cache_files w"
  by (simp add: writeTokenCache_def writeTokenCache_try_def case_prod_unfold writeFileAtomic_failed
      split: sum.splits)

lemma refresh_announced_fields [simp]:
  "clock (refresh_announced m w) = clock w"
  "sso_start_url (refresh_announced m w) = sso_start_url w"
  "cache_files (refresh_announced m w) = cache_files w"
  "responses (refresh_announced m w) = responses w"
  "write_error (refresh_announced m w) = write_error w"
  "posts (refresh_announced m w) = posts w"
  "lastRequestTime (refresh_announced m w) = lastRequestTime w"
  "consecutiveFailures (refresh_announced m w) = consecutiveFailures w"
  "isShuttingDown (refresh_announced m w) = isShuttingDown w"
  "monitorInterval (refresh_announced m w) = monitorInterval w"
  "max_warnings (refresh_announced m w) = max_warnings w"
  "backoffs (refresh_announced m w) = backoffs w"
  by (simp_all add: refresh_announced_def Let_def)

text \<open>The paths through the \<open>try\<close> block of a cycle.\<close>

lemma try_block_cases [case_names read_failed check_failed not_due format_failed
    time_failed exchange_failed write_failed refreshed]:
  fixes cfg rt w
  defines "N \<equiv> maxRetryAttempts cfg"
  obtains
    e w1 where "readTokenCache cfg rt w = (Inl e, w1)"
      "refreshTokenIfNeeded_try cfg rt w = (Inl (Thrown e), w1)"
  | cache w1 e w2 where "readTokenCache cfg rt w = (Inr cache, w1)"
      "shouldRefresh cfg rt (get_prop cache ''expiresAt'') w1 = (Inl e, w2)"
      "refreshTokenIfNeeded_try cfg rt w = (Inl (Thrown e), w2)"
  | cache w1 w2 timeRemaining where "readTokenCache cfg rt w = (Inr cache, w1)"
      "shouldRefresh cfg rt (get_prop cache ''expiresAt'') w1 = (Inr False, w2)"
      "formatTimeRemaining rt (get_prop cache ''expiresAt'') w2 = Inr timeRemaining"
      "refreshTokenIfNeeded_try cfg rt w =
         (Inr (), (logger Debug (''Token is valid for '' @ timeRemaining @
                     '' - no refresh needed'') w2)\<lparr>consecutiveFailures := 0\<rparr>)"
  | cache w1 w2 e where "readTokenCache cfg rt w = (Inr cache, w1)"
      "shouldRefresh cfg rt (get_prop cache ''expiresAt'') w1 = (Inr False, w2)"
      "formatTimeRemaining rt (get_prop cache ''expiresAt'') w2 = Inl e"
      "refreshTokenIfNeeded_try cfg rt w = (Inl (Thrown e), w2)"
  | cache w1 w2 e where "readTokenCache cfg rt w = (Inr cache, w1)"
      "shouldRefresh cfg rt (get_prop cache ''expiresAt'') w1 = (Inr True, w2)"
      "getTimeUntilExpiry rt (get_prop cache ''expiresAt'') w2 = Inl e"
      "refreshTokenIfNeeded_try cfg rt w = (Inl (Thrown e), w2)"
  | cache w1 w2 t e w5 where "readTokenCache cfg rt w = (Inr cache, w1)"
      "shouldRefresh cfg rt (get_prop cache ''expiresAt'') w1 = (Inr True, w2)"
      "getTimeUntilExpiry rt (get_prop cache ''expiresAt'') w2 = Inr t"
      "refreshTokenWithRetry cfg rt (cache_credentials cache) N
         (refresh_announced (round_minutes t) w2) = (Inl e, w5)"
      "refreshTokenIfNeeded_try cfg rt w = (Inl e, w5)"
  | cache w1 w2 t newTokens w5 e w6 where "readTokenCache cfg rt w = (Inr cache, w1)"
      "shouldRefresh cfg rt (get_prop cache ''expiresAt'') w1 = (Inr True, w2)"
      "getTimeUntilExpiry rt (get_prop cache ''expiresAt'') w2 = Inr t"
      "refreshTokenWithRetry cfg rt (cache_credentials cache) N
         (refresh_announced (round_minutes t) w2) = (Inr newTokens, w5)"
      "writeTokenCache cfg rt newTokens w5 = (Inl e, w6)"
      "refreshTokenIfNeeded_try cfg rt w = (Inl (Thrown e), w6)"
  | cache w1 w2 t newTokens w5 b w6 where "readTokenCache cfg rt w = (Inr cache, w1)"
      "shouldRefresh cfg rt (get_prop cache ''expiresAt'') w1 = (Inr True, w2)"
      "getTimeUntilExpiry rt (get_prop cache ''expiresAt'') w2 = Inr t"
      "refreshTokenWithRetry cfg rt (cache_credentials cache) N
         (refresh_announced (round_minutes t) w2) = (Inr newTokens, w5)"
      "writeTokenCache cfg rt newTokens w5 = (Inr b, w6)"
      "refreshTokenIfNeeded_try cfg rt w =
         (Inr (), logger Success ''Token refresh cycle completed successfully''
            ((emit (NotifySuccess (nt_expiresAt newTokens) (nt_expiresIn newTokens)) w6)
               \<lparr>consecutiveFailures := 0\<rparr>))"
proof -
  obtain r1 w1 where rd: "readTokenCache cfg rt w = (r1, w1)" by (cases "readTokenCache cfg rt w")
  show ?thesis
  proof (cases r1)
    case (Inl e)
    then show ?thesis using rd that(1) by (simp add: refreshTokenIfNeeded_try_def)
  next
    case (Inr cache)
    note rd = rd [unfolded Inr]
    let ?e = "get_prop cache ''expiresAt''"
    obtain r2 w2 where sr: "shouldRefresh cfg rt ?e w1 = (r2, w2)"
      by (cases "shouldRefresh cfg rt ?e w1")
    show ?thesis
    proof (cases r2)
      case (Inl e)
      then show ?thesis using rd sr that(2) by (simp add: refreshTokenIfNeeded_try_def)
    next
      case (Inr due)
      note sr = sr [unfolded Inr]
      show ?thesis
      proof (cases due)
        case False
        with sr have sr: "shouldRefresh cfg rt ?e w1 = (Inr False, w2)" by simp
        show ?thesis
        proof (cases "formatTimeRemaining rt ?e w2")
          case (Inl e)
          then show ?thesis using rd sr that(4) by (simp add: refreshTokenIfNeeded_try_def)
        next
          case (Inr timeRemaining)
          then show ?thesis using rd sr that(3) by (simp add: refreshTokenIfNeeded_try_def)
        qed
      next
        case True
        with sr have sr: "shouldRefresh cfg rt ?e w1 = (Inr True, w2)" by simp
        show ?thesis
        proof (cases "getTimeUntilExpiry rt ?e w2")
          case (Inl e)
          then show ?thesis using rd sr that(5) by (simp add: refreshTokenIfNeeded_try_def)
        next
          case (Inr t)
          note gt = Inr
          let ?w4 = "refresh_announced (round_minutes t) w2"
          obtain r5 w5 where rr: "refreshTokenWithRetry cfg rt (cache_credentials cache) N ?w4 = (r5, w5)"
            by (cases "refreshTokenWithRetry cfg rt (cache_credentials cache) N ?w4")
          have unfold: "refreshTokenIfNeeded_try cfg rt w =
              (case r5 of
                 Inl e \<Rightarrow> (Inl e, w5)
               | Inr newTokens \<Rightarrow>
                   (case writeTokenCache cfg rt newTokens w5 of
                      (Inl e, w6) \<Rightarrow> (Inl (Thrown e), w6)
                    | (Inr b, w6) \<Rightarrow>
                        (Inr (), logger Success ''Token refresh cycle completed successfully''
                           ((emit (NotifySuccess (nt_expiresAt newTokens) (nt_expiresIn newTokens)) w6)
                              \<lparr>consecutiveFailures := 0\<rparr>))))"
            using rd sr gt rr
            by (simp add: refreshTokenIfNeeded_try_def refresh_announced_def cache_credentials_def
                N_def Let_def split: sum.split)
          show ?thesis
          proof (cases r5)
            case (Inl e)
            then show ?thesis using rd sr gt rr unfold that(6) by simp
          next
            case (Inr newTokens)
            note rr = rr [unfolded Inr]
            obtain r6 w6 where wr: "writeTokenCache cfg rt newTokens w5 = (r6, w6)"
              by (cases "writeTokenCache cfg rt newTokens w5")
            show ?thesis
            proof (cases r6)
              case (Inl e)
              then show ?thesis using rd sr gt rr wr unfold Inr that(7) by simp
            next
              case (Inr b)
              then show ?thesis using rd sr gt rr wr unfold \<open>r5 = Inr newTokens\<close> that(8) by simp
            qed
          qed
        qed
      qed
    qed
  qed
qed


lemma retry_loop_thrown:
  "fst (retry_loop cfg rt creds maxAttempts attempt lastError w) = Inl x \<Longrightarrow>
   attempt \<le> maxAttempts \<or> lastError \<noteq> ThrownUndefined \<Longrightarrow> x \<noteq> ThrownUndefined"
proof (induction cfg rt creds maxAttempts attempt lastError w rule: retry_loop.induct)
  case (1 cfg rt creds maxAttempts attempt lastError w)
  show ?case
  proof (cases "attempt \<le> maxAttempts")
    case False
    then show ?thesis using "1.prems" by (subst (asm) retry_loop.simps) auto
  next
    case le: True
    show ?thesis
    proof (cases "fst (refreshToken cfg rt creds w)")
      case (Inr result)
      then show ?thesis
        using le "1.prems"(1) by (subst (asm) retry_loop.simps) (simp add: case_prod_unfold)
    next
      case (Inl error)
      show ?thesis
      proof (cases "isNonRetryable (err_message error)")
        case True
        then show ?thesis
          using le Inl "1.prems"(1) by (subst (asm) retry_loop.simps) (auto simp add: case_prod_unfold)
      next
        case nr: False
        show ?thesis
        proof (cases "attempt < maxAttempts")
          case True
          show ?thesis
            using "1.IH"(1) [OF le prod.collapse Inl nr True] "1.prems"(1) le Inl nr True
            by (subst (asm) (2) retry_loop.simps) (simp add: case_prod_unfold)
        next
          case False
          show ?thesis
            using "1.IH"(2) [OF le prod.collapse Inl nr False] "1.prems"(1) le Inl nr False
            by (subst (asm) (2) retry_loop.simps) (simp add: case_prod_unfold)
        qed
      qed
    qed
  qed
qed

lemma refreshTokenWithRetry_thrown:
  "1 \<le> maxAttempts \<Longrightarrow> fst (refreshTokenWithRetry cfg rt creds maxAttempts w) \<noteq> Inl ThrownUndefined"
  using retry_loop_thrown [of cfg rt creds maxAttempts 1 ThrownUndefined w ThrownUndefined]
  by (auto simp: refreshTokenWithRetry_def)

lemma try_block_summary:
  "isShuttingDown (snd (refreshTokenIfNeeded_try cfg rt w)) = isShuttingDown w \<and>
   monitorInterval (snd (refreshTokenIfNeeded_try cfg rt w)) = monitorInterval w \<and>
   max_warnings (snd (refreshTokenIfNeeded_try cfg rt w)) = max_warnings w \<and>
   consecutiveFailures (snd (refreshTokenIfNeeded_try cfg rt w)) =
     (case fst (refreshTokenIfNeeded_try cfg rt w) of
        Inr u \<Rightarrow> 0 | Inl e \<Rightarrow> consecutiveFailures w) \<and>
   (\<forall>e. fst (refreshTokenIfNeeded_try cfg rt w) = Inl e \<longrightarrow>
      cache_files (snd (refreshTokenIfNeeded_try cfg rt w)) = cache_files w) \<and>
   (1 \<le> maxRetryAttempts cfg \<longrightarrow>
      fst (refreshTokenIfNeeded_try cfg rt w) \<noteq> Inl ThrownUndefined)"
proof (cases rule: try_block_cases [of cfg rt w])
  case (read_failed e w1)
  have "w1 = snd (readTokenCache cfg rt w)" using read_failed(1) by simp
  then show ?thesis using read_failed(2) by simp
next
  case (check_failed cache w1 e w2)
  have "w1 = snd (readTokenCache cfg rt w)"
    "w2 = snd (shouldRefresh cfg rt (get_prop cache ''expiresAt'') w1)"
    using check_failed(1,2) by simp_all
  then show ?thesis using check_failed(3) by simp
next
  case (not_due cache w1 w2 timeRemaining)
  have "w1 = snd (readTokenCache cfg rt w)"
    "w2 = snd (shouldRefresh cfg rt (get_prop cache ''expiresAt'') w1)"
    using not_due(1,2) by simp_all
  then show ?thesis using not_due(4) by simp
next
  case (format_failed cache w1 w2 e)
  have "w1 = snd (readTokenCache cfg rt w)"
    "w2 = snd (shouldRefresh cfg rt (get_prop cache ''expiresAt'') w1)"
    using format_failed(1,2) by simp_all
  then show ?thesis using format_failed(4) by simp
next
  case (time_failed cache w1 w2 e)
  have "w1 = snd (readTokenCache cfg rt w)"
    "w2 = snd (shouldRefresh cfg rt (get_prop cache ''expiresAt'') w1)"
    using time_failed(1,2) by simp_all
  then show ?thesis using time_failed(4) by simp
next
  case (exchange_failed cache w1 w2 t e w5)
  have w: "w1 = snd (readTokenCache cfg rt w)"
    "w2 = snd (shouldRefresh cfg rt (get_prop cache ''expiresAt'') w1)"
    "w5 = snd (refreshTokenWithRetry cfg rt (cache_credentials cache) (maxRetryAttempts cfg)
                 (refresh_announced (round_minutes t) w2))"
    using exchange_failed(1,2,4) by simp_all
  have "1 \<le> maxRetryAttempts cfg \<Longrightarrow> e \<noteq> ThrownUndefined"
    using refreshTokenWithRetry_thrown [of "maxRetryAttempts cfg" cfg rt "cache_credentials cache"
        "refresh_announced (round_minutes t) w2"] exchange_failed(4) by auto
  then show ?thesis using exchange_failed(5) w by simp
next
  case (write_failed cache w1 w2 t newTokens w5 e w6)
  have w: "w1 = snd (readTokenCache cfg rt w)"
    "w2 = snd (shouldRefresh cfg rt (get_prop cache ''expiresAt'') w1)"
    "w5 = snd (refreshTokenWithRetry cfg rt (cache_credentials cache) (maxRetryAttempts cfg)
                 (refresh_announced (round_minutes t) w2))"
    "w6 = snd (writeTokenCache cfg rt newTokens w5)"
    using write_failed(1,2,4,5) by simp_all
  have "cache_files w6 = cache_files w5"
    using writeTokenCache_failed [of cfg rt newTokens w5 e] write_failed(5) by simp
  then show ?thesis using write_failed(6) w by simp
next
  case (refreshed cache w1 w2 t newTokens w5 b w6)
  have w: "w1 = snd (readTokenCache cfg rt w)"
    "w2 = snd (shouldRefresh cfg rt (get_prop cache ''expiresAt'') w1)"
    "w5 = snd (refreshTokenWithRetry cfg rt (cache_credentials cache) (maxRetryAttempts cfg)
                 (refresh_announced (round_minutes t) w2))"
    "w6 = snd (writeTokenCache cfg rt newTokens w5)"
    using refreshed(1,2,4,5) by simp_all
  show ?thesis using refreshed(6) w by simp
qed

lemma catch_block_error:
  assumes "refreshTokenIfNeeded_catch cfg rt (Thrown e) w = (r, w')"
  shows "r = Inr () \<and> consecutiveFailures w' = Suc (consecutiveFailures w) \<and>
   max_warnings w' = (if Suc (consecutiveFailures w) = MAX_CONSECUTIVE_FAILURES
                      then Suc (max_warnings w) else max_warnings w) \<and>
   monitorInterval w' = monitorInterval w \<and> isShuttingDown w' = isShuttingDown w \<and>
   cache_files w' = cache_files w \<and> posts w' = posts w"
proof -
  define w2 where "w2 = logger Failure (''Token refresh failed ('' @
      show_nat (Suc (consecutiveFailures w)) @ ''/'' @ show_nat MAX_CONSECUTIVE_FAILURES @ '')'')
      (w\<lparr>consecutiveFailures := Suc (consecutiveFailures w)\<rparr>)"
  define w3 where "w3 = (if str_includes (err_message e) ''invalid or expired'' \<or>
                           str_includes (err_message e) ''invalid_grant''
                        then logger Error (getReloginErrorMessage cfg ''Refresh token is no longer valid'')
                               (emit NotifyReloginRequired w2)
                        else emit (NotifyError (err_message e)) w2)"
  define w4 where "w4 = (if consecutiveFailures w3 = MAX_CONSECUTIVE_FAILURES
                        then logger Warning max_failures_warning w3 else w3)"
  have eq: "refreshTokenIfNeeded_catch cfg rt (Thrown e) w = (Inr (), w4)"
    by (simp add: refreshTokenIfNeeded_catch_def Let_def w2_def w3_def w4_def)
  have f2: "consecutiveFailures w2 = Suc (consecutiveFailures w)" "max_warnings w2 = max_warnings w"
    "monitorInterval w2 = monitorInterval w" "isShuttingDown w2 = isShuttingDown w"
    "cache_files w2 = cache_files w" "posts w2 = posts w"
    by (simp_all add: w2_def)
  have f3: "consecutiveFailures w3 = Suc (consecutiveFailures w)" "max_warnings w3 = max_warnings w"
    "monitorInterval w3 = monitorInterval w" "isShuttingDown w3 = isShuttingDown w"
    "cache_files w3 = cache_files w" "posts w3 = posts w"
    using f2 by (simp_all add: w3_def)
  have f4: "consecutiveFailures w4 = Suc (consecutiveFailures w)"
    "max_warnings w4 = (if Suc (consecutiveFailures w) = MAX_CONSECUTIVE_FAILURES
                      then Suc (max_warnings w) else max_warnings w)"
    "monitorInterval w4 = monitorInterval w" "isShuttingDown w4 = isShuttingDown w"
    "cache_files w4 = cache_files w" "posts w4 = posts w"
    using f3 by (simp_all add: w4_def max_warnings_logger)
  show ?thesis using assms eq f4 by simp
qed

lemma catch_block_undefined:
  "refreshTokenIfNeeded_catch cfg rt ThrownUndefined w = (r, w') \<Longrightarrow>
   consecutiveFailures w' = Suc (consecutiveFailures w) \<and>
   monitorInterval w' = monitorInterval w \<and> isShuttingDown w' = isShuttingDown w \<and>
   cache_files w' = cache_files w \<and> posts w' = posts w"
  by (auto simp add: refreshTokenIfNeeded_catch_def Let_def)

lemma cycle_eq:
  assumes "\<not> isShuttingDown w"
  shows "refreshTokenIfNeeded cfg rt w =
     (case fst (refreshTokenIfNeeded_try cfg rt w) of
        Inr u \<Rightarrow> (Inr u, snd (refreshTokenIfNeeded_try cfg rt w))
      | Inl error \<Rightarrow> refreshTokenIfNeeded_catch cfg rt error (snd (refreshTokenIfNeeded_try cfg rt w)))"
  using assms by (simp add: refreshTokenIfNeeded_def case_prod_unfold)

lemma not_due_cycle:
  assumes "fst (readTokenCache cfg rt w) = Inr cache"
    "validateAndParseDate rt (get_prop cache ''expiresAt'') = Inr t"
    "refreshThreshold cfg < t - clock w"
  shows "fst (refreshTokenIfNeeded_try cfg rt w) = Inr ()"
    "posts (snd (refreshTokenIfNeeded_try cfg rt w)) = posts w"
    "cache_files (snd (refreshTokenIfNeeded_try cfg rt w)) = cache_files w"
proof -
  let ?e = "get_prop cache ''expiresAt''"
  obtain w1 where rd: "readTokenCache cfg rt w = (Inr cache, w1)"
    using assms(1) by (cases "readTokenCache cfg rt w") simp
  have w1: "w1 = snd (readTokenCache cfg rt w)" using rd by simp
  have c: "clock w1 = clock w" "posts w1 = posts w" "cache_files w1 = cache_files w"
    unfolding w1 by simp_all
  have sr: "shouldRefresh cfg rt ?e w1 = (Inr False, w1)"
    using assms(2,3) c by (simp add: shouldRefresh_def getTimeUntilExpiry_def)
  have fm: "formatTimeRemaining rt ?e w1 = Inr (format_ms (t - clock w))"
    using assms(2) c by (simp add: formatTimeRemaining_def getTimeUntilExpiry_def format_ms_def Let_def)
  have "refreshTokenIfNeeded_try cfg rt w =
         (Inr (), (logger Debug (''Token is valid for '' @ format_ms (t - clock w) @
                     '' - no refresh needed'') w1)\<lparr>consecutiveFailures := 0\<rparr>)"
    using rd sr fm by (simp add: refreshTokenIfNeeded_try_def)
  then show "fst (refreshTokenIfNeeded_try cfg rt w) = Inr ()"
    "posts (snd (refreshTokenIfNeeded_try cfg rt w)) = posts w"
    "cache_files (snd (refreshTokenIfNeeded_try cfg rt w)) = cache_files w"
    using c by simp_all
qed

text \<open>
  What a cycle that is not skipped for shutdown does to the scheduler's state. When the
  \<open>try\<close> block completes (the token is found not due, or it is refreshed and
  written), the consecutive-failure counter is 0 afterwards and no consecutive-failures
  warning is logged; when any step fails, the counter is one more than before, and, the
  thrown value being an error object (as it is when \<open>maxRetryAttempts \<ge> 1\<close>),
  the cycle returns normally and logs the consecutive-failures warning once exactly
  when the new count equals \<open>MAX_CONSECUTIVE_FAILURES\<close>; the cycle never changes
  \<open>monitorInterval\<close>.
\<close>

lemma consecutive_failures_counter:
  assumes "refreshTokenIfNeeded cfg rt w = (r, w')" and "\<not> isShuttingDown w"
  shows
    "(\<forall>cache t. fst (readTokenCache cfg rt w) = Inr cache \<and>
        validateAndParseDate rt (get_prop cache ''expiresAt'') = Inr t \<and>
        refreshThreshold cfg < t - clock w \<longrightarrow>
        r = Inr () \<and> consecutiveFailures w' = 0 \<and> posts w' = posts w) \<and>
     (fst (refreshTokenIfNeeded_try cfg rt w) = Inr () \<longrightarrow>
        r = Inr () \<and> consecutiveFailures w' = 0 \<and> max_warnings w' = max_warnings w) \<and>
     (\<forall>error. fst (refreshTokenIfNeeded_try cfg rt w) = Inl error \<longrightarrow>
        consecutiveFailures w' = Suc (consecutiveFailures w) \<and>
        (1 \<le> maxRetryAttempts cfg \<longrightarrow>
           r = Inr () \<and>
           max_warnings w' = (if Suc (consecutiveFailures w) = MAX_CONSECUTIVE_FAILURES
                              then Suc (max_warnings w) else max_warnings w))) \<and>
     monitorInterval w' = monitorInterval w \<and> isShuttingDown w' = isShuttingDown w"
proof -
  let ?t = "refreshTokenIfNeeded_try cfg rt w"
  note s = try_block_summary [of cfg rt w]
  have ok: "r = Inr () \<and> consecutiveFailures w' = 0 \<and> max_warnings w' = max_warnings w \<and>
            monitorInterval w' = monitorInterval w \<and> isShuttingDown w' = isShuttingDown w \<and>
            w' = snd ?t"
    if t: "fst ?t = Inr ()"
  proof -
    have "refreshTokenIfNeeded cfg rt w = (Inr (), snd ?t)"
      using t assms(2) by (simp add: cycle_eq)
    then have rw: "r = Inr ()" "w' = snd ?t" using assms(1) by simp_all
    have "consecutiveFailures (snd ?t) = 0" using s t by simp
    moreover have "max_warnings (snd ?t) = max_warnings w"
      "monitorInterval (snd ?t) = monitorInterval w" "isShuttingDown (snd ?t) = isShuttingDown w"
      using s by simp_all
    ultimately show ?thesis using rw by simp
  qed
  have failed: "consecutiveFailures w' = Suc (consecutiveFailures w) \<and>
        (1 \<le> maxRetryAttempts cfg \<longrightarrow>
           r = Inr () \<and>
           max_warnings w' = (if Suc (consecutiveFailures w) = MAX_CONSECUTIVE_FAILURES
                              then Suc (max_warnings w) else max_warnings w)) \<and>
        monitorInterval w' = monitorInterval w \<and> isShuttingDown w' = isShuttingDown w"
    if f: "fst ?t = Inl error" for error
  proof -
    have c: "refreshTokenIfNeeded_catch cfg rt error (snd ?t) = (r, w')"
      using assms f by (simp add: cycle_eq)
    have pre: "consecutiveFailures (snd ?t) = consecutiveFailures w"
      "max_warnings (snd ?t) = max_warnings w" "monitorInterval (snd ?t) = monitorInterval w"
      "isShuttingDown (snd ?t) = isShuttingDown w"
      using s f by simp_all
    show ?thesis
    proof (cases error)
      case ThrownUndefined
      then have "\<not> 1 \<le> maxRetryAttempts cfg" using s f by auto
      then show ?thesis
        using catch_block_undefined [OF c [unfolded ThrownUndefined]] pre by simp
    next
      case (Thrown e)
      show ?thesis
        using catch_block_error [OF c [unfolded Thrown]] pre by simp
    qed
  qed
  have frame: "monitorInterval w' = monitorInterval w \<and> isShuttingDown w' = isShuttingDown w"
  proof (cases "fst ?t")
    case (Inl error)
    then show ?thesis using failed by blast
  next
    case (Inr u)
    then have "fst ?t = Inr ()" by simp
    from ok [OF this] show ?thesis by blast
  qed
  have nd: "r = Inr () \<and> consecutiveFailures w' = 0 \<and> posts w' = posts w"
    if "fst (readTokenCache cfg rt w) = Inr cache \<and>
        validateAndParseDate rt (get_prop cache ''expiresAt'') = Inr t \<and>
        refreshThreshold cfg < t - clock w" for cache t
    using not_due_cycle [of cfg rt w cache t] that ok by auto
  show ?thesis
    using ok failed frame nd by blast
qed

lemmas cycle_defs =
  refreshTokenIfNeeded_def refreshTokenIfNeeded_try_def refreshTokenIfNeeded_catch_def
  readTokenCache_def readTokenCache_try_def getCacheFilePath_def readFile_parse_def
  shouldRefresh_def getTimeUntilExpiry_def formatTimeRemaining_def validateAndParseDate_def
  refreshTokenWithRetry_def retry_loop.simps refreshToken_def refreshToken_try_def
  refreshToken_catch_def writeTokenCache_def writeTokenCache_try_def writeFileAtomic_def
  updatedCache_def stringify_parse_def round_minutes_def getReloginErrorMessage_def
  getLoginCommand_def getOidcEndpoint_def expiry_time_def time_clip_def
  MAX_CONSECUTIVE_FAILURES_def EXPIRY_WARNING_THRESHOLD_MINUTES_def MIN_REQUEST_INTERVAL_MS_def
  max_failures_warning_def logger_def emit_def sleep_def Let_def

text \<open>
  Claim C6 at its failing input. The token is due and the exchange answers HTTP 401:
  the cycle issues one request, leaves the cache directory as it was and increments the
  counter by one, but it reports through \<open>notifyError\<close>, not through
  \<open>notifyReloginRequired\<close>. On an \<open>invalid_grant\<close> answer (HTTP 400) the same cycle
  does report \<open>notifyReloginRequired\<close>.
\<close>

theorem unauthorized_cycle_reports_generic_error:
  "fst (refreshTokenIfNeeded example_config example_runtime
          (example_world\<lparr>responses := (\<lambda>k. Rejected unauthorized_error)\<rparr>)) = Inr () \<and>
   effects (snd (refreshTokenIfNeeded example_config example_runtime
          (example_world\<lparr>responses := (\<lambda>k. Rejected unauthorized_error)\<rparr>))) =
     [NotifyExpiringSoon 4,
      AxiosPost ''https://oidc.ca-central-1.amazonaws.com/token''
        [(''clientId'', Some (JStr ''test-client'')), (''clientSecret'', Some (JStr ''test-secret'')),
         (''grantType'', Some (JStr ''refresh_token'')), (''refreshToken'', Some (JStr ''old-refresh''))],
      NotifyError (''Client credentials are invalid'' @ [CHR 0x0A] @
                   ''Please run: aws sso login --profile dev'')] \<and>
   posts (snd (refreshTokenIfNeeded example_config example_runtime
          (example_world\<lparr>responses := (\<lambda>k. Rejected unauthorized_error)\<rparr>))) = 1 \<and>
   consecutiveFailures (snd (refreshTokenIfNeeded example_config example_runtime
          (example_world\<lparr>responses := (\<lambda>k. Rejected unauthorized_error)\<rparr>))) = 1 \<and>
   cache_files (snd (refreshTokenIfNeeded example_config example_runtime
          (example_world\<lparr>responses := (\<lambda>k. Rejected unauthorized_error)\<rparr>))) =
     cache_files example_world \<and>
   effects (snd (refreshTokenIfNeeded example_config example_runtime
          (example_world\<lparr>responses := (\<lambda>k. Rejected invalid_grant_error)\<rparr>))) =
     [NotifyExpiringSoon 4,
      AxiosPost ''https://oidc.ca-central-1.amazonaws.com/token''
        [(''clientId'', Some (JStr ''test-client'')), (''clientSecret'', Some (JStr ''test-secret'')),
         (''grantType'', Some (JStr ''refresh_token'')), (''refreshToken'', Some (JStr ''old-refresh''))],
      NotifyReloginRequired]"
proof -
  have a: "refreshTokenIfNeeded example_config example_runtime
          (example_world\<lparr>responses := (\<lambda>k. Rejected unauthorized_error)\<rparr>) =
        (Inr (), example_world\<lparr>responses := (\<lambda>k. Rejected unauthorized_error),
           posts := 1, lastRequestTime := 1769500560000, consecutiveFailures := 1,
           logs := [(Debug, ''Computed cache file path''),
                    (Token, ''Token cache read successfully''),
                    (Refresh, ''Token expires in 4 minutes - refresh needed''),
                    (Refresh, ''Token expires in 4 minutes - refreshing now''),
                    (Refresh, ''Attempting token refresh''),
                    (Failure, ''Token refresh failed with non-retryable error''),
                    (Failure, ''Token refresh failed (1/5)'')],
           effects := [NotifyExpiringSoon 4,
      AxiosPost ''https://oidc.ca-central-1.amazonaws.com/token''
        [(''clientId'', Some (JStr ''test-client'')), (''clientSecret'', Some (JStr ''test-secret'')),
         (''grantType'', Some (JStr ''refresh_token'')), (''refreshToken'', Some (JStr ''old-refresh''))],
      NotifyError (''Client credentials are invalid'' @ [CHR 0x0A] @
                   ''Please run: aws sso login --profile dev'')]\<rparr>)"
    by (simp add: cycle_defs example_defs eval_simps includes_simps unauthorized_error_def)
  have b: "effects (snd (refreshTokenIfNeeded example_config example_runtime
          (example_world\<lparr>responses := (\<lambda>k. Rejected invalid_grant_error)\<rparr>))) =
     [NotifyExpiringSoon 4,
      AxiosPost ''https://oidc.ca-central-1.amazonaws.com/token''
        [(''clientId'', Some (JStr ''test-client'')), (''clientSecret'', Some (JStr ''test-secret'')),
         (''grantType'', Some (JStr ''refresh_token'')), (''refreshToken'', Some (JStr ''old-refresh''))],
      NotifyReloginRequired]"
    by (simp add: cycle_defs example_defs eval_simps includes_simps invalid_grant_error_def)
  show ?thesis
    unfolding a using b by (simp add: example_world_def)
qed

lemma example_read_any:
  assumes "sso_start_url w = sso_start_url example_world" "cache_files w = cache_files example_world"
  shows "fst (readTokenCache example_config example_runtime w) = Inr example_cache"
proof -
  have "fst (getCacheFilePath example_config example_runtime w) =
        fst (getCacheFilePath example_config example_runtime example_world)"
    using assms by (rule getCacheFilePath_cong)
  then have p: "fst (getCacheFilePath example_config example_runtime w) = Inr ''0a1b2c.json''"
    by (simp add: getCacheFilePath_def example_world_def example_runtime_def Let_def)
  have r: "readFile_parse example_config ''0a1b2c.json'' w = Inr example_cache"
    using assms(2) by (simp add: readFile_parse_def example_world_def)
  have v: "valid_cache example_runtime example_cache"
    by (simp add: valid_cache_def example_cache_def required_fields_def js_truthy_def
        validateAndParseDate_def example_runtime_def)
  show ?thesis using p r v by (rule readTokenCache_InrI)
qed

text \<open>The \<open>try\<close> block when every request times out, whatever the counter.\<close>

lemma timeout_try_block:
  "refreshTokenIfNeeded_try example_config example_runtime (example_world\<lparr>consecutiveFailures := c\<rparr>) =
     (Inl (Thrown (new_Error ''Request timeout: OIDC endpoint at https://oidc.ca-central-1.amazonaws.com/token did not respond in time.'')),
      example_world\<lparr>clock := 1769500590000, posts := 3, lastRequestTime := 1769500590000,
        consecutiveFailures := c,
        logs := [(Debug, ''Computed cache file path''),
                 (Token, ''Token cache read successfully''),
                 (Refresh, ''Token expires in 4 minutes - refresh needed''),
                 (Refresh, ''Token expires in 4 minutes - refreshing now''),
                 (Refresh, ''Attempting token refresh''),
                 (Warning, ''Token refresh attempt 1/3 failed - retrying in 10s''),
                 (Refresh, ''Attempting token refresh''),
                 (Warning, ''Token refresh attempt 2/3 failed - retrying in 20s''),
                 (Refresh, ''Attempting token refresh''),
                 (Failure, ''Token refresh failed after 3 attempts'')],
        effects := [NotifyExpiringSoon 4,
          AxiosPost ''https://oidc.ca-central-1.amazonaws.com/token''
            [(''clientId'', Some (JStr ''test-client'')), (''clientSecret'', Some (JStr ''test-secret'')),
             (''grantType'', Some (JStr ''refresh_token'')), (''refreshToken'', Some (JStr ''old-refresh''))],
          Slept Backoff 10000,
          AxiosPost ''https://oidc.ca-central-1.amazonaws.com/token''
            [(''clientId'', Some (JStr ''test-client'')), (''clientSecret'', Some (JStr ''test-secret'')),
             (''grantType'', Some (JStr ''refresh_token'')), (''refreshToken'', Some (JStr ''old-refresh''))],
          Slept Backoff 20000,
          AxiosPost ''https://oidc.ca-central-1.amazonaws.com/token''
            [(''clientId'', Some (JStr ''test-client'')), (''clientSecret'', Some (JStr ''test-secret'')),
             (''grantType'', Some (JStr ''refresh_token'')), (''refreshToken'', Some (JStr ''old-refresh''))]]\<rparr>)"
  by (simp add: cycle_defs example_defs eval_simps includes_simps)

text \<open>The \<open>try\<close> block when the first request succeeds, whatever the counter.\<close>

lemma refreshed_try_block:
  "refreshTokenIfNeeded_try example_config example_runtime
     (example_world\<lparr>responses := (\<lambda>k. ok_response), consecutiveFailures := c\<rparr>) =
     (Inr (),
      example_world\<lparr>responses := (\<lambda>k. ok_response),
        cache_files := Some [(''0a1b2c.json'', JsonText (JObj [
           (''startUrl'', JStr ''https://test-sso.awsapps.com/start/#''),
           (''region'', JStr ''ca-central-1''),
           (''accessToken'', JStr ''new-access-token''),
           (''expiresAt'', JStr ''t=1769504160000''),
           (''clientId'', JStr ''test-client''),
           (''clientSecret'', JStr ''test-secret''),
           (''refreshToken'', JStr ''old-refresh'')]))],
        posts := 1, lastRequestTime := 1769500560000,
        consecutiveFailures := 0,
        logs := [(Debug, ''Computed cache file path''),
                 (Token, ''Token cache read successfully''),
                 (Refresh, ''Token expires in 4 minutes - refresh needed''),
                 (Refresh, ''Token expires in 4 minutes - refreshing now''),
                 (Refresh, ''Attempting token refresh''),
                 (Success, ''Token refresh successful''),
                 (Debug, ''Computed cache file path''),
                 (Success, ''Token cache updated successfully''),
                 (Success, ''Token refresh cycle completed successfully'')],
        effects := [NotifyExpiringSoon 4,
          AxiosPost ''https://oidc.ca-central-1.amazonaws.com/token''
            [(''clientId'', Some (JStr ''test-client'')), (''clientSecret'', Some (JStr ''test-secret'')),
             (''grantType'', Some (JStr ''refresh_token'')), (''refreshToken'', Some (JStr ''old-refresh''))],
          WriteFileAtomic ''0a1b2c.json'' (JObj [
           (''startUrl'', JStr ''https://test-sso.awsapps.com/start/#''),
           (''region'', JStr ''ca-central-1''),
           (''accessToken'', JStr ''new-access-token''),
           (''expiresAt'', JStr ''t=1769504160000''),
           (''clientId'', JStr ''test-client''),
           (''clientSecret'', JStr ''test-secret''),
           (''refreshToken'', JStr ''old-refresh'')]),
          Chmod ''0a1b2c.json'',
          NotifySuccess (Some (JStr ''t=1769504160000'')) (Some (JNum 3600))]\<rparr>)"
  by (simp add: cycle_defs example_defs eval_simps includes_simps ok_response_def js_truthy_def
      List.map_filter_def)


lemma example_max_warnings: "max_warnings example_world = 0"
  by (simp add: max_warnings_def example_world_def)

text \<open>
  Claim C8 at its failing input. With \<open>maxRetryAttempts = 0\<close>, the token due and the
  counter at 4, \<open>refreshTokenWithRetry\<close> rejects with \<open>undefined\<close>; the \<open>catch\<close>
  block of the cycle increments the counter to 5 and then throws a TypeError on
  \<open>error.message\<close>: the cycle rejects, nothing is notified, and the consecutive-failures
  warning that is due at 5 is not logged. With \<open>maxRetryAttempts = 3\<close> and every
  request timing out, the same cycle returns normally, brings the counter to 5 and logs
  the warning once.
\<close>

theorem zero_attempts_cycle_throws:
  "maxRetryAttempts (example_config\<lparr>maxRetryAttempts := 0\<rparr>) = 0 \<and>
   MAX_CONSECUTIVE_FAILURES = 5 \<and>
   fst (refreshTokenIfNeeded (example_config\<lparr>maxRetryAttempts := 0\<rparr>) example_runtime
          (example_world\<lparr>consecutiveFailures := 4\<rparr>)) =
     Inl (Thrown (new_TypeError (fault_message example_runtime (ReadOfUndefined ''message'')))) \<and>
   consecutiveFailures (snd (refreshTokenIfNeeded (example_config\<lparr>maxRetryAttempts := 0\<rparr>)
          example_runtime (example_world\<lparr>consecutiveFailures := 4\<rparr>))) = 5 \<and>
   max_warnings (snd (refreshTokenIfNeeded (example_config\<lparr>maxRetryAttempts := 0\<rparr>)
          example_runtime (example_world\<lparr>consecutiveFailures := 4\<rparr>))) = 0 \<and>
   posts (snd (refreshTokenIfNeeded (example_config\<lparr>maxRetryAttempts := 0\<rparr>)
          example_runtime (example_world\<lparr>consecutiveFailures := 4\<rparr>))) = 0 \<and>
   effects (snd (refreshTokenIfNeeded (example_config\<lparr>maxRetryAttempts := 0\<rparr>)
          example_runtime (example_world\<lparr>consecutiveFailures := 4\<rparr>))) = [NotifyExpiringSoon 4] \<and>
   monitorInterval (snd (refreshTokenIfNeeded (example_config\<lparr>maxRetryAttempts := 0\<rparr>)
          example_runtime (example_world\<lparr>consecutiveFailures := 4\<rparr>))) \<and>
   fst (refreshTokenIfNeeded example_config example_runtime
          (example_world\<lparr>consecutiveFailures := 4\<rparr>)) = Inr () \<and>
   consecutiveFailures (snd (refreshTokenIfNeeded example_config example_runtime
          (example_world\<lparr>consecutiveFailures := 4\<rparr>))) = 5 \<and>
   max_warnings (snd (refreshTokenIfNeeded example_config example_runtime
          (example_world\<lparr>consecutiveFailures := 4\<rparr>))) = 1"
proof -
  let ?c0 = "example_config\<lparr>maxRetryAttempts := 0\<rparr>"
  let ?w4 = "example_world\<lparr>consecutiveFailures := 4\<rparr>"
  have a: "refreshTokenIfNeeded ?c0 example_runtime ?w4 =
        (Inl (Thrown (new_TypeError (fault_message example_runtime (ReadOfUndefined ''message'')))),
         example_world\<lparr>consecutiveFailures := 5,
           logs := [(Debug, ''Computed cache file path''),
                    (Token, ''Token cache read successfully''),
                    (Refresh, ''Token expires in 4 minutes - refresh needed''),
                    (Refresh, ''Token expires in 4 minutes - refreshing now'')],
           effects := [NotifyExpiringSoon 4]\<rparr>)"
    by (simp add: cycle_defs example_config_def example_cache_def example_world_def
        timeout_error_def show_int_def show_nat_def show_digits.simps digit_char_def
        js_truthy_def required_fields_def includes_simps
        example_runtime_def [THEN arg_cong, of date_parse]
        example_runtime_def [THEN arg_cong, of sha1])
  have s: "\<not> isShuttingDown ?w4" by (simp add: example_world_def)
  have b: "fst (refreshTokenIfNeeded example_config example_runtime ?w4) = Inr () \<and>
      consecutiveFailures (snd (refreshTokenIfNeeded example_config example_runtime ?w4)) = 5 \<and>
      max_warnings (snd (refreshTokenIfNeeded example_config example_runtime ?w4)) = 1"
    by (simp add: refreshTokenIfNeeded_def s timeout_try_block refreshTokenIfNeeded_catch_def
        new_Error_def includes_simps Let_def MAX_CONSECUTIVE_FAILURES_def max_warnings_def
        max_failures_warning_def show_nat_def show_digits.simps digit_char_def logger_def emit_def)
  have m: "MAX_CONSECUTIVE_FAILURES = 5" by (simp add: MAX_CONSECUTIVE_FAILURES_def)
  show ?thesis
    unfolding a using b m by (simp add: example_world_def max_warnings_def)
qed

subsection \<open>Writing the cache and reading it back\<close>

lemma find_matching_find:
  "fst (find_matching cfg s names w) = find (startUrl_matches cfg s w) names"
proof (induction names arbitrary: w)
  case Nil
  show ?case by simp
next
  case (Cons n names)
  have m: "startUrl_matches cfg s (logger Debug t w) = startUrl_matches cfg s w" for t
    by (rule ext) (simp add: startUrl_matches_def readFile_parse_def)
  note ih1 = Cons.IH [of w]
  note ih2 = Cons.IH [of "logger Debug ''Skipping invalid cache file'' w", unfolded m]
  show ?case
  proof (cases "readFile_parse cfg n w")
    case (Inl e)
    then have "\<not> startUrl_matches cfg s w n" by (simp add: startUrl_matches_def)
    then show ?thesis using Inl ih2 by simp
  next
    case (Inr data)
    then have h: "startUrl_matches cfg s w n =
        (data \<noteq> JNull \<and> get_prop data ''startUrl'' = Some (JStr s))"
      by (simp add: startUrl_matches_def)
    show ?thesis
    proof (cases "startUrl_matches cfg s w n")
      case True
      then show ?thesis using Inr h by simp
    next
      case False
      then show ?thesis using Inr h ih1 ih2 by auto
    qed
  qed
qed

lemma getCacheFilePath_fst:
  "fst (getCacheFilePath cfg rt w) =
     (case sso_start_url w of
        Inl e \<Rightarrow> Inl e
      | Inr startUrl \<Rightarrow>
          (case cache_files w of
             None \<Rightarrow> Inl (new_Error (getReloginErrorMessage cfg
                     (''Cache directory not found: '' @ awsSsoCacheDir cfg @ [CHR 0x0A] @
                      ''Please ensure AWS CLI is installed and run: aws sso login --profile '' @
                      awsSsoProfile cfg)))
           | Some files \<Rightarrow>
               (case map_of files (sha1 rt startUrl @ ''.json'') of
                  Some c \<Rightarrow> Inr (sha1 rt startUrl @ ''.json'')
                | None \<Rightarrow>
                    (case find (startUrl_matches cfg startUrl w)
                            (filter (\<lambda>f. suffix ''.json'' f) (map fst files)) of
                       Some filename \<Rightarrow> Inr filename
                     | None \<Rightarrow> Inl (new_Error (getReloginErrorMessage cfg
                                  (''Cache file not found: '' @
                                   cache_path cfg (sha1 rt startUrl @ ''.json'') @ [CHR 0x0A] @
                                   ''No cache file in '' @ awsSsoCacheDir cfg @
                                   '' matches startUrl: '' @ startUrl)))))))"
proof -
  have m: "startUrl_matches cfg s (logger Debug t (logger Debug t' w)) = startUrl_matches cfg s w" for s t t'
    by (rule ext) (simp add: startUrl_matches_def readFile_parse_def)
  show ?thesis
    by (simp add: getCacheFilePath_def Let_def case_prod_unfold find_matching_find m
        split: sum.split option.split)
qed

lemma update_keeps_names:
  "map_of al k = Some v \<Longrightarrow> map fst (AList.update k v' al) = map fst al"
  by (induction al) (auto split: if_splits)

lemma resolve_after_write:
  assumes res: "fst (getCacheFilePath cfg rt w) = Inr f"
    and files: "cache_files w = Some files"
    and old: "map_of files f = Some (JsonText old)"
    and nn: "new \<noteq> JNull" "old \<noteq> JNull"
    and su: "get_prop new ''startUrl'' = get_prop old ''startUrl''"
    and w': "sso_start_url w' = sso_start_url w"
      "cache_files w' = Some (AList.update f (JsonText new) files)"
  shows "fst (getCacheFilePath cfg rt w') = Inr f"
proof -
  obtain s where s: "sso_start_url w = Inr s"
    using res by (cases "sso_start_url w") (simp_all add: getCacheFilePath_fst)
  let ?comp = "sha1 rt s @ ''.json''"
  let ?files' = "AList.update f (JsonText new) files"
  have names: "map fst ?files' = map fst files"
    using old by (rule update_keeps_names)
  have rd: "readFile_parse cfg n w' =
        (if n = f then Inr new else readFile_parse cfg n w)" for n
    using files w'(2) by (simp add: readFile_parse_def update_conv')
  have rdf: "readFile_parse cfg f w = Inr old"
    using files old by (simp add: readFile_parse_def)
  have m: "startUrl_matches cfg s w' = startUrl_matches cfg s w"
    by (rule ext) (simp add: startUrl_matches_def rd rdf nn su)
  show ?thesis
  proof (cases "map_of files ?comp")
    case (Some c)
    then have "f = ?comp" using res s files by (simp add: getCacheFilePath_fst)
    then show ?thesis
      using s w' Some by (simp add: getCacheFilePath_fst update_conv')
  next
    case None
    then have ne: "f \<noteq> ?comp" using old by auto
    have "map_of ?files' ?comp = None" using None ne by (simp add: update_conv')
    then show ?thesis
      using res s files w' None by (simp add: getCacheFilePath_fst names m)
  qed
qed


lemma update_values:
  "snd ` set (AList.update k v al) \<subseteq> insert v (snd ` set al)"
  by (induction al) auto

lemma map_of_drop_undefined:
  "None \<notin> snd ` set obj \<Longrightarrow>
   map_of (List.map_filter (\<lambda>(k, v). map_option (Pair k) v) obj) k =
     (case map_of obj k of None \<Rightarrow> None | Some v \<Rightarrow> v)"
  by (induction obj) (auto simp: List.map_filter_simps split: option.splits)

lemma get_prop_written:
  assumes at: "nt_accessToken nt = Some a" and ex: "nt_expiresAt nt = Some e"
  shows "get_prop (stringify_parse (updatedCache (JObj kvs) nt)) k =
     (if k = ''refreshToken'' \<and> js_truthy (nt_refreshToken nt) then nt_refreshToken nt
      else if k = ''expiresAt'' then Some e
      else if k = ''accessToken'' then Some a
      else map_of kvs k)"
proof -
  let ?u0 = "map (\<lambda>(k, v). (k, Some v)) kvs"
  let ?u2 = "AList.update ''expiresAt'' (Some e) (AList.update ''accessToken'' (Some a) ?u0)"
  have v0: "None \<notin> snd ` set ?u0" by auto
  have v2: "None \<notin> snd ` set ?u2"
    using v0 update_values [of "''expiresAt''" "Some e" "AList.update ''accessToken'' (Some a) ?u0"]
      update_values [of "''accessToken''" "Some a" ?u0] by blast
  have m0: "map_of ?u0 k = map_option Some (map_of kvs k)" for k
    by (simp add: map_of_map)
  have m2: "map_of ?u2 k =
      (if k = ''expiresAt'' then Some (Some e) else if k = ''accessToken'' then Some (Some a)
       else map_option Some (map_of kvs k))" for k
    by (simp add: update_conv' m0)
  show ?thesis
  proof (cases "js_truthy (nt_refreshToken nt)")
    case False
    then have u: "updatedCache (JObj kvs) nt = ?u2"
      by (simp add: updatedCache_def at ex)
    show ?thesis
      using False unfolding u stringify_parse_def get_prop.simps map_of_drop_undefined [OF v2] m2
      by (simp split: option.split)
  next
    case True
    then obtain r where r: "nt_refreshToken nt = Some r"
      by (cases "nt_refreshToken nt") (simp_all add: js_truthy_def)
    let ?u3 = "AList.update ''refreshToken'' (Some r) ?u2"
    have u: "updatedCache (JObj kvs) nt = ?u3"
      using True by (simp add: updatedCache_def at ex r)
    have v3: "None \<notin> snd ` set ?u3"
      using v2 update_values [of "''refreshToken''" "Some r" ?u2] by blast
    have m3: "map_of ?u3 k = (if k = ''refreshToken'' then Some (Some r) else map_of ?u2 k)" for k
      by (simp add: update_conv')
    show ?thesis
      using True unfolding u stringify_parse_def get_prop.simps map_of_drop_undefined [OF v3] m3 m2
      by (simp add: r split: option.split)
  qed
qed

lemma valid_cache_obj:
  assumes "valid_cache rt cache"
  shows "\<exists>kvs. cache = JObj kvs"
proof (cases cache)
  case (JObj kvs)
  then show ?thesis by simp
qed (use assms in \<open>simp_all add: valid_cache_def required_fields_def js_truthy_def\<close>)

lemma file_after_write:
  assumes rd: "fst (readTokenCache cfg rt w) = Inr cache"
    and io: "write_error w = None"
    and at: "nt_accessToken nt = Some a" and ex: "nt_expiresAt nt = Some e"
  shows "writeTokenCache cfg rt nt w = (Inr True, snd (writeTokenCache cfg rt nt w))"
    and "\<exists>f. fst (getCacheFilePath cfg rt (snd (writeTokenCache cfg rt nt w))) = Inr f \<and>
             readFile_parse cfg f (snd (writeTokenCache cfg rt nt w)) =
               Inr (stringify_parse (updatedCache cache nt))"
proof -
  let ?new = "stringify_parse (updatedCache cache nt)"
  let ?w' = "snd (writeTokenCache cfg rt nt w)"
  obtain f where f: "fst (getCacheFilePath cfg rt w) = Inr f"
    and r: "readFile_parse cfg f w = Inr cache" and v: "valid_cache rt cache"
    using readTokenCache_InrD [OF rd] by blast
  obtain kvs where kvs: "cache = JObj kvs" using valid_cache_obj [OF v] by blast
  obtain files where files: "cache_files w = Some files"
    using r by (cases "cache_files w") (simp_all add: readFile_parse_def)
  have old: "map_of files f = Some (JsonText cache)"
    using r files by (simp add: readFile_parse_def split: option.splits file_content.splits)
  have wr: "fst (writeTokenCache cfg rt nt w) = Inr True"
    "cache_files ?w' = Some (AList.update f (JsonText ?new) files)"
    using f r io files
    by (simp_all add: writeTokenCache_def writeTokenCache_try_def writeFileAtomic_def
        case_prod_unfold split: sum.splits)
  show "writeTokenCache cfg rt nt w = (Inr True, ?w')"
    using wr(1) by (metis prod.collapse)
  have su: "get_prop ?new ''startUrl'' = get_prop cache ''startUrl''"
    unfolding kvs get_prop_written [OF at ex] by simp
  have nn: "?new \<noteq> JNull" "cache \<noteq> JNull"
    by (simp_all add: stringify_parse_def kvs)
  have p: "fst (getCacheFilePath cfg rt ?w') = Inr f"
    using f files old nn su by (rule resolve_after_write) (simp_all add: wr)
  have "readFile_parse cfg f ?w' = Inr ?new"
    by (simp add: readFile_parse_def wr update_conv')
  with p show "\<exists>f. fst (getCacheFilePath cfg rt ?w') = Inr f \<and>
             readFile_parse cfg f ?w' = Inr ?new"
    by blast
qed

lemma written_valid:
  assumes v: "valid_cache rt (JObj kvs)"
    and at: "nt_accessToken nt = Some a" "truthy a"
    and ex: "nt_expiresAt nt = Some (JStr s)" "validateAndParseDate rt (Some (JStr s)) = Inr t"
  shows "valid_cache rt (stringify_parse (updatedCache (JObj kvs) nt))"
proof -
  have s: "s \<noteq> []" using ex(2) by (auto simp: validateAndParseDate_def split: if_splits)
  have old: "js_truthy (map_of kvs ''clientId'')" "js_truthy (map_of kvs ''clientSecret'')"
    "js_truthy (map_of kvs ''refreshToken'')"
    using v by (simp_all add: valid_cache_def required_fields_def split: if_splits)
  show ?thesis
    unfolding valid_cache_def get_prop_written [OF at(1) ex(1)]
    using at(2) s old ex(2)
    by (auto simp: required_fields_def stringify_parse_def js_truthy_def)
qed

text \<open>
  Claim C1, amended. Let the cache be readable (with record \<open>cache\<close>) and the file
  system accept the write, and let \<open>newTokens\<close> carry a truthy \<open>accessToken\<close> and an
  \<open>expiresAt\<close> string that parses as a date. Then \<open>writeTokenCache\<close> returns \<open>true\<close>,
  the following \<open>readTokenCache\<close> succeeds, and the record it returns has the new
  \<open>accessToken\<close> and \<open>expiresAt\<close>, has \<open>newTokens.refreshToken\<close> when that value is
  truthy and the previous \<open>refreshToken\<close> otherwise, and agrees with the previous record
  on every other field (also on \<open>expiresIn\<close>, which is never written).
\<close>

theorem writeTokenCache_then_read:
  assumes rd: "fst (readTokenCache cfg rt w) = Inr cache"
    and io: "write_error w = None"
    and at: "nt_accessToken nt = Some a" "truthy a"
    and ex: "nt_expiresAt nt = Some (JStr s)" "validateAndParseDate rt (Some (JStr s)) = Inr t"
  shows "\<exists>w' cache'.
      writeTokenCache cfg rt nt w = (Inr True, w') \<and>
      fst (readTokenCache cfg rt w') = Inr cache' \<and>
      get_prop cache' ''accessToken'' = Some a \<and>
      get_prop cache' ''expiresAt'' = Some (JStr s) \<and>
      get_prop cache' ''refreshToken'' =
        (if js_truthy (nt_refreshToken nt) then nt_refreshToken nt
         else get_prop cache ''refreshToken'') \<and>
      (\<forall>k. k \<notin> {''accessToken'', ''expiresAt'', ''refreshToken''} \<longrightarrow>
           get_prop cache' k = get_prop cache k)"
proof -
  let ?new = "stringify_parse (updatedCache cache nt)"
  let ?w' = "snd (writeTokenCache cfg rt nt w)"
  obtain kvs where kvs: "cache = JObj kvs" and v: "valid_cache rt cache"
    using readTokenCache_InrD [OF rd] valid_cache_obj by blast
  have wr: "writeTokenCache cfg rt nt w = (Inr True, ?w')"
    using rd io at(1) ex(1) by (rule file_after_write(1))
  obtain f where f: "fst (getCacheFilePath cfg rt ?w') = Inr f"
    "readFile_parse cfg f ?w' = Inr ?new"
    using file_after_write(2) [OF rd io at(1) ex(1)] by blast
  have "valid_cache rt ?new"
    using v at ex unfolding kvs by (rule written_valid)
  with f have rb: "fst (readTokenCache cfg rt ?w') = Inr ?new"
    by (rule readTokenCache_InrI)
  have props: "get_prop ?new ''accessToken'' = Some a"
    "get_prop ?new ''expiresAt'' = Some (JStr s)"
    "get_prop ?new ''refreshToken'' =
        (if js_truthy (nt_refreshToken nt) then nt_refreshToken nt
         else get_prop cache ''refreshToken'')"
    "\<forall>k. k \<notin> {''accessToken'', ''expiresAt'', ''refreshToken''} \<longrightarrow>
           get_prop ?new k = get_prop cache k"
    unfolding kvs get_prop_written [OF at(1) ex(1)] by simp_all
  show ?thesis
    using wr rb props by blast
qed

lemma readTokenCache_fst_Inl:
  "fst (readTokenCache_try cfg rt w) = Inl e \<Longrightarrow> err_code e \<noteq> Some ''ENOENT'' \<Longrightarrow>
   fst (readTokenCache cfg rt w) = Inl e"
  by (simp add: readTokenCache_def case_prod_unfold split: sum.splits)

lemma example_tokens_fields:
  "nt_accessToken example_tokens = Some (JStr ''new-access-token'')"
  "nt_expiresAt example_tokens = Some (JStr ''2026-01-27T10:30:00Z'')"
  "nt_refreshToken example_tokens = None"
  "nt_accessToken empty_refresh_tokens = Some (JStr ''new-access-token'')"
  "nt_expiresAt empty_refresh_tokens = Some (JStr ''2026-01-27T10:30:00Z'')"
  "nt_refreshToken empty_refresh_tokens = Some (JStr '''')"
  "nt_accessToken undated_tokens = Some (JStr ''new-access-token'')"
  "nt_expiresAt undated_tokens = Some (JStr ''soon'')"
  "nt_refreshToken undated_tokens = None"
  by (simp_all add: example_tokens_def empty_refresh_tokens_def undated_tokens_def)

lemma example_date:
  "validateAndParseDate example_runtime (Some (JStr ''2026-01-27T10:30:00Z'')) = Inr 1769509800000"
  by (simp add: validateAndParseDate_def example_runtime_def)

text \<open>The amended claim C1 at the example cache, written with tokens that carry no
  refresh token.\<close>

theorem writeTokenCache_then_read_witness:
  "fst (readTokenCache example_config example_runtime example_world) = Inr example_cache \<and>
   write_error example_world = None \<and>
   nt_accessToken example_tokens = Some (JStr ''new-access-token'') \<and>
   truthy (JStr ''new-access-token'') \<and>
   nt_expiresAt example_tokens = Some (JStr ''2026-01-27T10:30:00Z'') \<and>
   validateAndParseDate example_runtime (Some (JStr ''2026-01-27T10:30:00Z'')) = Inr 1769509800000 \<and>
   (\<exists>w' cache'.
      writeTokenCache example_config example_runtime example_tokens example_world = (Inr True, w') \<and>
      fst (readTokenCache example_config example_runtime w') = Inr cache' \<and>
      get_prop cache' ''accessToken'' = Some (JStr ''new-access-token'') \<and>
      get_prop cache' ''expiresAt'' = Some (JStr ''2026-01-27T10:30:00Z'') \<and>
      get_prop cache' ''refreshToken'' = Some (JStr ''old-refresh'') \<and>
      get_prop cache' ''clientId'' = Some (JStr ''test-client'') \<and>
      get_prop cache' ''expiresIn'' = None)"
proof -
  have io: "write_error example_world = None" by (simp add: example_world_def)
  have tr: "truthy (JStr ''new-access-token'')" by simp
  have old: "get_prop example_cache ''refreshToken'' = Some (JStr ''old-refresh'')"
    "get_prop example_cache ''clientId'' = Some (JStr ''test-client'')"
    "get_prop example_cache ''expiresIn'' = None"
    by (simp_all add: example_cache_def)
  obtain w' cache' where
    r: "writeTokenCache example_config example_runtime example_tokens example_world = (Inr True, w')"
      "fst (readTokenCache example_config example_runtime w') = Inr cache'"
      "get_prop cache' ''accessToken'' = Some (JStr ''new-access-token'')"
      "get_prop cache' ''expiresAt'' = Some (JStr ''2026-01-27T10:30:00Z'')"
      "get_prop cache' ''refreshToken'' =
        (if js_truthy (nt_refreshToken example_tokens) then nt_refreshToken example_tokens
         else get_prop example_cache ''refreshToken'')"
      "\<forall>k. k \<notin> {''accessToken'', ''expiresAt'', ''refreshToken''} \<longrightarrow>
           get_prop cache' k = get_prop example_cache k"
    using writeTokenCache_then_read [OF example_read io example_tokens_fields(1) tr
        example_tokens_fields(2) example_date]
    by blast
  have r5: "get_prop cache' ''refreshToken'' = Some (JStr ''old-refresh'')"
    using r(5) by (simp add: example_tokens_fields js_truthy_def old)
  have r6: "get_prop cache' ''clientId'' = Some (JStr ''test-client'')"
    "get_prop cache' ''expiresIn'' = None"
    using r(6) [rule_format, of "''clientId''"] r(6) [rule_format, of "''expiresIn''"]
    by (simp_all add: old)
  have "\<exists>w' cache'.
      writeTokenCache example_config example_runtime example_tokens example_world = (Inr True, w') \<and>
      fst (readTokenCache example_config example_runtime w') = Inr cache' \<and>
      get_prop cache' ''accessToken'' = Some (JStr ''new-access-token'') \<and>
      get_prop cache' ''expiresAt'' = Some (JStr ''2026-01-27T10:30:00Z'') \<and>
      get_prop cache' ''refreshToken'' = Some (JStr ''old-refresh'') \<and>
      get_prop cache' ''clientId'' = Some (JStr ''test-client'') \<and>
      get_prop cache' ''expiresIn'' = None"
    using r(1-4) r5 r6 by blast
  then show ?thesis
    using example_read io example_tokens_fields(1,2) tr example_date by blast
qed

text \<open>
  Claim C1 as stated does not hold for every \<open>newTokens\<close> that contains \<open>accessToken\<close>
  and \<open>expiresAt\<close>: an empty \<open>refreshToken\<close> is present and yet the previous one is
  kept, and after a write with an \<open>expiresAt\<close> that is not a date the write returns
  \<open>true\<close> and the following \<open>readTokenCache\<close> rejects.
\<close>

theorem writeTokenCache_round_trip_counterexample:
  "fst (readTokenCache example_config example_runtime example_world) = Inr example_cache \<and>
   nt_refreshToken empty_refresh_tokens = Some (JStr '''') \<and>
   fst (writeTokenCache example_config example_runtime empty_refresh_tokens example_world) = Inr True \<and>
   (\<exists>cache'. fst (readTokenCache example_config example_runtime
                    (snd (writeTokenCache example_config example_runtime empty_refresh_tokens
                            example_world))) = Inr cache' \<and>
              get_prop cache' ''refreshToken'' = Some (JStr ''old-refresh'')) \<and>
   nt_accessToken undated_tokens = Some (JStr ''new-access-token'') \<and>
   nt_expiresAt undated_tokens = Some (JStr ''soon'') \<and>
   fst (writeTokenCache example_config example_runtime undated_tokens example_world) = Inr True \<and>
   fst (readTokenCache example_config example_runtime
          (snd (writeTokenCache example_config example_runtime undated_tokens example_world))) =
     Inl (new_Error (getReloginErrorMessage example_config
            (''Cache file has invalid expiry date: Invalid date format: '' @ [CHR 0x22] @ ''soon'' @
             [CHR 0x22] @ ''. Expected ISO 8601 format (e.g., '' @ [CHR 0x22] @
             ''2026-01-24T14:30:00Z'' @ [CHR 0x22] @ '').'')))"
proof -
  let ?c = example_config and ?r = example_runtime
  have io: "write_error example_world = None" by (simp add: example_world_def)
  obtain kvs where kvs: "example_cache = JObj kvs"
    and old: "map_of kvs ''refreshToken'' = Some (JStr ''old-refresh'')"
      "map_of kvs ''clientId'' = Some (JStr ''test-client'')"
      "map_of kvs ''clientSecret'' = Some (JStr ''test-secret'')"
    by (simp add: example_cache_def)
  have v: "valid_cache ?r (JObj kvs)"
    using readTokenCache_InrD [OF example_read] unfolding kvs by blast
  \<comment> \<open>an empty refresh token\<close>
  let ?w1 = "snd (writeTokenCache ?c ?r empty_refresh_tokens example_world)"
  let ?n1 = "stringify_parse (updatedCache (JObj kvs) empty_refresh_tokens)"
  have w1: "fst (writeTokenCache ?c ?r empty_refresh_tokens example_world) = Inr True"
    using file_after_write(1) [OF example_read io example_tokens_fields(4,5)]
    by (metis fst_conv)
  obtain f1 where f1: "fst (getCacheFilePath ?c ?r ?w1) = Inr f1"
    "readFile_parse ?c f1 ?w1 = Inr ?n1"
    using file_after_write(2) [OF example_read io example_tokens_fields(4,5)] unfolding kvs
    by blast
  have "valid_cache ?r ?n1"
    using v example_tokens_fields(4) _ example_tokens_fields(5) example_date
    by (rule written_valid) simp
  with f1 have r1: "fst (readTokenCache ?c ?r ?w1) = Inr ?n1"
    by (rule readTokenCache_InrI)
  have p1: "get_prop ?n1 ''refreshToken'' = Some (JStr ''old-refresh'')"
    unfolding get_prop_written [OF example_tokens_fields(4,5)]
    by (simp add: example_tokens_fields js_truthy_def old)
  \<comment> \<open>an \<open>expiresAt\<close> that is not a date\<close>
  let ?w2 = "snd (writeTokenCache ?c ?r undated_tokens example_world)"
  let ?n2 = "stringify_parse (updatedCache (JObj kvs) undated_tokens)"
  have w2: "fst (writeTokenCache ?c ?r undated_tokens example_world) = Inr True"
    using file_after_write(1) [OF example_read io example_tokens_fields(7,8)]
    by (metis fst_conv)
  obtain f2 where f2: "fst (getCacheFilePath ?c ?r ?w2) = Inr f2"
    "readFile_parse ?c f2 ?w2 = Inr ?n2"
    using file_after_write(2) [OF example_read io example_tokens_fields(7,8)] unfolding kvs
    by blast
  have nn: "?n2 \<noteq> JNull" by (simp add: stringify_parse_def)
  have t2: "fst (readTokenCache_try ?c ?r ?w2) =
     Inl (new_Error (getReloginErrorMessage example_config
            (''Cache file has invalid expiry date: Invalid date format: '' @ [CHR 0x22] @ ''soon'' @
             [CHR 0x22] @ ''. Expected ISO 8601 format (e.g., '' @ [CHR 0x22] @
             ''2026-01-24T14:30:00Z'' @ [CHR 0x22] @ '').'')))"
    unfolding readTokenCache_try_fst f2 sum.case get_prop_written [OF example_tokens_fields(7,8)]
    using nn
    by (simp add: required_fields_def js_truthy_def old example_tokens_fields
        validateAndParseDate_def example_runtime_def new_Error_def)
  have r2: "fst (readTokenCache ?c ?r ?w2) =
     Inl (new_Error (getReloginErrorMessage example_config
            (''Cache file has invalid expiry date: Invalid date format: '' @ [CHR 0x22] @ ''soon'' @
             [CHR 0x22] @ ''. Expected ISO 8601 format (e.g., '' @ [CHR 0x22] @
             ''2026-01-24T14:30:00Z'' @ [CHR 0x22] @ '').'')))"
    using t2 by (rule readTokenCache_fst_Inl) (simp add: new_Error_def)
  show ?thesis
    using example_read example_tokens_fields(6,7,8) w1 r1 p1 w2 r2 by blast
qed

subsection \<open>Redaction of API error payloads\<close>

lemmas stringify_simps = quote_def escape_char_def REDACTED_def MAX_SAFE_INTEGER_def

text \<open>
  Claim C5 at its failing input. The request is rejected with HTTP 500 and a payload
  that carries an \<open>idToken\<close> and, one level down, an \<open>accessToken\<close>:
  \<open>refreshToken\<close> rejects with a message that renders both values and has no
  \<open>[REDACTED]\<close> marker, because \<open>sanitizeApiResponse\<close> replaces only the top-level
  fields whose names are in its list. For the payload of the test suite, whose
  credentials are all in top-level fields of the list, the message carries the marker
  and none of the values.
\<close>

theorem unlisted_credentials_rendered_verbatim:
  "err_response unlisted_credentials_error =
     Some (500, JObj [(''error'', JStr ''server_error''), (''idToken'', JStr ''tok-123''),
                      (''session'', JObj [(''accessToken'', JStr ''tok-456'')])]) \<and>
   (\<exists>e. fst (refreshToken example_config example_runtime example_credentials
               (example_world\<lparr>responses := (\<lambda>k. Rejected unlisted_credentials_error)\<rparr>)) = Inl e \<and>
        err_message e = ''OIDC API error (500): '' @
          stringify example_runtime
            (JObj [(''error'', JStr ''server_error''), (''idToken'', JStr ''tok-123''),
                   (''session'', JObj [(''accessToken'', JStr ''tok-456'')])]) \<and>
        str_includes (err_message e) ''tok-123'' \<and>
        str_includes (err_message e) ''tok-456'' \<and>
        \<not> str_includes (err_message e) ''[REDACTED]'') \<and>
   (\<exists>e. fst (refreshToken example_config example_runtime example_credentials
               (example_world\<lparr>responses := (\<lambda>k. Rejected server_error)\<rparr>)) = Inl e \<and>
        err_message e = ''OIDC API error (500): '' @
          stringify example_runtime
            (JObj [(''error'', JStr ''server_error''),
                   (''accessToken'', JStr ''[REDACTED]''),
                   (''clientSecret'', JStr ''[REDACTED]''),
                   (''password'', JStr ''[REDACTED]'')]) \<and>
        str_includes (err_message e) ''[REDACTED]'' \<and>
        \<not> str_includes (err_message e) ''should-be-redacted'')"
proof -
  let ?u = "example_world\<lparr>responses := (\<lambda>k. Rejected unlisted_credentials_error)\<rparr>"
  let ?s = "example_world\<lparr>responses := (\<lambda>k. Rejected server_error)\<rparr>"
  let ?um = "''OIDC API error (500): '' @
          stringify example_runtime
            (JObj [(''error'', JStr ''server_error''), (''idToken'', JStr ''tok-123''),
                   (''session'', JObj [(''accessToken'', JStr ''tok-456'')])])"
  let ?sm = "''OIDC API error (500): '' @
          stringify example_runtime
            (JObj [(''error'', JStr ''server_error''),
                   (''accessToken'', JStr ''[REDACTED]''),
                   (''clientSecret'', JStr ''[REDACTED]''),
                   (''password'', JStr ''[REDACTED]'')])"
  have r: "err_response unlisted_credentials_error =
     Some (500, JObj [(''error'', JStr ''server_error''), (''idToken'', JStr ''tok-123''),
                      (''session'', JObj [(''accessToken'', JStr ''tok-456'')])])"
    by (simp add: unlisted_credentials_error_def)
  have u: "fst (refreshToken example_config example_runtime example_credentials ?u) = Inl (new_Error ?um)"
    by (simp add: refreshToken_eq refreshToken_catch_def unlisted_credentials_error_def
        sanitizeApiResponse_def redact_def sensitiveFields_def eval_simps)
  have un: "str_includes ?um ''tok-123''" "str_includes ?um ''tok-456''"
    "\<not> str_includes ?um ''[REDACTED]''"
    by (simp_all add: stringify_simps str_includes_def sublist_code prefix_code)
  have s: "fst (refreshToken example_config example_runtime example_credentials ?s) = Inl (new_Error ?sm)"
    by (simp add: refreshToken_eq refreshToken_catch_def server_error_def
        sanitizeApiResponse_def redact_def sensitiveFields_def REDACTED_def eval_simps)
  have sn: "str_includes ?sm ''[REDACTED]''" "\<not> str_includes ?sm ''should-be-redacted''"
    by (simp_all add: stringify_simps str_includes_def sublist_code prefix_code)
  have m: "err_message (new_Error ?um) = ?um" "err_message (new_Error ?sm) = ?sm"
    by (simp_all add: new_Error_def)
  have a: "\<exists>e. fst (refreshToken example_config example_runtime example_credentials ?u) = Inl e \<and>
        err_message e = ?um \<and> str_includes (err_message e) ''tok-123'' \<and>
        str_includes (err_message e) ''tok-456'' \<and> \<not> str_includes (err_message e) ''[REDACTED]''"
    using u un m(1) by (intro exI [of _ "new_Error ?um"]) simp
  have b: "\<exists>e. fst (refreshToken example_config example_runtime example_credentials ?s) = Inl e \<and>
        err_message e = ?sm \<and> str_includes (err_message e) ''[REDACTED]'' \<and>
        \<not> str_includes (err_message e) ''should-be-redacted''"
    using s sn m(2) by (intro exI [of _ "new_Error ?sm"]) simp
  show ?thesis using r a b by blast
qed

end
